theory Spec2Isabelle
  imports Main "HOL-Library.Word"
begin

section \<open>Data model of the validation layer (src/validation/validation-device.cpp)\<close>

text \<open>
  The embedding follows \<^verbatim>\<open>DeviceWrapper\<close>, the validation decorator placed in front of an
  \<^verbatim>\<open>IDevice\<close>. Fixed-width integers are words of the same width (\<^verbatim>\<open>uint64_t\<close> is
  \<open>64 word\<close>, so \<open>+\<close> wraps and \<open><\<close> is the unsigned order). A pointer or handle
  that may be null is an \<open>option\<close>. The wrapped device is a record of the answers its
  methods give; every call the decorator makes into it is appended to a log, and every
  call of the message sink is appended to a second log, so that "how often was the
  backend called" and "how often was the sink called" are properties of the final state.

  The text of a diagnostic is kept as the list of fragments that the source streams into
  it: a literal string, or a constructor holding the values that the source formats into
  the text. Number formatting and the helper \<^verbatim>\<open>utils::DebugNameToString\<close> are not part
  of the model; a debug name is stored as it is.
\<close>

datatype GraphicsAPI = D3D11 | D3D12 | VULKAN

datatype MessageSeverity = Info | Warning | Error | Fatal

datatype Feature = VirtualResources | ShaderSpecializations | ConservativeRasterization
  | ConstantBufferRanges | ComputeQueue | CopyQueue

datatype TextureDimension = Unknown | Texture1D | Texture1DArray | Texture2D | Texture2DArray
  | TextureCube | TextureCubeArray | Texture2DMS | Texture2DMSArray | Texture3D

datatype CpuAccessMode = CpuNone | CpuRead | CpuWrite

datatype Format = UNKNOWN | RGBA32_FLOAT | RGB32_FLOAT | RG32_FLOAT | RGBA16_FLOAT | RG16_FLOAT
  | RGBA16_SNORM | RG16_SNORM | RGBA8_SNORM | RG8_SNORM | RGBA16_UNORM | RG16_UNORM
  | RGBA8_UNORM | RG8_UNORM | R10G10B10A2_UNORM | Format_Other nat

datatype ResourceKind = KTexture | KBuffer | KAccelStruct

text \<open>
  \<^verbatim>\<open>ShaderType\<close> is a flag enum with one bit for each shader stage; a value is the set of
  its bits, so that \<^verbatim>\<open>!(visibility & stage)\<close> is \<open>visibility \<inter> stage = {}\<close>.
\<close>

datatype ShaderStageBit = Compute | Vertex | Hull | DomainStage | Geometry | Pixel
  | Amplification | Mesh | RayGeneration | AnyHit | ClosestHit | Miss | Intersection | Callable

type_synonym ShaderType = "ShaderStageBit set"

datatype ResourceType = ResourceType_None | Texture_SRV | Texture_UAV | TypedBuffer_SRV
  | TypedBuffer_UAV | StructuredBuffer_SRV | StructuredBuffer_UAV | RawBuffer_SRV | RawBuffer_UAV
  | ConstantBuffer | VolatileConstantBuffer | Sampler | RayTracingAccelStruct | PushConstants
  | SamplerFeedbackTexture_UAV | Count

datatype GraphicsResourceType = G_SRV | G_Sampler | G_UAV | G_CB

record BindingLocation =
  loc_type :: GraphicsResourceType
  loc_registerSpace :: "32 word"
  loc_slot :: "32 word"
  loc_arrayElement :: "32 word"

text \<open>
  \<^verbatim>\<open>BindingLocationSet\<close> is a \<^verbatim>\<open>std::unordered_set<BindingLocation>\<close>. It is modelled as a
  list without repetitions: \<^verbatim>\<open>insert\<close> is \<open>List.insert\<close>, \<^verbatim>\<open>erase\<close> is \<open>removeAll\<close>,
  \<^verbatim>\<open>find(x) != end()\<close> is \<open>x \<in> set xs\<close>, and a range-for visits the list in order (the
  order of an unordered set is unspecified; the theorems speak about \<open>set xs\<close> only).
\<close>

type_synonym BindingLocationSet = "BindingLocation list"

record Range =
  range_min :: "32 word"
  range_max :: "32 word"

record BindingSummary =
  locations :: BindingLocationSet
  numVolatileCBs :: "32 word"
  rangeSRV :: Range
  rangeSampler :: Range
  rangeUAV :: Range
  rangeCB :: Range

record BindingLayoutItem =
  item_slot :: "32 word"
  item_type :: ResourceType
  item_size :: "16 word"

record BindingLayoutDesc =
  visibility :: ShaderType
  registerSpace :: "32 word"
  registerSpaceIsDescriptorSet :: bool
  layout_bindings :: "BindingLayoutItem list"

record IBindingLayout =
  layout_id :: nat
  layout_getDesc :: "BindingLayoutDesc option"

record ShaderDesc =
  shaderType :: ShaderType
  shader_debugName :: string
  entryName :: string

record IShader =
  shader_id :: nat
  shader_getDesc :: ShaderDesc

record TextureSubresourceSet =
  baseMipLevel :: "32 word"
  numMipLevels :: "32 word"
  baseArraySlice :: "32 word"
  numArraySlices :: "32 word"

record BufferRange =
  byteOffset :: "64 word"
  byteSize :: "64 word"

datatype Fault = NullDereference | InvalidCast

datatype ItemRule = NoneNotAllowedInBindingSets | NullTexture | SubresourcesDoNotIntersect
  | TextureNotUAV | DimensionIncompatible | NullBuffer | NoTypedViews | NoStructStride
  | NoRawViews | NoBufferUAVs | NotAConstantBuffer | VolatileBoundAsRegular
  | RegularBoundAsVolatile | BothFormatsUnknown | PartialBindingUnsupported
  | OffsetNotAligned | SizeZeroOrNotAligned | VolatilePartiallyBound | NullSampler
  | NullAccelStruct | PushConstantsInDescriptorTable | PushConstantsWithResource
  | PushConstantsZeroSize | UnrecognizedResourceType

type_synonym ResourceStates = "32 word"

definition ResourceStates_Unknown :: ResourceStates where
  \<comment> \<open>\<^verbatim>\<open>ResourceStates::Unknown\<close>; the enum lives in the public header, where it is the
      value with no state bit set.\<close>
  "ResourceStates_Unknown = 0"

record HeapDesc =
  capacity :: "64 word"
  heap_debugName :: string

record IHeap =
  heap_id :: nat
  heap_getDesc :: HeapDesc

record MemoryRequirements =
  size_req :: "64 word"
  alignment :: "64 word"

record TextureDesc =
  width :: "32 word"
  height :: "32 word"
  depth :: "32 word"
  arraySize :: "32 word"
  mipLevels :: "32 word"
  sampleCount :: "32 word"
  dimension :: TextureDimension
  tex_debugName :: string
  isUAV :: bool
  tex_isVirtual :: bool
  tex_initialState :: ResourceStates
  tex_keepInitialState :: bool

record ITexture =
  tex_id :: nat
  tex_getDesc :: TextureDesc

record BufferDesc =
  buf_debugName :: string
  isVolatile :: bool
  isConstantBuffer :: bool
  maxVersions :: "32 word"
  isVertexBuffer :: bool
  isIndexBuffer :: bool
  isDrawIndirectArgs :: bool
  canHaveUAVs :: bool
  isAccelStructBuildInput :: bool
  isAccelStructStorage :: bool
  isShaderBindingTable :: bool
  buf_isVirtual :: bool
  cpuAccess :: CpuAccessMode
  buf_initialState :: ResourceStates
  buf_keepInitialState :: bool
  canHaveTypedViews :: bool
  canHaveRawViews :: bool
  structStride :: "32 word"
  buf_format :: Format

record IBuffer =
  buf_id :: nat
  buf_getDesc :: BufferDesc

text \<open>
  \<^verbatim>\<open>rt::AccelStructBuildFlags\<close> is a flag enum; a value is the set of its flags, so that
  \<^verbatim>\<open>(flags & F) != 0\<close> is \<open>F \<in> flags\<close>.
\<close>

datatype AccelStructBuildFlag = AllowUpdate | AllowCompaction | PreferFastTrace
  | PreferFastBuild | MinimizeMemory | PerformUpdate

record AccelStructDesc =
  isTopLevel :: bool
  buildFlags :: "AccelStructBuildFlag set"
  topLevelMaxInstances :: "64 word"
  as_debugName :: string
  as_isVirtual :: bool

text \<open>
  An acceleration structure seen through \<^verbatim>\<open>rt::IAccelStruct*\<close> is either an object of the
  backend or the decorator's \<^verbatim>\<open>AccelStructWrapper\<close>, which owns the handle it wraps.
\<close>

datatype IAccelStruct =
    NativeAccelStruct nat AccelStructDesc
  | AccelStructWrapper (getUnderlyingObject: IAccelStruct) (w_isTopLevel: bool)
      (w_allowUpdate: bool) (w_allowCompaction: bool) (w_maxInstances: "64 word")

fun as_getDesc :: "IAccelStruct \<Rightarrow> AccelStructDesc" where
  "as_getDesc (NativeAccelStruct i d) = d"
| "as_getDesc (AccelStructWrapper a t u c m) = as_getDesc a"

text \<open>
  What an \<^verbatim>\<open>IResource*\<close> can point to. \<open>Res_Other\<close> stands for every resource class the
  validation of bindings does not look into (command lists and their wrappers among them).
\<close>

datatype IResource =
    Res_Texture ITexture
  | Res_Buffer IBuffer
  | Res_Sampler nat
  | Res_AccelStruct IAccelStruct
  | Res_SamplerFeedbackTexture nat
  | Res_Other nat

record BindingSetItem =
  bs_slot :: "32 word"
  bs_arrayElement :: "32 word"
  bs_type :: ResourceType
  resourceHandle :: "IResource option"
  bs_dimension :: TextureDimension
  bs_format :: Format
  subresources :: TextureSubresourceSet
  bs_range :: BufferRange

record BindingSetDesc =
  set_bindings :: "BindingSetItem list"

type_synonym BindingLayoutHandle = "IBindingLayout option"

record RenderState =
  depthTestEnable :: bool
  depthWriteEnable :: bool
  stencilEnable :: bool
  stencilWriteMask :: "8 word"
  conservativeRasterEnable :: bool

record FramebufferDesc =
  depthAttachment_valid :: bool
  depthAttachment_isReadOnly :: bool

record IFramebuffer =
  fb_id :: nat
  fb_getDesc :: FramebufferDesc

record ComputePipelineDesc =
  CS :: "IShader option"
  cp_bindingLayouts :: "BindingLayoutHandle list"

record GraphicsPipelineDesc =
  gp_VS :: "IShader option"
  gp_HS :: "IShader option"
  gp_DS :: "IShader option"
  gp_GS :: "IShader option"
  gp_PS :: "IShader option"
  gp_bindingLayouts :: "BindingLayoutHandle list"
  gp_renderState :: RenderState

record MeshletPipelineDesc =
  mp_AS :: "IShader option"
  mp_MS :: "IShader option"
  mp_PS :: "IShader option"
  mp_bindingLayouts :: "BindingLayoutHandle list"
  mp_renderState :: RenderState

datatype TextureRule = ExtentsMustNotBeZero | HeightMustBe1 | DepthMustBe1 | ArraySizeMustBe1
  | ArraySizeMustBe6 | ArraySizeMustBeMultipleOf6 | SampleCountMustBe1 | SampleCountMustBe2or4or8
  | MultisampledCannotHaveUAVs | VirtualNotSupported | InitialStateUnknownButKept

datatype BufferRule = VolatileButNotConstantBuffer | VolatileMaxVersionsZero
  | VolatileUnsupportedUsageFlags | VolatileCpuAccessNotNone | BufferInitialStateUnknownButKept

datatype ClusterRule = UnknownOperationMode | InvalidVertexFormat | MaxGeometryIndexOver
  | MinPositionTruncateBitCountOver | MaxTriangleCountOver | MaxVertexCountOver
  | MaxTriangleCountOverTotal | MaxVertexCountOverTotal | MaxUniqueGeometryCountOverTriangles

datatype finding =
    Literal string
  | NotVirtual string string
  | DoesNotFit ResourceKind string string "64 word" "64 word" "64 word"
  | InvalidAlignment ResourceKind string string "64 word" "64 word"
  | TextureFinding TextureRule TextureDimension string "32 word list"
  | BufferFinding BufferRule string "string list"
  | ApiUnsupported GraphicsAPI string
  | TlasWithCompaction string
  | UpdateAndCompaction string
  | InvalidLayoutItemType ResourceType
  | ItemFinding ItemRule string
  | DeclaredNotBound BindingLocationSet
  | BoundNotDeclared BindingLocationSet
  | SetDuplicates BindingLocationSet
  | LayoutIsNull nat
  | DuplicatesHeader
  | DuplicatesOfStage ShaderType BindingLocationSet
  | OverlapsHeader
  | OverlapsOfStage ShaderType "GraphicsResourceType list"
  | RegisterSpaceTooLarge nat "32 word"
  | RegisterSpaceReused nat "32 word" int
  | TooManyPushConstantBlocks int
  | PushConstantsTooLarge "32 word"
  | UnexpectedShaderType string ShaderType ShaderType string string
  | ClusterFinding ClusterRule string

text \<open>
  Descriptors and native objects that the decorator only passes on are kept opaque.
\<close>

type_synonym SamplerFeedbackTextureDesc = nat
type_synonym SamplerFeedbackTextureHandle = "nat option"
type_synonym ObjectType = nat
type_synonym Object = nat

datatype BackendCall =
    Call_getGraphicsAPI
  | Call_queryFeatureSupport Feature
  | Call_createTexture TextureDesc
  | Call_createBuffer BufferDesc
  | Call_createSamplerFeedbackTexture "ITexture option" SamplerFeedbackTextureDesc
  | Call_createSamplerFeedbackForNativeTexture ObjectType Object "ITexture option"
  | Call_createAccelStruct AccelStructDesc
  | Call_createBindingSet BindingSetDesc IBindingLayout
  | Call_writeDescriptorTable nat BindingSetItem
  | Call_createComputePipeline ComputePipelineDesc
  | Call_createGraphicsPipeline GraphicsPipelineDesc "IFramebuffer option"
  | Call_createMeshletPipeline MeshletPipelineDesc "IFramebuffer option"
  | Call_getTextureMemoryRequirements ITexture
  | Call_bindTextureMemory ITexture IHeap "64 word"
  | Call_getBufferMemoryRequirements IBuffer
  | Call_bindBufferMemory IBuffer IHeap "64 word"
  | Call_getAccelStructMemoryRequirements IAccelStruct
  | Call_bindAccelStructMemory IAccelStruct IHeap "64 word"

record IDevice =
  dev_getGraphicsAPI :: GraphicsAPI
  dev_queryFeatureSupport :: "Feature \<Rightarrow> bool"
  dev_createTexture :: "TextureDesc \<Rightarrow> ITexture option"
  dev_createBuffer :: "BufferDesc \<Rightarrow> IBuffer option"
  dev_createSamplerFeedbackTexture ::
    "ITexture option \<Rightarrow> SamplerFeedbackTextureDesc \<Rightarrow> SamplerFeedbackTextureHandle"
  dev_createSamplerFeedbackForNativeTexture ::
    "ObjectType \<Rightarrow> Object \<Rightarrow> ITexture option \<Rightarrow> SamplerFeedbackTextureHandle"
  dev_createAccelStruct :: "AccelStructDesc \<Rightarrow> IAccelStruct option"
  dev_createBindingSet :: "BindingSetDesc \<Rightarrow> IBindingLayout \<Rightarrow> nat option"
  dev_writeDescriptorTable :: "nat \<Rightarrow> BindingSetItem \<Rightarrow> bool"
  dev_createComputePipeline :: "ComputePipelineDesc \<Rightarrow> nat option"
  dev_createGraphicsPipeline :: "GraphicsPipelineDesc \<Rightarrow> IFramebuffer option \<Rightarrow> nat option"
  dev_createMeshletPipeline :: "MeshletPipelineDesc \<Rightarrow> IFramebuffer option \<Rightarrow> nat option"
  dev_getTextureMemoryRequirements :: "ITexture \<Rightarrow> MemoryRequirements"
  dev_bindTextureMemory :: "ITexture \<Rightarrow> IHeap \<Rightarrow> 64 word \<Rightarrow> bool"
  dev_getBufferMemoryRequirements :: "IBuffer \<Rightarrow> MemoryRequirements"
  dev_bindBufferMemory :: "IBuffer \<Rightarrow> IHeap \<Rightarrow> 64 word \<Rightarrow> bool"
  dev_getAccelStructMemoryRequirements :: "IAccelStruct \<Rightarrow> MemoryRequirements"
  dev_bindAccelStructMemory :: "IAccelStruct \<Rightarrow> IHeap \<Rightarrow> 64 word \<Rightarrow> bool"

text \<open>
  Helpers, constants and member functions of this repository that are declared in headers
  which are not among the sources (\<^verbatim>\<open>nvrhi/nvrhi.h\<close>, \<^verbatim>\<open>nvrhi/utils.h\<close>,
  \<^verbatim>\<open>validation-backend.h\<close>) are parameters of the model: the debug-name generators, the
  array size of a layout item, the resource class that a default-constructed
  \<^verbatim>\<open>BindingLocation\<close> holds, the limits \<^verbatim>\<open>c_MaxBindingLayouts\<close>,
  \<^verbatim>\<open>c_MaxPushConstantSize\<close> and \<^verbatim>\<open>c_ConstantBufferOffsetSizeAlignment\<close>, and the
  \<^verbatim>\<open>resolve\<close> and \<^verbatim>\<open>isEntireBuffer\<close> members of the subresource set and the buffer range.
\<close>

record Externals =
  GenerateTextureDebugName :: "TextureDesc \<Rightarrow> string"
  GenerateBufferDebugName :: "BufferDesc \<Rightarrow> string"
  getArraySize :: "BindingLayoutItem \<Rightarrow> 32 word"
  defaultLocationType :: GraphicsResourceType
  c_MaxBindingLayouts :: nat
  c_MaxPushConstantSize :: "32 word"
  c_ConstantBufferOffsetSizeAlignment :: "64 word"
  resolveSubresources :: "TextureSubresourceSet \<Rightarrow> TextureDesc \<Rightarrow> TextureSubresourceSet"
  isEntireBuffer :: "BufferRange \<Rightarrow> BufferDesc \<Rightarrow> bool"
  resolveRange :: "BufferRange \<Rightarrow> BufferDesc \<Rightarrow> BufferRange"

record State =
  sink :: "(MessageSeverity \<times> finding list) list"
  calls :: "BackendCall list"

definition error :: "State \<Rightarrow> finding list \<Rightarrow> State" where
  "error st messageText = st\<lparr>sink := sink st @ [(Error, messageText)]\<rparr>"

definition warning :: "State \<Rightarrow> finding list \<Rightarrow> State" where
  "warning st messageText = st\<lparr>sink := sink st @ [(Warning, messageText)]\<rparr>"

definition backend :: "State \<Rightarrow> BackendCall \<Rightarrow> State" where
  "backend st c = st\<lparr>calls := calls st @ [c]\<rparr>"

section \<open>Memory binding\<close>

text \<open>
  The idiom \<^verbatim>\<open>wrapper = dynamic_cast<AccelStructWrapper*>(as); if (wrapper) as =
  wrapper->getUnderlyingObject();\<close> of \<^verbatim>\<open>bindAccelStructMemory\<close> and
  \<^verbatim>\<open>getAccelStructMemoryRequirements\<close>: one level of wrapping is removed.
\<close>

definition underlyingAccelStruct :: "IAccelStruct \<Rightarrow> IAccelStruct" where
  "underlyingAccelStruct as0 =
    (case as0 of AccelStructWrapper u t up c m \<Rightarrow> u | NativeAccelStruct i d \<Rightarrow> as0)"

definition bindTextureMemory ::
  "IDevice \<Rightarrow> State \<Rightarrow> ITexture option \<Rightarrow> IHeap option \<Rightarrow> 64 word \<Rightarrow> State \<times> bool" where
  "bindTextureMemory dev st texture heap offset =
    (case texture of
      None \<Rightarrow> (error st [Literal ''bindTextureMemory: texture is NULL''], False)
    | Some tex \<Rightarrow>
      (case heap of
        None \<Rightarrow> (error st [Literal ''bindTextureMemory: heap is NULL''], False)
      | Some hp \<Rightarrow>
        (let heapDesc = heap_getDesc hp; textureDesc = tex_getDesc tex in
          if \<not> tex_isVirtual textureDesc
          then (error st [NotVirtual ''bindTextureMemory'' (tex_debugName textureDesc)], False)
          else
            (let st1 = backend st (Call_getTextureMemoryRequirements tex);
                 memReq = dev_getTextureMemoryRequirements dev tex in
              if offset + size_req memReq > capacity heapDesc
              then (error st1 [DoesNotFit KTexture (tex_debugName textureDesc)
                      (heap_debugName heapDesc) offset (size_req memReq) (capacity heapDesc)], False)
              else if alignment memReq \<noteq> 0 \<and> offset mod alignment memReq \<noteq> 0
              then (error st1 [InvalidAlignment KTexture (tex_debugName textureDesc)
                      (heap_debugName heapDesc) (alignment memReq) offset], False)
              else (backend st1 (Call_bindTextureMemory tex hp offset),
                    dev_bindTextureMemory dev tex hp offset)))))"

definition bindBufferMemory ::
  "IDevice \<Rightarrow> State \<Rightarrow> IBuffer option \<Rightarrow> IHeap option \<Rightarrow> 64 word \<Rightarrow> State \<times> bool" where
  "bindBufferMemory dev st buffer heap offset =
    (case buffer of
      None \<Rightarrow> (error st [Literal ''bindBufferMemory: texture is NULL''], False)
    | Some buf \<Rightarrow>
      (case heap of
        None \<Rightarrow> (error st [Literal ''bindBufferMemory: heap is NULL''], False)
      | Some hp \<Rightarrow>
        (let heapDesc = heap_getDesc hp; bufferDesc = buf_getDesc buf in
          if \<not> buf_isVirtual bufferDesc
          then (error st [NotVirtual ''bindBufferMemory'' (buf_debugName bufferDesc)], False)
          else
            (let st1 = backend st (Call_getBufferMemoryRequirements buf);
                 memReq = dev_getBufferMemoryRequirements dev buf in
              if offset + size_req memReq > capacity heapDesc
              then (error st1 [DoesNotFit KBuffer (buf_debugName bufferDesc)
                      (heap_debugName heapDesc) offset (size_req memReq) (capacity heapDesc)], False)
              else if alignment memReq \<noteq> 0 \<and> offset mod alignment memReq \<noteq> 0
              then (error st1 [InvalidAlignment KBuffer (buf_debugName bufferDesc)
                      (heap_debugName heapDesc) (alignment memReq) offset], False)
              else (backend st1 (Call_bindBufferMemory buf hp offset),
                    dev_bindBufferMemory dev buf hp offset)))))"

definition bindAccelStructMemory ::
  "IDevice \<Rightarrow> State \<Rightarrow> IAccelStruct option \<Rightarrow> IHeap option \<Rightarrow> 64 word \<Rightarrow> State \<times> bool" where
  "bindAccelStructMemory dev st as_in heap offset =
    (case as_in of
      None \<Rightarrow> (error st [Literal ''bindAccelStructMemory: texture is NULL''], False)
    | Some as0 \<Rightarrow>
      (case heap of
        None \<Rightarrow> (error st [Literal ''bindAccelStructMemory: heap is NULL''], False)
      | Some hp \<Rightarrow>
        (let as = underlyingAccelStruct as0;
             heapDesc = heap_getDesc hp; asDesc = as_getDesc as in
          if \<not> as_isVirtual asDesc
          then (error st [NotVirtual ''bindAccelStructMemory'' (as_debugName asDesc)], False)
          else
            (let st1 = backend st (Call_getAccelStructMemoryRequirements as);
                 memReq = dev_getAccelStructMemoryRequirements dev as in
              if offset + size_req memReq > capacity heapDesc
              then (error st1 [DoesNotFit KAccelStruct (as_debugName asDesc)
                      (heap_debugName heapDesc) offset (size_req memReq) (capacity heapDesc)], False)
              else if alignment memReq \<noteq> 0 \<and> offset mod alignment memReq \<noteq> 0
              then (error st1 [InvalidAlignment KAccelStruct (as_debugName asDesc)
                      (heap_debugName heapDesc) (alignment memReq) offset], False)
              else (backend st1 (Call_bindAccelStructMemory as hp offset),
                    dev_bindAccelStructMemory dev as hp offset)))))"

section \<open>Texture and buffer creation\<close>

text \<open>
  The block \<^verbatim>\<open>if (c) { ...; error(ss.str()); anyErrors = true; }\<close> on the pair of the state
  and the flag \<^verbatim>\<open>anyErrors\<close>.
\<close>

definition report_if :: "bool \<Rightarrow> finding list \<Rightarrow> State \<times> bool \<Rightarrow> State \<times> bool" where
  "report_if c messageText s = (if c then (error (fst s) messageText, True) else s)"


definition createBuffer ::
  "Externals \<Rightarrow> IDevice \<Rightarrow> State \<Rightarrow> BufferDesc \<Rightarrow> State \<times> IBuffer option" where
  "createBuffer ext dev st d =
    (let patchedDesc =
           (if buf_debugName d = [] then d\<lparr>buf_debugName := GenerateBufferDebugName ext d\<rparr>
            else d)
     in
      if isVolatile d \<and> \<not> isConstantBuffer d
      then (error st [BufferFinding VolatileButNotConstantBuffer (buf_debugName patchedDesc) []],
            None)
      else if isVolatile d \<and> maxVersions d = 0
      then (error st [BufferFinding VolatileMaxVersionsZero (buf_debugName patchedDesc) []], None)
      else if isVolatile d \<and> (isVertexBuffer d \<or> isIndexBuffer d \<or> isDrawIndirectArgs d
              \<or> canHaveUAVs d \<or> isAccelStructBuildInput d \<or> isAccelStructStorage d
              \<or> isShaderBindingTable d \<or> buf_isVirtual d)
      then (error st [BufferFinding VolatileUnsupportedUsageFlags (buf_debugName patchedDesc)
              ((if isVertexBuffer d then [''IsVertexBuffer''] else [])
               @ (if isIndexBuffer d then [''IsIndexBuffer''] else [])
               @ (if isDrawIndirectArgs d then [''IsDrawIndirectArgs''] else [])
               @ (if canHaveUAVs d then [''CanHaveUAVs''] else [])
               @ (if isAccelStructBuildInput d then [''IsAccelStructBuildInput''] else [])
               @ (if isAccelStructStorage d then [''IsAccelStructStorage''] else [])
               @ (if isShaderBindingTable d then [''IsShaderBindingTable''] else [])
               @ (if buf_isVirtual d then [''IsVirtual''] else []))], None)
      else if isVolatile d \<and> cpuAccess d \<noteq> CpuNone
      then (error st [BufferFinding VolatileCpuAccessNotNone (buf_debugName patchedDesc) []], None)
      else if buf_isVirtual d \<and> \<not> dev_queryFeatureSupport dev VirtualResources
      then (error (backend st (Call_queryFeatureSupport VirtualResources))
              [Literal ''The device does not support virtual resources''], None)
      else
       (let st1 = (if buf_isVirtual d then backend st (Call_queryFeatureSupport VirtualResources)
                   else st)
        in if buf_keepInitialState d \<and> buf_initialState d = ResourceStates_Unknown
           then (error st1 [BufferFinding BufferInitialStateUnknownButKept
                   (buf_debugName patchedDesc) []], None)
           else (backend st1 (Call_createBuffer patchedDesc), dev_createBuffer dev patchedDesc)))"

section \<open>Sampler feedback textures\<close>

definition createSamplerFeedbackTexture ::
  "IDevice \<Rightarrow> State \<Rightarrow> ITexture option \<Rightarrow> SamplerFeedbackTextureDesc
    \<Rightarrow> State \<times> SamplerFeedbackTextureHandle" where
  "createSamplerFeedbackTexture dev st pairedTexture desc =
    (let st1 = backend st Call_getGraphicsAPI; graphicsApi = dev_getGraphicsAPI dev in
      if graphicsApi \<noteq> D3D12
      then (error (backend st1 Call_getGraphicsAPI)
              [ApiUnsupported (dev_getGraphicsAPI dev) ''createSamplerFeedbackTexture''], None)
      else (backend st1 (Call_createSamplerFeedbackTexture pairedTexture desc),
            dev_createSamplerFeedbackTexture dev pairedTexture desc))"

text \<open>
  \<^verbatim>\<open>createSamplerFeedbackForNativeTexture\<close> ends in a call of the method itself
  (\<^verbatim>\<open>return createSamplerFeedbackForNativeTexture(objectType, texture, pairedTexture);\<close>,
  with no \<^verbatim>\<open>m_Device->\<close>), so the model is a recursive function that may not return:
  \<open>None\<close> is "does not return".
\<close>

partial_function (option) createSamplerFeedbackForNativeTexture ::
  "IDevice \<Rightarrow> State \<Rightarrow> ObjectType \<Rightarrow> Object \<Rightarrow> ITexture option
    \<Rightarrow> (State \<times> SamplerFeedbackTextureHandle) option" where
  "createSamplerFeedbackForNativeTexture dev st objectType texture pairedTexture =
    (let st1 = backend st Call_getGraphicsAPI; graphicsApi = dev_getGraphicsAPI dev in
      if graphicsApi \<noteq> D3D12
      then Some (error (backend st1 Call_getGraphicsAPI)
              [ApiUnsupported (dev_getGraphicsAPI dev) ''createSamplerFeedbackForNativeTexture''],
              None)
      else createSamplerFeedbackForNativeTexture dev st1 objectType texture pairedTexture)"

section \<open>Acceleration structures and the resource wrapping layer\<close>

definition createAccelStruct ::
  "IDevice \<Rightarrow> State \<Rightarrow> AccelStructDesc \<Rightarrow> State \<times> IAccelStruct option" where
  "createAccelStruct dev st desc =
    (let st1 = backend st (Call_createAccelStruct desc); as = dev_createAccelStruct dev desc in
      case as of
        None \<Rightarrow> (st1, None)
      | Some a \<Rightarrow>
          if AllowCompaction \<in> buildFlags desc \<and> isTopLevel desc
          then (error st1 [TlasWithCompaction (as_debugName desc)], None)
          else if AllowUpdate \<in> buildFlags desc \<and> AllowCompaction \<in> buildFlags desc
          then (error st1 [UpdateAndCompaction (as_debugName desc)], None)
          else (st1, Some (AccelStructWrapper a (isTopLevel desc) (AllowUpdate \<in> buildFlags desc)
                  (AllowCompaction \<in> buildFlags desc) (topLevelMaxInstances desc))))"

fun unwrapResource :: "IResource option \<Rightarrow> IResource option" where
  "unwrapResource None = None"
| "unwrapResource (Some (Res_AccelStruct (AccelStructWrapper u t up c m))) =
     Some (Res_AccelStruct u)"
| "unwrapResource (Some resource) = Some resource"

section \<open>Cluster operation parameters\<close>









section \<open>Binding summaries\<close>

definition SetDifference :: "'a list \<Rightarrow> 'a list \<Rightarrow> 'a list" where
  "SetDifference a b = foldl (\<lambda>result item. removeAll item result) a b"

definition SetIntersection :: "'a list \<Rightarrow> 'a list \<Rightarrow> 'a list" where
  "SetIntersection a b =
     foldl (\<lambda>result item. if item \<in> set b then List.insert item result else result) [] a"

definition SetUnionInplace :: "'a list \<Rightarrow> 'a list \<Rightarrow> 'a list" where
  "SetUnionInplace a b = foldl (\<lambda>result item. List.insert item result) a b"

definition Range_init :: Range where
  \<comment> \<open>Modelled from the spec: the member initialisers of \<^verbatim>\<open>Range\<close> are in
      \<^verbatim>\<open>validation-backend.h\<close>, which is not among the sources; the specification says
      that a Range is empty exactly when no slot was ever added, \<open>min\<close> being initialised
      above \<open>max\<close>.\<close>
  "Range_init = \<lparr>range_min = - 1, range_max = 0\<rparr>"

definition Range_add :: "Range \<Rightarrow> 32 word \<Rightarrow> Range" where
  "Range_add r item = r\<lparr>range_min := min (range_min r) item, range_max := max (range_max r) item\<rparr>"

definition Range_empty :: "Range \<Rightarrow> bool" where
  "Range_empty r = (range_min r > range_max r)"

definition Range_overlapsWith :: "Range \<Rightarrow> Range \<Rightarrow> bool" where
  "Range_overlapsWith r other =
     (\<not> Range_empty r \<and> \<not> Range_empty other
      \<and> range_max r \<ge> range_min other \<and> range_min r \<le> range_max other)"

definition BindingSummary_init :: BindingSummary where
  "BindingSummary_init = \<lparr>locations = [], numVolatileCBs = 0, rangeSRV = Range_init,
     rangeSampler = Range_init, rangeUAV = Range_init, rangeCB = Range_init\<rparr>"

definition BindingSummary_any :: "BindingSummary \<Rightarrow> bool" where
  "BindingSummary_any b = (locations b \<noteq> [])"

definition BindingSummary_overlapsWith :: "BindingSummary \<Rightarrow> BindingSummary \<Rightarrow> bool" where
  "BindingSummary_overlapsWith b other =
     (Range_overlapsWith (rangeSRV b) (rangeSRV other)
      \<or> Range_overlapsWith (rangeSampler b) (rangeSampler other)
      \<or> Range_overlapsWith (rangeUAV b) (rangeUAV other)
      \<or> Range_overlapsWith (rangeCB b) (rangeCB other))"

text \<open>
  \<^verbatim>\<open>UpdateBindingSummaryWithLocation\<close>: the switch on the resource type sets the class of
  the location and extends the range of that class; then the location is added to the
  set of locations, or to \<^verbatim>\<open>duplicates\<close> if it is there already. The function calls the
  sink itself for a type outside the four classes.
\<close>

definition classify ::
  "State \<Rightarrow> ResourceType \<Rightarrow> BindingLocation \<Rightarrow> BindingSummary
    \<Rightarrow> State \<times> BindingLocation \<times> BindingSummary" where
  "classify st type location bindings =
    (if type \<in> {Texture_SRV, TypedBuffer_SRV, StructuredBuffer_SRV, RawBuffer_SRV,
                 RayTracingAccelStruct}
     then (st, location\<lparr>loc_type := G_SRV\<rparr>,
           bindings\<lparr>rangeSRV := Range_add (rangeSRV bindings) (loc_slot location)\<rparr>)
     else if type \<in> {Texture_UAV, TypedBuffer_UAV, StructuredBuffer_UAV, RawBuffer_UAV,
                      SamplerFeedbackTexture_UAV}
     then (st, location\<lparr>loc_type := G_UAV\<rparr>,
           bindings\<lparr>rangeUAV := Range_add (rangeUAV bindings) (loc_slot location)\<rparr>)
     else if type \<in> {ConstantBuffer, VolatileConstantBuffer, PushConstants}
     then (st, location\<lparr>loc_type := G_CB\<rparr>,
           (let b1 = bindings\<lparr>rangeCB := Range_add (rangeCB bindings) (loc_slot location)\<rparr>
            in if type = VolatileConstantBuffer
               then b1\<lparr>numVolatileCBs := numVolatileCBs b1 + 1\<rparr> else b1))
     else if type = Sampler
     then (st, location\<lparr>loc_type := G_Sampler\<rparr>,
           bindings\<lparr>rangeSampler := Range_add (rangeSampler bindings) (loc_slot location)\<rparr>)
     else (error st [InvalidLayoutItemType type], location, bindings))"

definition UpdateBindingSummaryWithLocation ::
  "State \<Rightarrow> ResourceType \<Rightarrow> BindingLocation \<Rightarrow> BindingSummary \<Rightarrow> BindingLocationSet
    \<Rightarrow> State \<times> BindingSummary \<times> BindingLocationSet" where
  "UpdateBindingSummaryWithLocation st type location0 bindings0 duplicates =
    (case classify st type location0 bindings0 of (st1, location, bindings) \<Rightarrow>
      if location \<in> set (locations bindings)
      then (st1, bindings, List.insert location duplicates)
      else (st1, bindings\<lparr>locations := List.insert location (locations bindings)\<rparr>, duplicates))"

definition FillBindingLayoutSummary ::
  "Externals \<Rightarrow> State \<Rightarrow> BindingLayoutDesc \<Rightarrow> BindingSummary \<Rightarrow> BindingLocationSet
    \<Rightarrow> State \<times> BindingSummary \<times> BindingLocationSet" where
  "FillBindingLayoutSummary ext st desc bindings duplicates =
    foldl (\<lambda>acc item.
        foldl (\<lambda>(st1, b, d) k.
            UpdateBindingSummaryWithLocation st1 (item_type item)
              \<lparr>loc_type = defaultLocationType ext, loc_registerSpace = registerSpace desc,
               loc_slot = item_slot item, loc_arrayElement = of_nat k\<rparr> b d)
          acc [0 ..< unat (getArraySize ext item)])
      (st, bindings, duplicates) (layout_bindings desc)"

definition FillBindingSetSummary ::
  "Externals \<Rightarrow> State \<Rightarrow> BindingSetDesc \<Rightarrow> 32 word \<Rightarrow> BindingSummary \<Rightarrow> BindingLocationSet
    \<Rightarrow> State \<times> BindingSummary \<times> BindingLocationSet" where
  "FillBindingSetSummary ext st desc registerSpace0 bindings duplicates =
    foldl (\<lambda>(st1, b, d) item.
        UpdateBindingSummaryWithLocation st1 (bs_type item)
          \<lparr>loc_type = defaultLocationType ext, loc_registerSpace = registerSpace0,
           loc_slot = bs_slot item, loc_arrayElement = bs_arrayElement item\<rparr> b d)
      (st, bindings, duplicates) (set_bindings desc)"

section \<open>Validation of one binding item\<close>

definition textureDimensionsCompatible :: "TextureDimension \<Rightarrow> TextureDimension \<Rightarrow> bool" where
  "textureDimensionsCompatible resourceDimension viewDimension =
    (if resourceDimension = viewDimension then True
     else if resourceDimension = Texture3D then viewDimension = Texture2DArray
     else if resourceDimension = TextureCube \<or> resourceDimension = TextureCubeArray
     then viewDimension = Texture2DArray
     else False)"

text \<open>
  \<^verbatim>\<open>checked_cast<T*>\<close> is a \<^verbatim>\<open>static_cast\<close> (checked by an assertion in debug builds): a
  null handle stays null, a handle to an object of another class is a fault of the call.
  For the diagnostics of an item only the rule and the debug name of the resource are
  kept.
\<close>

definition validateBindingSetItem_texture ::
  "Externals \<Rightarrow> State \<Rightarrow> BindingSetItem \<Rightarrow> finding list
    \<Rightarrow> State \<times> finding list \<times> (Fault + bool)" where
  "validateBindingSetItem_texture ext st binding errorStream =
    (case resourceHandle binding of
      None \<Rightarrow> (st, errorStream @ [ItemFinding NullTexture []], Inr False)
    | Some (Res_Texture texture) \<Rightarrow>
       (let desc = tex_getDesc texture;
            sub = resolveSubresources ext (subresources binding) desc in
         if numArraySlices sub = 0 \<or> numMipLevels sub = 0
         then (st, errorStream @ [ItemFinding SubresourcesDoNotIntersect (tex_debugName desc)],
               Inr False)
         else if bs_type binding = Texture_UAV \<and> \<not> isUAV desc
         then (st, errorStream @ [ItemFinding TextureNotUAV (tex_debugName desc)], Inr False)
         else if bs_dimension binding \<noteq> Unknown
               \<and> \<not> textureDimensionsCompatible (dimension desc) (bs_dimension binding)
         then (st, errorStream @ [ItemFinding DimensionIncompatible (tex_debugName desc)],
               Inr False)
         else (st, errorStream, Inr True))
    | Some other \<Rightarrow> (st, errorStream, Inl InvalidCast))"

definition validateBindingSetItem_bufferDesc ::
  "Externals \<Rightarrow> IDevice \<Rightarrow> State \<Rightarrow> BindingSetItem \<Rightarrow> BufferDesc \<Rightarrow> finding list
    \<Rightarrow> State \<times> finding list \<times> (Fault + bool)" where
  "validateBindingSetItem_bufferDesc ext dev st binding desc errorStream =
    (let type = bs_type binding;
         isTypedView = (type = TypedBuffer_SRV \<or> type = TypedBuffer_UAV);
         isStructuredView = (type = StructuredBuffer_SRV \<or> type = StructuredBuffer_UAV);
         isRawView = (type = RawBuffer_SRV \<or> type = RawBuffer_UAV);
         isUAVView = (type = TypedBuffer_UAV \<or> type = StructuredBuffer_UAV \<or> type = RawBuffer_UAV);
         isConstantView = (type = ConstantBuffer \<or> type = VolatileConstantBuffer);
         name = buf_debugName desc
     in
      if isTypedView \<and> \<not> canHaveTypedViews desc
      then (st, errorStream @ [ItemFinding NoTypedViews name], Inr False)
      else if isStructuredView \<and> structStride desc = 0
      then (st, errorStream @ [ItemFinding NoStructStride name], Inr False)
      else if isRawView \<and> \<not> canHaveRawViews desc
      then (st, errorStream @ [ItemFinding NoRawViews name], Inr False)
      else if isUAVView \<and> \<not> canHaveUAVs desc
      then (st, errorStream @ [ItemFinding NoBufferUAVs name], Inr False)
      else if isConstantView \<and> \<not> isConstantBuffer desc
      then (st, errorStream @ [ItemFinding NotAConstantBuffer name], Inr False)
      else if type = ConstantBuffer \<and> isVolatile desc
      then (st, errorStream @ [ItemFinding VolatileBoundAsRegular name], Inr False)
      else if type = VolatileConstantBuffer \<and> \<not> isVolatile desc
      then (st, errorStream @ [ItemFinding RegularBoundAsVolatile name], Inr False)
      else if isTypedView \<and> bs_format binding = UNKNOWN \<and> buf_format desc = UNKNOWN
      then (st, errorStream @ [ItemFinding BothFormatsUnknown name], Inr False)
      else if type = ConstantBuffer \<and> \<not> isEntireBuffer ext (bs_range binding) desc
      then
        (let st1 = backend st (Call_queryFeatureSupport ConstantBufferRanges) in
          if \<not> dev_queryFeatureSupport dev ConstantBufferRanges
          then (st1, errorStream @ [ItemFinding PartialBindingUnsupported name], Inr False)
          else
           (let range = resolveRange ext (bs_range binding) desc in
             if byteOffset range mod c_ConstantBufferOffsetSizeAlignment ext \<noteq> 0
             then (st1, errorStream @ [ItemFinding OffsetNotAligned name], Inr False)
             else if byteSize range = 0
                   \<or> byteSize range mod c_ConstantBufferOffsetSizeAlignment ext \<noteq> 0
             then (st1, errorStream @ [ItemFinding SizeZeroOrNotAligned name], Inr False)
             else (st1, errorStream, Inr True)))
      else if type = VolatileConstantBuffer \<and> \<not> isEntireBuffer ext (bs_range binding) desc
      then (st, errorStream @ [ItemFinding VolatilePartiallyBound name], Inr False)
      else (st, errorStream, Inr True))"

definition validateBindingSetItem_buffer ::
  "Externals \<Rightarrow> IDevice \<Rightarrow> State \<Rightarrow> BindingSetItem \<Rightarrow> finding list
    \<Rightarrow> State \<times> finding list \<times> (Fault + bool)" where
  "validateBindingSetItem_buffer ext dev st binding errorStream =
    (case resourceHandle binding of
      None \<Rightarrow>
        if bs_type binding \<noteq> TypedBuffer_SRV \<and> bs_type binding \<noteq> TypedBuffer_UAV
        then
          (let st1 = backend st Call_getGraphicsAPI in
            if dev_getGraphicsAPI dev \<noteq> VULKAN
            then (st1, errorStream @ [ItemFinding NullBuffer []], Inr False)
            else (st1, errorStream, Inr True))
        else (st, errorStream, Inr True)
    | Some (Res_Buffer buffer) \<Rightarrow>
        validateBindingSetItem_bufferDesc ext dev st binding (buf_getDesc buffer) errorStream
    | Some other \<Rightarrow> (st, errorStream, Inl InvalidCast))"

definition validateBindingSetItem ::
  "Externals \<Rightarrow> IDevice \<Rightarrow> State \<Rightarrow> BindingSetItem \<Rightarrow> bool \<Rightarrow> finding list
    \<Rightarrow> State \<times> finding list \<times> (Fault + bool)" where
  "validateBindingSetItem ext dev st binding isDescriptorTable errorStream =
    (case bs_type binding of
      ResourceType_None \<Rightarrow>
        if \<not> isDescriptorTable
        then (st, errorStream @ [ItemFinding NoneNotAllowedInBindingSets []], Inr False)
        else (st, errorStream, Inr True)
    | Texture_SRV \<Rightarrow> validateBindingSetItem_texture ext st binding errorStream
    | Texture_UAV \<Rightarrow> validateBindingSetItem_texture ext st binding errorStream
    | SamplerFeedbackTexture_UAV \<Rightarrow> (st, errorStream, Inr True)
    | Sampler \<Rightarrow>
        if resourceHandle binding = None
        then (st, errorStream @ [ItemFinding NullSampler []], Inr False)
        else (st, errorStream, Inr True)
    | RayTracingAccelStruct \<Rightarrow>
        if resourceHandle binding = None
        then (st, errorStream @ [ItemFinding NullAccelStruct []], Inr False)
        else (st, errorStream, Inr True)
    | PushConstants \<Rightarrow>
        if isDescriptorTable
        then (st, errorStream @ [ItemFinding PushConstantsInDescriptorTable []], Inr False)
        else if resourceHandle binding \<noteq> None
        then (st, errorStream @ [ItemFinding PushConstantsWithResource []], Inr False)
        else if byteSize (bs_range binding) = 0
        then (st, errorStream @ [ItemFinding PushConstantsZeroSize []], Inr False)
        else (st, errorStream, Inr True)
    | Count \<Rightarrow> (st, errorStream @ [ItemFinding UnrecognizedResourceType []], Inr False)
    | _ \<Rightarrow> validateBindingSetItem_buffer ext dev st binding errorStream)"

section \<open>Binding sets and descriptor tables\<close>

fun validateItems ::
  "Externals \<Rightarrow> IDevice \<Rightarrow> State \<Rightarrow> BindingSetItem list \<Rightarrow> finding list \<Rightarrow> bool
    \<Rightarrow> State \<times> finding list \<times> (Fault + bool)" where
  "validateItems ext dev st [] errorStream anyErrors = (st, errorStream, Inr anyErrors)"
| "validateItems ext dev st (binding # rest) errorStream anyErrors =
    (case validateBindingSetItem ext dev st binding False errorStream of
      (st1, errorStream1, Inl fault) \<Rightarrow> (st1, errorStream1, Inl fault)
    | (st1, errorStream1, Inr ok) \<Rightarrow>
        validateItems ext dev st1 rest errorStream1 (anyErrors \<or> \<not> ok))"

definition createBindingSet ::
  "Externals \<Rightarrow> IDevice \<Rightarrow> State \<Rightarrow> BindingSetDesc \<Rightarrow> IBindingLayout option
    \<Rightarrow> State \<times> (Fault + nat option)" where
  "createBindingSet ext dev st desc layout0 =
    (case layout0 of
      None \<Rightarrow> (error st [Literal ''Cannot create a binding set without a valid layout''],
               Inr None)
    | Some layout \<Rightarrow>
      (case layout_getDesc layout of
        None \<Rightarrow> (error st [Literal ''Cannot create a binding set from a bindless layout''],
                 Inr None)
      | Some layoutDesc \<Rightarrow>
        (case FillBindingLayoutSummary ext st layoutDesc BindingSummary_init [] of
          (st1, layoutBindings, layoutDuplicates) \<Rightarrow>
        (case FillBindingSetSummary ext st1 desc (registerSpace layoutDesc)
                BindingSummary_init [] of
          (st2, setBindings, setDuplicates) \<Rightarrow>
        (let declaredNotBound = SetDifference (locations layoutBindings) (locations setBindings);
             boundNotDeclared = SetDifference (locations setBindings) (locations layoutBindings);
             errorStream =
               (if declaredNotBound \<noteq> [] then [DeclaredNotBound declaredNotBound] else [])
               @ (if boundNotDeclared \<noteq> [] then [BoundNotDeclared boundNotDeclared] else [])
               @ (if setDuplicates \<noteq> [] then [SetDuplicates setDuplicates] else []);
             anyErrors = (declaredNotBound \<noteq> [] \<or> boundNotDeclared \<noteq> [] \<or> setDuplicates \<noteq> [])
         in
          (case validateItems ext dev st2 (set_bindings desc) errorStream anyErrors of
            (st3, errorStream3, Inl fault) \<Rightarrow> (st3, Inl fault)
          | (st3, errorStream3, Inr anyErrors3) \<Rightarrow>
              if anyErrors3 then (error st3 errorStream3, Inr None)
              else
               (let patchedDesc = desc\<lparr>set_bindings :=
                      map (\<lambda>binding. binding\<lparr>resourceHandle :=
                             unwrapResource (resourceHandle binding)\<rparr>) (set_bindings desc)\<rparr>
                in (backend st3 (Call_createBindingSet patchedDesc layout),
                    Inr (dev_createBindingSet dev patchedDesc layout)))))))))"


section \<open>Validation of the binding layouts of a pipeline\<close>

text \<open>
  The first inner loop of \<^verbatim>\<open>validatePipelineBindingLayouts\<close> for one layout slot. The
  vector \<^verbatim>\<open>bindingsPerLayout\<close> is resized to the number of layouts, so every slot starts
  as an empty summary; the loop visits the slots in order, and the model appends the
  summary of each slot. The assertion \<^verbatim>\<open>assert(duplicates.empty())\<close> is compiled out in
  release builds and is not modelled.
\<close>

definition accumulateLayout ::
  "Externals \<Rightarrow> ShaderType \<Rightarrow> State \<times> bool \<times> BindingSummary list
    \<Rightarrow> nat \<times> BindingLayoutHandle \<Rightarrow> State \<times> bool \<times> BindingSummary list" where
  "accumulateLayout ext stage acc slot =
    (case acc of (st, anyErrors, bindingsPerLayout) \<Rightarrow>
     case slot of (layoutIndex, handle) \<Rightarrow>
      (case handle of
        None \<Rightarrow> (error st [LayoutIsNull layoutIndex], True,
                 bindingsPerLayout @ [BindingSummary_init])
      | Some layout \<Rightarrow>
         (case layout_getDesc layout of
           None \<Rightarrow> (st, anyErrors, bindingsPerLayout @ [BindingSummary_init])
         | Some layoutDesc \<Rightarrow>
            if visibility layoutDesc \<inter> stage = {}
            then (st, anyErrors, bindingsPerLayout @ [BindingSummary_init])
            else
             (case FillBindingLayoutSummary ext st layoutDesc BindingSummary_init [] of
               (st1, bindings, duplicates) \<Rightarrow>
                 (st1, anyErrors, bindingsPerLayout @ [bindings])))))"

definition accumulateStage ::
  "Externals \<Rightarrow> ShaderType \<Rightarrow> BindingLayoutHandle list \<Rightarrow> State \<Rightarrow> bool
    \<Rightarrow> State \<times> bool \<times> BindingSummary list" where
  "accumulateStage ext stage bindingLayouts st anyErrors =
    foldl (accumulateLayout ext stage) (st, anyErrors, []) (enumerate 0 bindingLayouts)"

text \<open>
  The loop that looks for the same binding in more than one layout (it runs only when
  there are at least two layouts, so slot 0 exists): the locations of the layouts seen so
  far are in \<open>bindings\<close>, and what a later layout shares with them goes to \<open>duplicates\<close>.
\<close>

definition stageDuplicates :: "BindingSummary list \<Rightarrow> BindingLocationSet" where
  "stageDuplicates bindingsPerLayout =
    snd (foldl (\<lambda>(bindings, duplicates) layoutSummary.
            (SetUnionInplace bindings (locations layoutSummary),
             SetUnionInplace duplicates (SetIntersection bindings (locations layoutSummary))))
          (locations (hd bindingsPerLayout), []) (tl bindingsPerLayout))"

text \<open>
  The two nested loops over the pairs \<open>i < j\<close> of layouts, for the flag of one resource
  class (the source updates the four flags \<^verbatim>\<open>overlapSRV\<close>, \<^verbatim>\<open>overlapSampler\<close>,
  \<^verbatim>\<open>overlapUAV\<close>, \<^verbatim>\<open>overlapCB\<close> in the same loops).
\<close>

definition overlapOfClass :: "(BindingSummary \<Rightarrow> Range) \<Rightarrow> BindingSummary list \<Rightarrow> bool" where
  "overlapOfClass rangeOf bindingsPerLayout =
    foldl (\<lambda>overlap i.
        foldl (\<lambda>overlap1 j.
            overlap1 \<or> Range_overlapsWith (rangeOf (bindingsPerLayout ! i))
                         (rangeOf (bindingsPerLayout ! j)))
          overlap [i + 1 ..< length bindingsPerLayout])
      False [0 ..< length bindingsPerLayout - 1]"

record PipelineLocals =
  pl_anyErrors :: bool
  anyDuplicateBindings :: bool
  anyOverlappingBindings :: bool
  ssDuplicateBindings :: "finding list"
  ssOverlappingBindings :: "finding list"

definition validateStage ::
  "Externals \<Rightarrow> IDevice \<Rightarrow> BindingLayoutHandle list \<Rightarrow> State \<times> PipelineLocals \<Rightarrow> IShader
    \<Rightarrow> State \<times> PipelineLocals" where
  "validateStage ext dev bindingLayouts acc shader =
    (case acc of (st, loc) \<Rightarrow>
     (let stage = shaderType (shader_getDesc shader) in
      case accumulateStage ext stage bindingLayouts st (pl_anyErrors loc) of
       (st1, anyErrors1, bindingsPerLayout) \<Rightarrow>
        (let loc1 = loc\<lparr>pl_anyErrors := anyErrors1\<rparr> in
          if length bindingLayouts > 1
          then
           (let duplicates = stageDuplicates bindingsPerLayout in
             if duplicates \<noteq> []
             then (st1, loc1\<lparr>ssDuplicateBindings :=
                           ssDuplicateBindings loc1
                           @ (if \<not> anyDuplicateBindings loc1 then [DuplicatesHeader] else [])
                           @ [DuplicatesOfStage stage duplicates],
                         anyDuplicateBindings := True\<rparr>)
             else
              (let st2 = backend st1 Call_getGraphicsAPI in
                if dev_getGraphicsAPI dev = D3D11
                then
                 (let overlapSRV = overlapOfClass rangeSRV bindingsPerLayout;
                      overlapSampler = overlapOfClass rangeSampler bindingsPerLayout;
                      overlapUAV = overlapOfClass rangeUAV bindingsPerLayout;
                      overlapCB = overlapOfClass rangeCB bindingsPerLayout in
                   if overlapSRV \<or> overlapSampler \<or> overlapUAV \<or> overlapCB
                   then (st2, loc1\<lparr>ssOverlappingBindings :=
                           ssOverlappingBindings loc1
                           @ (if \<not> anyOverlappingBindings loc1 then [OverlapsHeader] else [])
                           @ [OverlapsOfStage stage
                                ((if overlapSRV then [G_SRV] else [])
                                 @ (if overlapSampler then [G_Sampler] else [])
                                 @ (if overlapUAV then [G_UAV] else [])
                                 @ (if overlapCB then [G_CB] else []))],
                         anyOverlappingBindings := True\<rparr>)
                   else (st2, loc1))
                else (st2, loc1)))
          else (st1, loc1))))"

datatype RegisterSpaceIsDescriptorSet = RS_False | RS_True | Undetermined | Mixed

record SpaceLocals =
  sl_anyErrors :: bool
  pushConstantCount :: int
  pushConstantSize :: "32 word"
  sl_registerSpaceIsDescriptorSet :: RegisterSpaceIsDescriptorSet
  registerSpaceToLayoutIdx :: "int list"

text \<open>
  The second loop over the layouts. It dereferences every handle without a null check: a
  null layout is a fault of the call. It writes \<^verbatim>\<open>registerSpaceToLayoutIdx[registerSpace]\<close>
  also after it has reported that the register space is too large. That write is outside
  the array; \<^verbatim>\<open>static_vector::operator[]\<close> only asserts the bound, so with assertions
  compiled out (as for \<^verbatim>\<open>assert(duplicates.empty())\<close> above) the loop goes on, and no later
  statement reads an element outside the array. The model goes on as well and leaves the
  array as it is: a list update outside the range is the identity.
\<close>

fun registerSpaceLoop ::
  "Externals \<Rightarrow> (nat \<times> BindingLayoutHandle) list \<Rightarrow> State \<Rightarrow> SpaceLocals
    \<Rightarrow> State \<times> (Fault + SpaceLocals)" where
  "registerSpaceLoop ext [] st loc = (st, Inr loc)"
| "registerSpaceLoop ext ((layoutIndex, None) # rest) st loc = (st, Inl NullDereference)"
| "registerSpaceLoop ext ((layoutIndex, Some layout) # rest) st loc =
    (case layout_getDesc layout of
      None \<Rightarrow> registerSpaceLoop ext rest st loc
    | Some layoutDesc \<Rightarrow>
       (let loc1 = foldl (\<lambda>l item.
                     if item_type item = PushConstants
                     then l\<lparr>pushConstantCount := pushConstantCount l + 1,
                            pushConstantSize := max (pushConstantSize l) (ucast (item_size item))\<rparr>
                     else l) loc (layout_bindings layoutDesc);
            rs = unat (registerSpace layoutDesc)
        in
         if registerSpaceIsDescriptorSet layoutDesc
         then
          (let s1 = (if rs \<ge> c_MaxBindingLayouts ext
                     then (error st [RegisterSpaceTooLarge layoutIndex (registerSpace layoutDesc)],
                           loc1\<lparr>sl_anyErrors := True\<rparr>)
                     else if registerSpaceToLayoutIdx loc1 ! rs \<noteq> - 1
                     then (error st [RegisterSpaceReused layoutIndex (registerSpace layoutDesc)
                                      (registerSpaceToLayoutIdx loc1 ! rs)],
                           loc1\<lparr>sl_anyErrors := True\<rparr>)
                     else (st, loc1))
           in
            registerSpaceLoop ext rest (fst s1)
                  ((snd s1)\<lparr>registerSpaceToLayoutIdx :=
                        (registerSpaceToLayoutIdx (snd s1))[rs := int layoutIndex],
                      sl_registerSpaceIsDescriptorSet :=
                        (case sl_registerSpaceIsDescriptorSet (snd s1) of
                           Undetermined \<Rightarrow> RS_True | RS_False \<Rightarrow> Mixed | other \<Rightarrow> other)\<rparr>))
         else registerSpaceLoop ext rest st
               (loc1\<lparr>sl_registerSpaceIsDescriptorSet :=
                     (case sl_registerSpaceIsDescriptorSet loc1 of
                        Undetermined \<Rightarrow> RS_False | RS_True \<Rightarrow> Mixed | other \<Rightarrow> other)\<rparr>)))"

definition validatePipelineBindingLayouts ::
  "Externals \<Rightarrow> IDevice \<Rightarrow> State \<Rightarrow> BindingLayoutHandle list \<Rightarrow> IShader list
    \<Rightarrow> State \<times> (Fault + bool)" where
  "validatePipelineBindingLayouts ext dev st bindingLayouts shaders =
    (case foldl (validateStage ext dev bindingLayouts)
            (st, \<lparr>pl_anyErrors = False, anyDuplicateBindings = False,
                  anyOverlappingBindings = False, ssDuplicateBindings = [],
                  ssOverlappingBindings = []\<rparr>) shaders of
      (st1, loc) \<Rightarrow>
       (let s2 = report_if (anyDuplicateBindings loc) (ssDuplicateBindings loc)
                   (st1, pl_anyErrors loc);
            s3 = report_if (anyOverlappingBindings loc) (ssOverlappingBindings loc) s2
        in
         case registerSpaceLoop ext (enumerate 0 bindingLayouts) (fst s3)
                \<lparr>sl_anyErrors = snd s3, pushConstantCount = 0, pushConstantSize = 0,
                 sl_registerSpaceIsDescriptorSet = Undetermined,
                 registerSpaceToLayoutIdx = replicate (c_MaxBindingLayouts ext) (- 1)\<rparr> of
           (st4, Inl fault) \<Rightarrow> (st4, Inl fault)
         | (st4, Inr sl) \<Rightarrow>
            (let s5 = report_if (sl_registerSpaceIsDescriptorSet sl = Mixed)
                        [Literal ''Pipeline contains Binding layouts with differing values of `registerSpaceIsDescriptorSet`'']
                        (st4, sl_anyErrors sl);
                 s6 = report_if (pushConstantCount sl > 1)
                        [TooManyPushConstantBlocks (pushConstantCount sl)] s5;
                 s7 = report_if (pushConstantSize sl > c_MaxPushConstantSize ext)
                        [PushConstantsTooLarge (pushConstantSize sl)] s6
             in (fst s7, Inr (\<not> snd s7)))))"

section \<open>Pipeline creation\<close>

definition validateShaderType ::
  "State \<Rightarrow> ShaderType \<Rightarrow> ShaderDesc \<Rightarrow> string \<Rightarrow> State \<times> bool" where
  "validateShaderType st expected shaderDesc function =
    (if expected = shaderType shaderDesc then (st, True)
     else (error st [UnexpectedShaderType function expected (shaderType shaderDesc)
                       (shader_debugName shaderDesc) (entryName shaderDesc)], False))"

definition validateRenderState ::
  "IDevice \<Rightarrow> State \<Rightarrow> RenderState \<Rightarrow> IFramebuffer option \<Rightarrow> State \<times> bool" where
  "validateRenderState dev st renderState fb0 =
    (case fb0 of
      None \<Rightarrow> (error st [Literal ''framebuffer is NULL''], False)
    | Some fb \<Rightarrow>
       (let fbDesc = fb_getDesc fb in
         if (depthTestEnable renderState \<or> stencilEnable renderState)
             \<and> \<not> depthAttachment_valid fbDesc
         then (error st [Literal ''The depth-stencil state indicates that depth or stencil operations are used, but the framebuffer has no depth attachment.''], False)
         else if ((depthTestEnable renderState \<and> depthWriteEnable renderState)
                  \<or> (stencilEnable renderState \<and> stencilWriteMask renderState \<noteq> 0))
                 \<and> depthAttachment_isReadOnly fbDesc
         then (error st [Literal ''The depth-stencil state indicates that depth or stencil writes are used, but the framebuffer's depth attachment is read-only.''], False)
         else if conservativeRasterEnable renderState
         then
          (let st1 = backend st (Call_queryFeatureSupport ConservativeRasterization) in
            if \<not> dev_queryFeatureSupport dev ConservativeRasterization
            then (warning st1 [Literal ''Conservative rasterization is not supported on this device''], False)
            else (st1, True))
         else (st, True)))"

definition createComputePipeline ::
  "Externals \<Rightarrow> IDevice \<Rightarrow> State \<Rightarrow> ComputePipelineDesc \<Rightarrow> State \<times> (Fault + nat option)" where
  "createComputePipeline ext dev st pipelineDesc =
    (case CS pipelineDesc of
      None \<Rightarrow> (error st [Literal ''createComputePipeline: CS = NULL''], Inr None)
    | Some cs \<Rightarrow>
       (case validatePipelineBindingLayouts ext dev st (cp_bindingLayouts pipelineDesc) [cs] of
         (st1, Inl fault) \<Rightarrow> (st1, Inl fault)
       | (st1, Inr valid) \<Rightarrow>
          if \<not> valid then (st1, Inr None)
          else
           (case validateShaderType st1 {Compute} (shader_getDesc cs) ''createComputePipeline'' of
             (st2, ok) \<Rightarrow>
              if \<not> ok then (st2, Inr None)
              else (backend st2 (Call_createComputePipeline pipelineDesc),
                    Inr (dev_createComputePipeline dev pipelineDesc)))))"

text \<open>
  The loop of \<^verbatim>\<open>createGraphicsPipeline\<close> and \<^verbatim>\<open>createMeshletPipeline\<close> over the stages of
  the pipeline kind: a shader that is set is collected, and the function returns at the
  first shader whose type is not the stage of its slot.
\<close>

fun collectShaders ::
  "State \<Rightarrow> string \<Rightarrow> (ShaderStageBit \<times> IShader option) list \<Rightarrow> IShader list
    \<Rightarrow> State \<times> IShader list \<times> bool" where
  "collectShaders st function [] shaders = (st, shaders, True)"
| "collectShaders st function ((stage, None) # rest) shaders =
     collectShaders st function rest shaders"
| "collectShaders st function ((stage, Some shader) # rest) shaders =
    (case validateShaderType st {stage} (shader_getDesc shader) function of
      (st1, ok) \<Rightarrow>
        if \<not> ok then (st1, shaders @ [shader], False)
        else collectShaders st1 function rest (shaders @ [shader]))"

definition g_GraphicsShaderStages :: "ShaderStageBit list" where
  "g_GraphicsShaderStages = [Vertex, Hull, DomainStage, Geometry, Pixel]"

definition g_MeshletShaderStages :: "ShaderStageBit list" where
  "g_MeshletShaderStages = [Amplification, Mesh, Pixel]"

definition SelectGraphicsShaderStage ::
  "GraphicsPipelineDesc \<Rightarrow> ShaderStageBit \<Rightarrow> IShader option" where
  \<comment> \<open>the \<^verbatim>\<open>default\<close> label is not reached from \<open>g_GraphicsShaderStages\<close>\<close>
  "SelectGraphicsShaderStage desc stage =
    (case stage of Vertex \<Rightarrow> gp_VS desc | Hull \<Rightarrow> gp_HS desc | DomainStage \<Rightarrow> gp_DS desc
     | Geometry \<Rightarrow> gp_GS desc | Pixel \<Rightarrow> gp_PS desc | _ \<Rightarrow> None)"

definition SelectMeshletShaderStage ::
  "MeshletPipelineDesc \<Rightarrow> ShaderStageBit \<Rightarrow> IShader option" where
  \<comment> \<open>the \<^verbatim>\<open>default\<close> label is not reached from \<open>g_MeshletShaderStages\<close>\<close>
  "SelectMeshletShaderStage desc stage =
    (case stage of Amplification \<Rightarrow> mp_AS desc | Mesh \<Rightarrow> mp_MS desc | Pixel \<Rightarrow> mp_PS desc
     | _ \<Rightarrow> None)"

definition createGraphicsPipeline ::
  "Externals \<Rightarrow> IDevice \<Rightarrow> State \<Rightarrow> GraphicsPipelineDesc \<Rightarrow> IFramebuffer option
    \<Rightarrow> State \<times> (Fault + nat option)" where
  "createGraphicsPipeline ext dev st pipelineDesc fb =
    (case collectShaders st ''createGraphicsPipeline''
            (map (\<lambda>stage. (stage, SelectGraphicsShaderStage pipelineDesc stage))
               g_GraphicsShaderStages) [] of
      (st0, shaders, typesOk) \<Rightarrow>
       if \<not> typesOk then (st0, Inr None)
       else
        (case validatePipelineBindingLayouts ext dev st0 (gp_bindingLayouts pipelineDesc)
                shaders of
          (st1, Inl fault) \<Rightarrow> (st1, Inl fault)
        | (st1, Inr valid) \<Rightarrow>
           if \<not> valid then (st1, Inr None)
           else
            (case validateRenderState dev st1 (gp_renderState pipelineDesc) fb of
              (st2, ok) \<Rightarrow>
               if \<not> ok then (st2, Inr None)
               else (backend st2 (Call_createGraphicsPipeline pipelineDesc fb),
                     Inr (dev_createGraphicsPipeline dev pipelineDesc fb)))))"

definition createMeshletPipeline ::
  "Externals \<Rightarrow> IDevice \<Rightarrow> State \<Rightarrow> MeshletPipelineDesc \<Rightarrow> IFramebuffer option
    \<Rightarrow> State \<times> (Fault + nat option)" where
  "createMeshletPipeline ext dev st pipelineDesc fb =
    (case collectShaders st ''createMeshletPipeline''
            (map (\<lambda>stage. (stage, SelectMeshletShaderStage pipelineDesc stage))
               g_MeshletShaderStages) [] of
      (st0, shaders, typesOk) \<Rightarrow>
       if \<not> typesOk then (st0, Inr None)
       else
        (case validatePipelineBindingLayouts ext dev st0 (mp_bindingLayouts pipelineDesc)
                shaders of
          (st1, Inl fault) \<Rightarrow> (st1, Inl fault)
        | (st1, Inr valid) \<Rightarrow>
           if \<not> valid then (st1, Inr None)
           else
            (case validateRenderState dev st1 (mp_renderState pipelineDesc) fb of
              (st2, ok) \<Rightarrow>
               if \<not> ok then (st2, Inr None)
               else (backend st2 (Call_createMeshletPipeline pipelineDesc fb),
                     Inr (dev_createMeshletPipeline dev pipelineDesc fb)))))"

section \<open>The rules of texture creation as a table\<close>




definition patchedBufferDesc :: "Externals \<Rightarrow> BufferDesc \<Rightarrow> BufferDesc" where
  "patchedBufferDesc ext d =
     (if buf_debugName d = [] then d\<lparr>buf_debugName := GenerateBufferDebugName ext d\<rparr> else d)"



section \<open>Messages and forwarded calls of one call of the decorator\<close>





section \<open>Example inputs\<close>

definition ext0 :: Externals where
  \<comment> \<open>the values of the public header: a layout item's array size is its \<open>size\<close>
      (1 for push constants), at most 8 binding layouts, 128 bytes of push constants,
      constant buffer ranges aligned to 256 bytes\<close>
  "ext0 = \<lparr>GenerateTextureDebugName = (\<lambda>d. ''Texture''),
     GenerateBufferDebugName = (\<lambda>d. ''Buffer''),
     getArraySize = (\<lambda>i. if item_type i = PushConstants then 1 else ucast (item_size i)),
     defaultLocationType = G_SRV,
     c_MaxBindingLayouts = 8,
     c_MaxPushConstantSize = 128,
     c_ConstantBufferOffsetSizeAlignment = 256,
     resolveSubresources = (\<lambda>s d. s),
     isEntireBuffer = (\<lambda>r d. byteOffset r = 0 \<and> byteSize r = 0),
     resolveRange = (\<lambda>r d. r)\<rparr>"


definition volatileCB :: BufferDesc where
  "volatileCB = \<lparr>buf_debugName = ''cb'', isVolatile = True,
     isConstantBuffer = True, maxVersions = 1, isVertexBuffer = False, isIndexBuffer = False,
     isDrawIndirectArgs = False, canHaveUAVs = False, isAccelStructBuildInput = False,
     isAccelStructStorage = False, isShaderBindingTable = False, buf_isVirtual = False,
     cpuAccess = CpuNone, buf_initialState = 0, buf_keepInitialState = False,
     canHaveTypedViews = False, canHaveRawViews = False, structStride = 0,
     buf_format = UNKNOWN\<rparr>"

definition tlasCompact :: AccelStructDesc where
  \<comment> \<open>a top-level structure that asks for \<open>AllowCompaction\<close>\<close>
  "tlasCompact = \<lparr>isTopLevel = True, buildFlags = {AllowCompaction}, topLevelMaxInstances = 8,
     as_debugName = ''tlas'', as_isVirtual = False\<rparr>"

definition blasUpdate :: AccelStructDesc where
  "blasUpdate = \<lparr>isTopLevel = False, buildFlags = {AllowUpdate}, topLevelMaxInstances = 0,
     as_debugName = ''blas'', as_isVirtual = False\<rparr>"

definition st0 :: State where
  "st0 = \<lparr>sink = [], calls = []\<rparr>"

definition heap16 :: IHeap where
  "heap16 = \<lparr>heap_id = 1, heap_getDesc = \<lparr>capacity = 16, heap_debugName = ''heap''\<rparr>\<rparr>"

definition texV :: ITexture where
  "texV = \<lparr>tex_id = 2, tex_getDesc = \<lparr>width = 4, height = 4, depth = 1, arraySize = 1,
     mipLevels = 1, sampleCount = 1, dimension = Texture2D, tex_debugName = ''tex'',
     isUAV = False, tex_isVirtual = True, tex_initialState = 0, tex_keepInitialState = False\<rparr>\<rparr>"

definition bufV :: IBuffer where
  "bufV = \<lparr>buf_id = 3, buf_getDesc = \<lparr>buf_debugName = ''buf'', isVolatile = False,
     isConstantBuffer = False, maxVersions = 0, isVertexBuffer = False, isIndexBuffer = False,
     isDrawIndirectArgs = False, canHaveUAVs = False, isAccelStructBuildInput = False,
     isAccelStructStorage = False, isShaderBindingTable = False, buf_isVirtual = True,
     cpuAccess = CpuNone, buf_initialState = 0, buf_keepInitialState = False,
     canHaveTypedViews = False, canHaveRawViews = False, structStride = 0,
     buf_format = UNKNOWN\<rparr>\<rparr>"

definition asV :: IAccelStruct where
  "asV = NativeAccelStruct 4 \<lparr>isTopLevel = False, buildFlags = {}, topLevelMaxInstances = 0,
     as_debugName = ''blas'', as_isVirtual = True\<rparr>"

definition bigReq :: MemoryRequirements where
  \<comment> \<open>a requirement of \<open>2^63 + 16\<close> bytes with no alignment constraint\<close>
  "bigReq = \<lparr>size_req = 2 ^ 63 + 16, alignment = 0\<rparr>"

definition devBig :: IDevice where
  "devBig = \<lparr>dev_getGraphicsAPI = D3D12, dev_queryFeatureSupport = (\<lambda>f. True),
     dev_createTexture = (\<lambda>d. Some \<lparr>tex_id = 10, tex_getDesc = d\<rparr>),
     dev_createBuffer = (\<lambda>d. Some \<lparr>buf_id = 11, buf_getDesc = d\<rparr>),
     dev_createSamplerFeedbackTexture = (\<lambda>t d. Some 12),
     dev_createSamplerFeedbackForNativeTexture = (\<lambda>ty ob t. Some 13),
     dev_createAccelStruct = (\<lambda>d. Some (NativeAccelStruct 14 d)),
     dev_createBindingSet = (\<lambda>d l. Some 15),
     dev_writeDescriptorTable = (\<lambda>t i. True),
     dev_createComputePipeline = (\<lambda>d. Some 16),
     dev_createGraphicsPipeline = (\<lambda>d f. Some 17),
     dev_createMeshletPipeline = (\<lambda>d f. Some 18),
     dev_getTextureMemoryRequirements = (\<lambda>t. bigReq),
     dev_bindTextureMemory = (\<lambda>t h off. True),
     dev_getBufferMemoryRequirements = (\<lambda>b. bigReq),
     dev_bindBufferMemory = (\<lambda>b h off. True),
     dev_getAccelStructMemoryRequirements = (\<lambda>a. bigReq),
     dev_bindAccelStructMemory = (\<lambda>a h off. True)\<rparr>"

section \<open>Locations, summaries and messages: the notions of the statements\<close>

subsection \<open>The locations of a layout and of a binding set\<close>

text \<open>
  The locations that a layout declares and that a binding set binds, written down directly
  from the descriptors: one location for every array element of every layout item, one for
  every item of a set; the class of a location is the one that the switch of
  \<^verbatim>\<open>UpdateBindingSummaryWithLocation\<close> assigns to the type of the item. These lists are what
  the statements below mean by "the locations of the layout" and "the locations of the
  set"; the summaries computed by \<^verbatim>\<open>FillBindingLayoutSummary\<close> and
  \<^verbatim>\<open>FillBindingSetSummary\<close> are proved to hold exactly these locations.
  \<open>visibleLocationList\<close> is the list of a layout seen from a shader stage: it is empty when
  the handle is null, when the layout is bindless, and when the layout is not visible to
  the stage.
\<close>

definition resourceClass :: "GraphicsResourceType \<Rightarrow> ResourceType \<Rightarrow> GraphicsResourceType" where
  "resourceClass dflt type =
    (if type \<in> {Texture_SRV, TypedBuffer_SRV, StructuredBuffer_SRV, RawBuffer_SRV,
                 RayTracingAccelStruct} then G_SRV
     else if type \<in> {Texture_UAV, TypedBuffer_UAV, StructuredBuffer_UAV, RawBuffer_UAV,
                      SamplerFeedbackTexture_UAV} then G_UAV
     else if type \<in> {ConstantBuffer, VolatileConstantBuffer, PushConstants} then G_CB
     else if type = Sampler then G_Sampler
     else dflt)"

definition layoutLocationList :: "Externals \<Rightarrow> BindingLayoutDesc \<Rightarrow> BindingLocation list" where
  "layoutLocationList ext desc =
    concat (map (\<lambda>item. map (\<lambda>k.
        \<lparr>loc_type = resourceClass (defaultLocationType ext) (item_type item),
         loc_registerSpace = registerSpace desc, loc_slot = item_slot item,
         loc_arrayElement = of_nat k\<rparr>) [0 ..< unat (getArraySize ext item)])
      (layout_bindings desc))"

definition setLocationList :: "Externals \<Rightarrow> BindingSetDesc \<Rightarrow> 32 word \<Rightarrow> BindingLocation list" where
  "setLocationList ext desc registerSpace0 =
    map (\<lambda>item.
        \<lparr>loc_type = resourceClass (defaultLocationType ext) (bs_type item),
         loc_registerSpace = registerSpace0, loc_slot = bs_slot item,
         loc_arrayElement = bs_arrayElement item\<rparr>) (set_bindings desc)"

definition visibleLocationList ::
  "Externals \<Rightarrow> ShaderType \<Rightarrow> BindingLayoutHandle \<Rightarrow> BindingLocation list" where
  "visibleLocationList ext stage handle =
    (case handle of
      None \<Rightarrow> []
    | Some layout \<Rightarrow>
       (case layout_getDesc layout of
         None \<Rightarrow> []
       | Some layoutDesc \<Rightarrow>
          if visibility layoutDesc \<inter> stage = {} then [] else layoutLocationList ext layoutDesc))"

subsection \<open>The summary functions as folds over visits\<close>

text \<open>
  For the proofs, the two summary functions are folds of
  \<^verbatim>\<open>UpdateBindingSummaryWithLocation\<close> over a list of visits, a visit being the type of an
  item together with the location handed to the function.
\<close>

definition layoutVisits :: "Externals \<Rightarrow> BindingLayoutDesc \<Rightarrow> (ResourceType \<times> BindingLocation) list" where
  "layoutVisits ext desc =
    concat (map (\<lambda>item. map (\<lambda>k. (item_type item,
        \<lparr>loc_type = defaultLocationType ext,
         loc_registerSpace = registerSpace desc, loc_slot = item_slot item,
         loc_arrayElement = of_nat k\<rparr>)) [0 ..< unat (getArraySize ext item)])
      (layout_bindings desc))"

definition setVisits :: "Externals \<Rightarrow> BindingSetDesc \<Rightarrow> 32 word \<Rightarrow> (ResourceType \<times> BindingLocation) list" where
  "setVisits ext desc registerSpace0 =
    map (\<lambda>item. (bs_type item,
        \<lparr>loc_type = defaultLocationType ext, loc_registerSpace = registerSpace0,
         loc_slot = bs_slot item, loc_arrayElement = bs_arrayElement item\<rparr>)) (set_bindings desc)"

definition visitAll ::
  "State \<times> BindingSummary \<times> BindingLocationSet \<Rightarrow> (ResourceType \<times> BindingLocation) list
    \<Rightarrow> State \<times> BindingSummary \<times> BindingLocationSet" where
  "visitAll acc visits =
     foldl (\<lambda>(st1, b, d) (t, l). UpdateBindingSummaryWithLocation st1 t l b d) acc visits"

definition validType :: "ResourceType \<Rightarrow> bool" where
  "validType t = (t \<noteq> ResourceType_None \<and> t \<noteq> Count)"

definition classified :: "ResourceType \<times> BindingLocation \<Rightarrow> BindingLocation" where
  "classified v = (snd v)\<lparr>loc_type := resourceClass (loc_type (snd v)) (fst v)\<rparr>"

definition visitMessages :: "ResourceType \<times> BindingLocation \<Rightarrow> (MessageSeverity \<times> finding list) list" where
  "visitMessages v = (if validType (fst v) then [] else [(Error, [InvalidLayoutItemType (fst v)])])"

subsection \<open>Predicates on the two logs\<close>

text \<open>
  \<^verbatim>\<open>getGraphicsAPI\<close> and \<^verbatim>\<open>queryFeatureSupport\<close> are the queries of the wrapped device; a
  creation method of the decorator has not reached the wrapped device when all the calls
  it logged are queries. An item is well typed when its resource has the dynamic type
  that \<^verbatim>\<open>checked_cast\<close> expects for its binding type. The types of a layout or of a set
  are valid when none of them is \<^verbatim>\<open>None\<close> or \<^verbatim>\<open>Count\<close>, the two types for which
  \<^verbatim>\<open>UpdateBindingSummaryWithLocation\<close> calls the sink itself.
\<close>

definition isItemFinding :: "finding \<Rightarrow> bool" where
  "isItemFinding f = (case f of ItemFinding r n \<Rightarrow> True | _ \<Rightarrow> False)"

definition isQuery :: "BackendCall \<Rightarrow> bool" where
  "isQuery c = (case c of Call_getGraphicsAPI \<Rightarrow> True | Call_queryFeatureSupport f \<Rightarrow> True
     | _ \<Rightarrow> False)"

definition wellTypedItem :: "BindingSetItem \<Rightarrow> bool" where
  "wellTypedItem item =
    (case resourceHandle item of
      None \<Rightarrow> True
    | Some r \<Rightarrow>
       (if bs_type item \<in> {Texture_SRV, Texture_UAV}
        then (case r of Res_Texture t \<Rightarrow> True | _ \<Rightarrow> False)
        else if bs_type item \<in> {TypedBuffer_SRV, TypedBuffer_UAV, StructuredBuffer_SRV,
                 StructuredBuffer_UAV, RawBuffer_SRV, RawBuffer_UAV, ConstantBuffer,
                 VolatileConstantBuffer}
        then (case r of Res_Buffer b \<Rightarrow> True | _ \<Rightarrow> False)
        else True))"



definition isInvalidTypeMessage :: "MessageSeverity \<times> finding list \<Rightarrow> bool" where
  "isInvalidTypeMessage m =
    (m = (Error, [InvalidLayoutItemType ResourceType_None])
     \<or> m = (Error, [InvalidLayoutItemType Count]))"

definition isDupEntry :: "finding \<Rightarrow> bool" where
  "isDupEntry f = (case f of DuplicatesOfStage s d \<Rightarrow> True | _ \<Rightarrow> False)"

definition isOverlapEntry :: "finding \<Rightarrow> bool" where
  "isOverlapEntry f = (case f of OverlapsOfStage s c \<Rightarrow> True | _ \<Rightarrow> False)"

definition plainMessage :: "MessageSeverity \<times> finding list \<Rightarrow> bool" where
  "plainMessage m = list_all (\<lambda>f. \<not> isDupEntry f \<and> \<not> isOverlapEntry f) (snd m)"

definition pipelineNotCreated :: "State \<Rightarrow> State \<times> (Fault + nat option) \<Rightarrow> bool" where
  "pipelineNotCreated st res =
    ((case snd res of Inr (Some h) \<Rightarrow> False | _ \<Rightarrow> True)
     \<and> take (length (calls st)) (calls (fst res)) = calls st
     \<and> list_all isQuery (drop (length (calls st)) (calls (fst res))))"

subsection \<open>Summaries of the layouts for one stage\<close>

text \<open>
  \<open>stageSummary\<close> is the summary of one layout for one stage, as the first loop of
  \<^verbatim>\<open>validatePipelineBindingLayouts\<close> leaves it in \<^verbatim>\<open>bindingsPerLayout\<close>: the initial summary
  when the layout is null, bindless or not visible to the stage. \<open>dupEntry\<close> and
  \<open>overlapEntry\<close> are the lines that one stage appends to the two streams.
  \<open>closedIntervalsIntersect\<close> follows the wording of the specification for the overlap of
  two slot ranges: both are non-empty and some slot lies in both closed intervals.
\<close>

definition summaryOfLayout :: "Externals \<Rightarrow> BindingLayoutDesc \<Rightarrow> BindingSummary" where
  "summaryOfLayout ext desc =
     fst (snd (FillBindingLayoutSummary ext \<lparr>sink = [], calls = []\<rparr> desc BindingSummary_init []))"

definition stageSummary :: "Externals \<Rightarrow> ShaderType \<Rightarrow> BindingLayoutHandle \<Rightarrow> BindingSummary" where
  "stageSummary ext stage handle =
    (case handle of
      None \<Rightarrow> BindingSummary_init
    | Some layout \<Rightarrow>
       (case layout_getDesc layout of
         None \<Rightarrow> BindingSummary_init
       | Some layoutDesc \<Rightarrow>
          if visibility layoutDesc \<inter> stage = {} then BindingSummary_init
          else summaryOfLayout ext layoutDesc))"

definition stageSummaries ::
  "Externals \<Rightarrow> ShaderType \<Rightarrow> BindingLayoutHandle list \<Rightarrow> BindingSummary list" where
  "stageSummaries ext stage layouts = map (stageSummary ext stage) layouts"

definition overlapClasses :: "BindingSummary list \<Rightarrow> GraphicsResourceType list" where
  "overlapClasses bpl =
     (if overlapOfClass rangeSRV bpl then [G_SRV] else [])
     @ (if overlapOfClass rangeSampler bpl then [G_Sampler] else [])
     @ (if overlapOfClass rangeUAV bpl then [G_UAV] else [])
     @ (if overlapOfClass rangeCB bpl then [G_CB] else [])"

definition dupEntry :: "Externals \<Rightarrow> BindingLayoutHandle list \<Rightarrow> IShader \<Rightarrow> finding list" where
  "dupEntry ext layouts shader =
    (let stage = shaderType (shader_getDesc shader);
         d = stageDuplicates (map (stageSummary ext stage) layouts)
     in if length layouts > 1 \<and> d \<noteq> [] then [DuplicatesOfStage stage d] else [])"

definition overlapEntry ::
  "Externals \<Rightarrow> IDevice \<Rightarrow> BindingLayoutHandle list \<Rightarrow> IShader \<Rightarrow> finding list" where
  "overlapEntry ext dev layouts shader =
    (let stage = shaderType (shader_getDesc shader);
         bpl = map (stageSummary ext stage) layouts
     in if length layouts > 1 \<and> stageDuplicates bpl = [] \<and> dev_getGraphicsAPI dev = D3D11
           \<and> overlapClasses bpl \<noteq> []
        then [OverlapsOfStage stage (overlapClasses bpl)] else [])"

definition dupEntries :: "Externals \<Rightarrow> BindingLayoutHandle list \<Rightarrow> IShader list \<Rightarrow> finding list" where
  "dupEntries ext layouts shaders = concat (map (dupEntry ext layouts) shaders)"

definition overlapEntries ::
  "Externals \<Rightarrow> IDevice \<Rightarrow> BindingLayoutHandle list \<Rightarrow> IShader list \<Rightarrow> finding list" where
  "overlapEntries ext dev layouts shaders = concat (map (overlapEntry ext dev layouts) shaders)"



subsection \<open>Further example inputs\<close>

text \<open>
  Binding items with a null resource, devices that answer D3D11 and Vulkan, a layout that
  declares the texture SRV slots 3 and 5 with a binding set that binds slot 3 only, and
  compute pipelines with two layouts visible to the compute stage; cluster operation
  parameters that break three rules, with limits chosen for the example.
\<close>

definition nullItem :: "ResourceType \<Rightarrow> BindingSetItem" where
  "nullItem t = \<lparr>bs_slot = 0, bs_arrayElement = 0, bs_type = t, resourceHandle = None,
     bs_dimension = Unknown, bs_format = UNKNOWN,
     subresources = \<lparr>baseMipLevel = 0, numMipLevels = 1, baseArraySlice = 0, numArraySlices = 1\<rparr>,
     bs_range = \<lparr>byteOffset = 0, byteSize = 0\<rparr>\<rparr>"

definition devVulkan :: IDevice where
  "devVulkan = devBig\<lparr>dev_getGraphicsAPI := VULKAN\<rparr>"

definition devD3D11 :: IDevice where
  "devD3D11 = devBig\<lparr>dev_getGraphicsAPI := D3D11\<rparr>"

definition srvItem :: "32 word \<Rightarrow> BindingLayoutItem" where
  "srvItem s = \<lparr>item_slot = s, item_type = Texture_SRV, item_size = 1\<rparr>"

definition pushItem :: "16 word \<Rightarrow> BindingLayoutItem" where
  "pushItem n = \<lparr>item_slot = 0, item_type = PushConstants, item_size = n\<rparr>"

definition layoutDesc35 :: BindingLayoutDesc where
  "layoutDesc35 = \<lparr>visibility = {Compute}, registerSpace = 0,
     registerSpaceIsDescriptorSet = False, layout_bindings = [srvItem 3, srvItem 5]\<rparr>"

definition layout35 :: IBindingLayout where
  "layout35 = \<lparr>layout_id = 20, layout_getDesc = Some layoutDesc35\<rparr>"

definition texItem :: "32 word \<Rightarrow> BindingSetItem" where
  "texItem s = \<lparr>bs_slot = s, bs_arrayElement = 0, bs_type = Texture_SRV,
     resourceHandle = Some (Res_Texture texV),
     bs_dimension = Unknown, bs_format = UNKNOWN,
     subresources = \<lparr>baseMipLevel = 0, numMipLevels = 1, baseArraySlice = 0, numArraySlices = 1\<rparr>,
     bs_range = \<lparr>byteOffset = 0, byteSize = 0\<rparr>\<rparr>"

definition setDesc3 :: BindingSetDesc where
  "setDesc3 = \<lparr>set_bindings = [texItem 3]\<rparr>"

definition srvLocation :: "32 word \<Rightarrow> BindingLocation" where
  "srvLocation s = \<lparr>loc_type = G_SRV, loc_registerSpace = 0, loc_slot = s, loc_arrayElement = 0\<rparr>"

definition layoutWith :: "nat \<Rightarrow> 32 word list \<Rightarrow> IBindingLayout" where
  "layoutWith n slots = \<lparr>layout_id = n, layout_getDesc = Some \<lparr>visibility = {Compute},
     registerSpace = 0, registerSpaceIsDescriptorSet = False,
     layout_bindings = map srvItem slots\<rparr>\<rparr>"

definition shaderCS :: IShader where
  "shaderCS = \<lparr>shader_id = 30, shader_getDesc = \<lparr>shaderType = {Compute},
     shader_debugName = ''cs'', entryName = ''main''\<rparr>\<rparr>"

definition computeDesc :: "32 word list \<Rightarrow> 32 word list \<Rightarrow> ComputePipelineDesc" where
  "computeDesc slots1 slots2 = \<lparr>CS = Some shaderCS,
     cp_bindingLayouts = [Some (layoutWith 21 slots1), Some (layoutWith 22 slots2)]\<rparr>"

definition twoFaultsDesc :: ComputePipelineDesc where
  "twoFaultsDesc = \<lparr>CS = Some shaderCS,
     cp_bindingLayouts =
       [Some \<lparr>layout_id = 23, layout_getDesc = Some \<lparr>visibility = {Compute},
           registerSpace = 0, registerSpaceIsDescriptorSet = False,
           layout_bindings = [srvItem 3, pushItem 200]\<rparr>\<rparr>,
        Some (layoutWith 22 [3])]\<rparr>"



section \<open>Memory binding: the fit check in 64-bit arithmetic\<close>

lemma fit_check_wraps:
  "((offset :: 64 word) + sz > cap) = ((unat offset + unat sz) mod 2 ^ 64 > unat cap)"
  by (simp add: word_less_nat_alt unat_word_ariths)

lemma bindTextureMemory_result:
  assumes "tex_isVirtual (tex_getDesc tex)"
  shows "bindTextureMemory dev st (Some tex) (Some hp) offset =
    (if (unat offset + unat (size_req (dev_getTextureMemoryRequirements dev tex))) mod 2 ^ 64
          > unat (capacity (heap_getDesc hp))
     then (st\<lparr>sink := sink st @ [(Error, [DoesNotFit KTexture (tex_debugName (tex_getDesc tex))
                (heap_debugName (heap_getDesc hp)) offset
                (size_req (dev_getTextureMemoryRequirements dev tex))
                (capacity (heap_getDesc hp))])],
              calls := calls st @ [Call_getTextureMemoryRequirements tex]\<rparr>, False)
     else if alignment (dev_getTextureMemoryRequirements dev tex) \<noteq> 0
           \<and> offset mod alignment (dev_getTextureMemoryRequirements dev tex) \<noteq> 0
     then (st\<lparr>sink := sink st @ [(Error, [InvalidAlignment KTexture
                (tex_debugName (tex_getDesc tex)) (heap_debugName (heap_getDesc hp))
                (alignment (dev_getTextureMemoryRequirements dev tex)) offset])],
              calls := calls st @ [Call_getTextureMemoryRequirements tex]\<rparr>, False)
     else (st\<lparr>calls := calls st @ [Call_getTextureMemoryRequirements tex,
                Call_bindTextureMemory tex hp offset]\<rparr>,
           dev_bindTextureMemory dev tex hp offset))"
  using assms fit_check_wraps [of "capacity (heap_getDesc hp)" offset
      "size_req (dev_getTextureMemoryRequirements dev tex)"]
  by (simp add: bindTextureMemory_def Let_def error_def backend_def)

lemma bindBufferMemory_result:
  assumes "buf_isVirtual (buf_getDesc buf)"
  shows "bindBufferMemory dev st (Some buf) (Some hp) offset =
    (if (unat offset + unat (size_req (dev_getBufferMemoryRequirements dev buf))) mod 2 ^ 64
          > unat (capacity (heap_getDesc hp))
     then (st\<lparr>sink := sink st @ [(Error, [DoesNotFit KBuffer (buf_debugName (buf_getDesc buf))
                (heap_debugName (heap_getDesc hp)) offset
                (size_req (dev_getBufferMemoryRequirements dev buf))
                (capacity (heap_getDesc hp))])],
              calls := calls st @ [Call_getBufferMemoryRequirements buf]\<rparr>, False)
     else if alignment (dev_getBufferMemoryRequirements dev buf) \<noteq> 0
           \<and> offset mod alignment (dev_getBufferMemoryRequirements dev buf) \<noteq> 0
     then (st\<lparr>sink := sink st @ [(Error, [InvalidAlignment KBuffer
                (buf_debugName (buf_getDesc buf)) (heap_debugName (heap_getDesc hp))
                (alignment (dev_getBufferMemoryRequirements dev buf)) offset])],
              calls := calls st @ [Call_getBufferMemoryRequirements buf]\<rparr>, False)
     else (st\<lparr>calls := calls st @ [Call_getBufferMemoryRequirements buf,
                Call_bindBufferMemory buf hp offset]\<rparr>,
           dev_bindBufferMemory dev buf hp offset))"
  using assms fit_check_wraps [of "capacity (heap_getDesc hp)" offset
      "size_req (dev_getBufferMemoryRequirements dev buf)"]
  by (simp add: bindBufferMemory_def Let_def error_def backend_def)

lemma bindAccelStructMemory_result:
  assumes "as_isVirtual (as_getDesc (underlyingAccelStruct as0))"
  shows "bindAccelStructMemory dev st (Some as0) (Some hp) offset =
    (if (unat offset + unat (size_req (dev_getAccelStructMemoryRequirements dev
              (underlyingAccelStruct as0)))) mod 2 ^ 64
          > unat (capacity (heap_getDesc hp))
     then (st\<lparr>sink := sink st @ [(Error, [DoesNotFit KAccelStruct
                (as_debugName (as_getDesc (underlyingAccelStruct as0)))
                (heap_debugName (heap_getDesc hp)) offset
                (size_req (dev_getAccelStructMemoryRequirements dev (underlyingAccelStruct as0)))
                (capacity (heap_getDesc hp))])],
              calls := calls st @ [Call_getAccelStructMemoryRequirements
                (underlyingAccelStruct as0)]\<rparr>, False)
     else if alignment (dev_getAccelStructMemoryRequirements dev (underlyingAccelStruct as0)) \<noteq> 0
           \<and> offset mod alignment (dev_getAccelStructMemoryRequirements dev
                 (underlyingAccelStruct as0)) \<noteq> 0
     then (st\<lparr>sink := sink st @ [(Error, [InvalidAlignment KAccelStruct
                (as_debugName (as_getDesc (underlyingAccelStruct as0)))
                (heap_debugName (heap_getDesc hp))
                (alignment (dev_getAccelStructMemoryRequirements dev (underlyingAccelStruct as0)))
                offset])],
              calls := calls st @ [Call_getAccelStructMemoryRequirements
                (underlyingAccelStruct as0)]\<rparr>, False)
     else (st\<lparr>calls := calls st @ [Call_getAccelStructMemoryRequirements
                (underlyingAccelStruct as0),
                Call_bindAccelStructMemory (underlyingAccelStruct as0) hp offset]\<rparr>,
           dev_bindAccelStructMemory dev (underlyingAccelStruct as0) hp offset))"
  using assms fit_check_wraps [of "capacity (heap_getDesc hp)" offset
      "size_req (dev_getAccelStructMemoryRequirements dev (underlyingAccelStruct as0))"]
  by (simp add: bindAccelStructMemory_def Let_def error_def backend_def)

lemma bindTextureMemory_overflow_forwarded:
  "bindTextureMemory devBig st (Some texV) (Some heap16) (2 ^ 63) =
    (st\<lparr>calls := calls st @ [Call_getTextureMemoryRequirements texV,
        Call_bindTextureMemory texV heap16 (2 ^ 63)]\<rparr>, True)"
  by (simp add: bindTextureMemory_def Let_def error_def backend_def devBig_def bigReq_def
      texV_def heap16_def)

lemma bindBufferMemory_overflow_forwarded:
  "bindBufferMemory devBig st (Some bufV) (Some heap16) (2 ^ 63) =
    (st\<lparr>calls := calls st @ [Call_getBufferMemoryRequirements bufV,
        Call_bindBufferMemory bufV heap16 (2 ^ 63)]\<rparr>, True)"
  by (simp add: bindBufferMemory_def Let_def error_def backend_def devBig_def bigReq_def
      bufV_def heap16_def)

lemma bindAccelStructMemory_overflow_forwarded:
  "bindAccelStructMemory devBig st (Some asV) (Some heap16) (2 ^ 63) =
    (st\<lparr>calls := calls st @ [Call_getAccelStructMemoryRequirements asV,
        Call_bindAccelStructMemory asV heap16 (2 ^ 63)]\<rparr>, True)"
  by (simp add: bindAccelStructMemory_def Let_def error_def backend_def devBig_def bigReq_def
      asV_def heap16_def underlyingAccelStruct_def)

text \<open>
  C10. In \<^verbatim>\<open>bindTextureMemory\<close>, \<^verbatim>\<open>bindBufferMemory\<close> and \<^verbatim>\<open>bindAccelStructMemory\<close>,
  called with a virtual resource and a non-null heap, the call is rejected as "does not
  fit" exactly when \<open>(offset + requiredSize) mod 2^64\<close> exceeds the heap capacity: then
  it sends that one diagnostic, returns false and does not call the bind method of the
  wrapped device; otherwise it is either rejected for the alignment of the offset or
  forwarded to the wrapped device, whose answer it returns. And there are an offset and a
  required size whose true sum is at least \<open>2^64\<close> for which the check passes and the
  call is forwarded (here: offset \<open>2^63\<close>, size \<open>2^63 + 16\<close>, capacity \<open>16\<close>).
\<close>

theorem bind_memory_fit_check_wraps:
  "(tex_isVirtual (tex_getDesc tex) \<longrightarrow>
     bindTextureMemory dev st (Some tex) (Some hp) offset =
      (if (unat offset + unat (size_req (dev_getTextureMemoryRequirements dev tex))) mod 2 ^ 64
            > unat (capacity (heap_getDesc hp))
       then (st\<lparr>sink := sink st @ [(Error, [DoesNotFit KTexture (tex_debugName (tex_getDesc tex))
                  (heap_debugName (heap_getDesc hp)) offset
                  (size_req (dev_getTextureMemoryRequirements dev tex))
                  (capacity (heap_getDesc hp))])],
                calls := calls st @ [Call_getTextureMemoryRequirements tex]\<rparr>, False)
       else if alignment (dev_getTextureMemoryRequirements dev tex) \<noteq> 0
             \<and> offset mod alignment (dev_getTextureMemoryRequirements dev tex) \<noteq> 0
       then (st\<lparr>sink := sink st @ [(Error, [InvalidAlignment KTexture
                  (tex_debugName (tex_getDesc tex)) (heap_debugName (heap_getDesc hp))
                  (alignment (dev_getTextureMemoryRequirements dev tex)) offset])],
                calls := calls st @ [Call_getTextureMemoryRequirements tex]\<rparr>, False)
       else (st\<lparr>calls := calls st @ [Call_getTextureMemoryRequirements tex,
                  Call_bindTextureMemory tex hp offset]\<rparr>,
             dev_bindTextureMemory dev tex hp offset)))
   \<and> (buf_isVirtual (buf_getDesc buf) \<longrightarrow>
     bindBufferMemory dev st (Some buf) (Some hp) offset =
      (if (unat offset + unat (size_req (dev_getBufferMemoryRequirements dev buf))) mod 2 ^ 64
            > unat (capacity (heap_getDesc hp))
       then (st\<lparr>sink := sink st @ [(Error, [DoesNotFit KBuffer (buf_debugName (buf_getDesc buf))
                  (heap_debugName (heap_getDesc hp)) offset
                  (size_req (dev_getBufferMemoryRequirements dev buf))
                  (capacity (heap_getDesc hp))])],
                calls := calls st @ [Call_getBufferMemoryRequirements buf]\<rparr>, False)
       else if alignment (dev_getBufferMemoryRequirements dev buf) \<noteq> 0
             \<and> offset mod alignment (dev_getBufferMemoryRequirements dev buf) \<noteq> 0
       then (st\<lparr>sink := sink st @ [(Error, [InvalidAlignment KBuffer
                  (buf_debugName (buf_getDesc buf)) (heap_debugName (heap_getDesc hp))
                  (alignment (dev_getBufferMemoryRequirements dev buf)) offset])],
                calls := calls st @ [Call_getBufferMemoryRequirements buf]\<rparr>, False)
       else (st\<lparr>calls := calls st @ [Call_getBufferMemoryRequirements buf,
                  Call_bindBufferMemory buf hp offset]\<rparr>,
             dev_bindBufferMemory dev buf hp offset)))
   \<and> (as_isVirtual (as_getDesc (underlyingAccelStruct as0)) \<longrightarrow>
     bindAccelStructMemory dev st (Some as0) (Some hp) offset =
      (if (unat offset + unat (size_req (dev_getAccelStructMemoryRequirements dev
                (underlyingAccelStruct as0)))) mod 2 ^ 64
            > unat (capacity (heap_getDesc hp))
       then (st\<lparr>sink := sink st @ [(Error, [DoesNotFit KAccelStruct
                  (as_debugName (as_getDesc (underlyingAccelStruct as0)))
                  (heap_debugName (heap_getDesc hp)) offset
                  (size_req (dev_getAccelStructMemoryRequirements dev (underlyingAccelStruct as0)))
                  (capacity (heap_getDesc hp))])],
                calls := calls st @ [Call_getAccelStructMemoryRequirements
                  (underlyingAccelStruct as0)]\<rparr>, False)
       else if alignment (dev_getAccelStructMemoryRequirements dev (underlyingAccelStruct as0))
               \<noteq> 0
             \<and> offset mod alignment (dev_getAccelStructMemoryRequirements dev
                   (underlyingAccelStruct as0)) \<noteq> 0
       then (st\<lparr>sink := sink st @ [(Error, [InvalidAlignment KAccelStruct
                  (as_debugName (as_getDesc (underlyingAccelStruct as0)))
                  (heap_debugName (heap_getDesc hp))
                  (alignment (dev_getAccelStructMemoryRequirements dev
                     (underlyingAccelStruct as0))) offset])],
                calls := calls st @ [Call_getAccelStructMemoryRequirements
                  (underlyingAccelStruct as0)]\<rparr>, False)
       else (st\<lparr>calls := calls st @ [Call_getAccelStructMemoryRequirements
                  (underlyingAccelStruct as0),
                  Call_bindAccelStructMemory (underlyingAccelStruct as0) hp offset]\<rparr>,
             dev_bindAccelStructMemory dev (underlyingAccelStruct as0) hp offset)))
   \<and> (\<exists>(off :: 64 word) (sz :: 64 word) d t b a h.
        2 ^ 64 \<le> unat off + unat sz
      \<and> tex_isVirtual (tex_getDesc t) \<and> buf_isVirtual (buf_getDesc b)
      \<and> as_isVirtual (as_getDesc a)
      \<and> size_req (dev_getTextureMemoryRequirements d t) = sz
      \<and> size_req (dev_getBufferMemoryRequirements d b) = sz
      \<and> size_req (dev_getAccelStructMemoryRequirements d a) = sz
      \<and> bindTextureMemory d st (Some t) (Some h) off =
          (st\<lparr>calls := calls st @ [Call_getTextureMemoryRequirements t,
              Call_bindTextureMemory t h off]\<rparr>, dev_bindTextureMemory d t h off)
      \<and> bindBufferMemory d st (Some b) (Some h) off =
          (st\<lparr>calls := calls st @ [Call_getBufferMemoryRequirements b,
              Call_bindBufferMemory b h off]\<rparr>, dev_bindBufferMemory d b h off)
      \<and> bindAccelStructMemory d st (Some a) (Some h) off =
          (st\<lparr>calls := calls st @ [Call_getAccelStructMemoryRequirements a,
              Call_bindAccelStructMemory a h off]\<rparr>, dev_bindAccelStructMemory d a h off))"
proof (intro conjI impI)
  show "\<exists>(off :: 64 word) (sz :: 64 word) d t b a h.
        2 ^ 64 \<le> unat off + unat sz
      \<and> tex_isVirtual (tex_getDesc t) \<and> buf_isVirtual (buf_getDesc b)
      \<and> as_isVirtual (as_getDesc a)
      \<and> size_req (dev_getTextureMemoryRequirements d t) = sz
      \<and> size_req (dev_getBufferMemoryRequirements d b) = sz
      \<and> size_req (dev_getAccelStructMemoryRequirements d a) = sz
      \<and> bindTextureMemory d st (Some t) (Some h) off =
          (st\<lparr>calls := calls st @ [Call_getTextureMemoryRequirements t,
              Call_bindTextureMemory t h off]\<rparr>, dev_bindTextureMemory d t h off)
      \<and> bindBufferMemory d st (Some b) (Some h) off =
          (st\<lparr>calls := calls st @ [Call_getBufferMemoryRequirements b,
              Call_bindBufferMemory b h off]\<rparr>, dev_bindBufferMemory d b h off)
      \<and> bindAccelStructMemory d st (Some a) (Some h) off =
          (st\<lparr>calls := calls st @ [Call_getAccelStructMemoryRequirements a,
              Call_bindAccelStructMemory a h off]\<rparr>, dev_bindAccelStructMemory d a h off)"
    apply (rule exI [of _ "2 ^ 63"])
    apply (rule exI [of _ "2 ^ 63 + 16"])
    apply (rule exI [of _ devBig])
    apply (rule exI [of _ texV])
    apply (rule exI [of _ bufV])
    apply (rule exI [of _ asV])
    apply (rule exI [of _ heap16])
    apply (simp only: bindTextureMemory_overflow_forwarded bindBufferMemory_overflow_forwarded
        bindAccelStructMemory_overflow_forwarded)
    apply (simp add: devBig_def bigReq_def texV_def bufV_def asV_def)
    done
qed (rule bindTextureMemory_result, assumption, rule bindBufferMemory_result, assumption,
    rule bindAccelStructMemory_result, assumption)

theorem bind_memory_fit_check_wraps_witness:
  "tex_isVirtual (tex_getDesc texV) \<and> buf_isVirtual (buf_getDesc bufV)
   \<and> as_isVirtual (as_getDesc (underlyingAccelStruct asV))
   \<and> bindTextureMemory devBig st0 (Some texV) (Some heap16) 1 =
       (\<lparr>sink = [(Error, [DoesNotFit KTexture ''tex'' ''heap'' 1 (2 ^ 63 + 16) 16])],
         calls = [Call_getTextureMemoryRequirements texV]\<rparr>, False)
   \<and> bindBufferMemory devBig st0 (Some bufV) (Some heap16) 1 =
       (\<lparr>sink = [(Error, [DoesNotFit KBuffer ''buf'' ''heap'' 1 (2 ^ 63 + 16) 16])],
         calls = [Call_getBufferMemoryRequirements bufV]\<rparr>, False)
   \<and> bindAccelStructMemory devBig st0 (Some asV) (Some heap16) 1 =
       (\<lparr>sink = [(Error, [DoesNotFit KAccelStruct ''blas'' ''heap'' 1 (2 ^ 63 + 16) 16])],
         calls = [Call_getAccelStructMemoryRequirements asV]\<rparr>, False)
   \<and> bindTextureMemory devBig st0 (Some texV) (Some heap16) (2 ^ 63) =
       (\<lparr>sink = [], calls = [Call_getTextureMemoryRequirements texV,
           Call_bindTextureMemory texV heap16 (2 ^ 63)]\<rparr>, True)"
proof -
  have v: "tex_isVirtual (tex_getDesc texV)" "buf_isVirtual (buf_getDesc bufV)"
    "as_isVirtual (as_getDesc (underlyingAccelStruct asV))"
    by (simp_all add: texV_def bufV_def asV_def underlyingAccelStruct_def)
  have big: "(unat (1 :: 64 word) + unat ((2 ^ 63 + 16) :: 64 word)) mod 2 ^ 64 > unat (16 :: 64 word)"
    "\<not> (unat ((2 ^ 63) :: 64 word) + unat ((2 ^ 63 + 16) :: 64 word)) mod 2 ^ 64
        > unat (16 :: 64 word)"
    by simp_all
  note t = bind_memory_fit_check_wraps [of texV devBig st0 heap16 _ bufV asV]
  from t [of 1] t [of "2 ^ 63"] v big
  show ?thesis
    by (simp add: devBig_def bigReq_def texV_def bufV_def asV_def heap16_def st0_def
        underlyingAccelStruct_def)
qed

section \<open>Texture creation: one sink call for each violated rule\<close>

lemma report_if_eq:
  "report_if c m (st, b) = (st\<lparr>sink := sink st @ (if c then [(Error, m)] else [])\<rparr>, b \<or> c)"
  by (simp add: report_if_def error_def)





section \<open>Buffer creation: volatile constant buffers\<close>

lemma createBuffer_volatile_rejected:
  assumes "isVolatile d"
    and "\<not> isConstantBuffer d \<or> maxVersions d = 0 \<or> cpuAccess d \<noteq> CpuNone
      \<or> isVertexBuffer d \<or> isIndexBuffer d \<or> isDrawIndirectArgs d \<or> canHaveUAVs d
      \<or> isAccelStructBuildInput d \<or> isAccelStructStorage d \<or> isShaderBindingTable d
      \<or> buf_isVirtual d"
  shows "snd (createBuffer ext dev st d) = None
    \<and> calls (fst (createBuffer ext dev st d)) = calls st
    \<and> length (sink (fst (createBuffer ext dev st d))) = Suc (length (sink st))"
  using assms
  by (auto simp add: createBuffer_def Let_def error_def backend_def)

lemma createBuffer_volatile_forwarded:
  assumes "isVolatile d" "isConstantBuffer d" "maxVersions d = 1" "cpuAccess d = CpuNone"
    and "\<not> isVertexBuffer d" "\<not> isIndexBuffer d" "\<not> isDrawIndirectArgs d" "\<not> canHaveUAVs d"
      "\<not> isAccelStructBuildInput d" "\<not> isAccelStructStorage d" "\<not> isShaderBindingTable d"
      "\<not> buf_isVirtual d"
    and "\<not> (buf_keepInitialState d \<and> buf_initialState d = ResourceStates_Unknown)"
  shows "createBuffer ext dev st d =
    (backend st (Call_createBuffer (patchedBufferDesc ext d)),
     dev_createBuffer dev (patchedBufferDesc ext d))"
  using assms
  by (auto simp add: createBuffer_def Let_def error_def backend_def patchedBufferDesc_def)

text \<open>
  C8, as stated, fails in its second half: a volatile constant buffer with
  \<open>maxVersions = 1\<close>, \<open>cpuAccess = None\<close> and none of the listed usage flags is still
  rejected when it sets \<^verbatim>\<open>keepInitialState\<close> and leaves \<^verbatim>\<open>initialState\<close> unknown, by the
  last check of \<^verbatim>\<open>createBuffer\<close>. The wrapped device is not called.
\<close>

theorem createBuffer_volatile_kept_unknown_state_rejected:
  "isVolatile (volatileCB\<lparr>buf_keepInitialState := True\<rparr>)
   \<and> isConstantBuffer (volatileCB\<lparr>buf_keepInitialState := True\<rparr>)
   \<and> maxVersions (volatileCB\<lparr>buf_keepInitialState := True\<rparr>) = 1
   \<and> cpuAccess (volatileCB\<lparr>buf_keepInitialState := True\<rparr>) = CpuNone
   \<and> \<not> isVertexBuffer (volatileCB\<lparr>buf_keepInitialState := True\<rparr>)
   \<and> \<not> isIndexBuffer (volatileCB\<lparr>buf_keepInitialState := True\<rparr>)
   \<and> \<not> isDrawIndirectArgs (volatileCB\<lparr>buf_keepInitialState := True\<rparr>)
   \<and> \<not> canHaveUAVs (volatileCB\<lparr>buf_keepInitialState := True\<rparr>)
   \<and> \<not> isAccelStructBuildInput (volatileCB\<lparr>buf_keepInitialState := True\<rparr>)
   \<and> \<not> isAccelStructStorage (volatileCB\<lparr>buf_keepInitialState := True\<rparr>)
   \<and> \<not> isShaderBindingTable (volatileCB\<lparr>buf_keepInitialState := True\<rparr>)
   \<and> \<not> buf_isVirtual (volatileCB\<lparr>buf_keepInitialState := True\<rparr>)
   \<and> createBuffer ext0 devBig st0 (volatileCB\<lparr>buf_keepInitialState := True\<rparr>) =
       (\<lparr>sink = [(Error, [BufferFinding BufferInitialStateUnknownButKept ''cb'' []])],
         calls = []\<rparr>, None)"
  by (simp add: createBuffer_def Let_def error_def backend_def volatileCB_def st0_def
      ResourceStates_Unknown_def)

text \<open>
  C8, amended. For a buffer descriptor with \<open>isVolatile = true\<close>: \<^verbatim>\<open>createBuffer\<close> fails,
  with one diagnostic and no call of the wrapped device, if \<open>isConstantBuffer\<close> is false,
  or \<open>maxVersions = 0\<close>, or \<open>cpuAccess\<close> is not \<open>None\<close>, or any of the usage flags
  isVertexBuffer, isIndexBuffer, isDrawIndirectArgs, canHaveUAVs, isAccelStructBuildInput,
  isAccelStructStorage, isShaderBindingTable, isVirtual is set. A volatile descriptor with
  \<open>isConstantBuffer = true\<close>, \<open>maxVersions = 1\<close>, \<open>cpuAccess = None\<close>, none of these
  flags, and not both \<open>keepInitialState\<close> and an unknown \<open>initialState\<close>, passes
  validation and is forwarded (with its patched debug name) to the wrapped device.
\<close>

theorem createBuffer_volatile_rules:
  "(isVolatile d \<and> (\<not> isConstantBuffer d \<or> maxVersions d = 0 \<or> cpuAccess d \<noteq> CpuNone
        \<or> isVertexBuffer d \<or> isIndexBuffer d \<or> isDrawIndirectArgs d \<or> canHaveUAVs d
        \<or> isAccelStructBuildInput d \<or> isAccelStructStorage d \<or> isShaderBindingTable d
        \<or> buf_isVirtual d)
      \<longrightarrow> snd (createBuffer ext dev st d) = None
        \<and> calls (fst (createBuffer ext dev st d)) = calls st
        \<and> length (sink (fst (createBuffer ext dev st d))) = Suc (length (sink st)))
   \<and> (isVolatile d \<and> isConstantBuffer d \<and> maxVersions d = 1 \<and> cpuAccess d = CpuNone
        \<and> \<not> isVertexBuffer d \<and> \<not> isIndexBuffer d \<and> \<not> isDrawIndirectArgs d \<and> \<not> canHaveUAVs d
        \<and> \<not> isAccelStructBuildInput d \<and> \<not> isAccelStructStorage d \<and> \<not> isShaderBindingTable d
        \<and> \<not> buf_isVirtual d
        \<and> \<not> (buf_keepInitialState d \<and> buf_initialState d = ResourceStates_Unknown)
      \<longrightarrow> createBuffer ext dev st d =
          (backend st (Call_createBuffer (patchedBufferDesc ext d)),
           dev_createBuffer dev (patchedBufferDesc ext d)))"
  using createBuffer_volatile_rejected [of d ext dev st]
    createBuffer_volatile_forwarded [of d ext dev st]
  by blast

theorem createBuffer_volatile_rules_witness:
  "isVolatile (volatileCB\<lparr>isVertexBuffer := True\<rparr>)
   \<and> isVertexBuffer (volatileCB\<lparr>isVertexBuffer := True\<rparr>)
   \<and> snd (createBuffer ext0 devBig st0 (volatileCB\<lparr>isVertexBuffer := True\<rparr>)) = None
   \<and> calls (fst (createBuffer ext0 devBig st0 (volatileCB\<lparr>isVertexBuffer := True\<rparr>))) = []
   \<and> length (sink (fst (createBuffer ext0 devBig st0 (volatileCB\<lparr>isVertexBuffer := True\<rparr>)))) = 1
   \<and> isVolatile volatileCB \<and> isConstantBuffer volatileCB \<and> maxVersions volatileCB = 1
   \<and> cpuAccess volatileCB = CpuNone \<and> \<not> buf_keepInitialState volatileCB
   \<and> createBuffer ext0 devBig st0 volatileCB =
       (\<lparr>sink = [], calls = [Call_createBuffer volatileCB]\<rparr>,
        Some \<lparr>buf_id = 11, buf_getDesc = volatileCB\<rparr>)"
proof -
  have h1: "isVolatile (volatileCB\<lparr>isVertexBuffer := True\<rparr>)"
    "isVertexBuffer (volatileCB\<lparr>isVertexBuffer := True\<rparr>)"
    by (simp_all add: volatileCB_def)
  have h2: "isVolatile volatileCB" "isConstantBuffer volatileCB" "maxVersions volatileCB = 1"
    "cpuAccess volatileCB = CpuNone" "\<not> isVertexBuffer volatileCB" "\<not> isIndexBuffer volatileCB"
    "\<not> isDrawIndirectArgs volatileCB" "\<not> canHaveUAVs volatileCB"
    "\<not> isAccelStructBuildInput volatileCB" "\<not> isAccelStructStorage volatileCB"
    "\<not> isShaderBindingTable volatileCB" "\<not> buf_isVirtual volatileCB"
    "\<not> buf_keepInitialState volatileCB"
    by (simp_all add: volatileCB_def)
  have p: "patchedBufferDesc ext0 volatileCB = volatileCB"
    by (simp add: patchedBufferDesc_def volatileCB_def)
  from createBuffer_volatile_rules [of "volatileCB\<lparr>isVertexBuffer := True\<rparr>" ext0 devBig st0]
    createBuffer_volatile_rules [of volatileCB ext0 devBig st0] h1 h2 p
  show ?thesis
    by (simp add: st0_def backend_def devBig_def)
qed

section \<open>Sampler feedback for native textures\<close>

lemma createSamplerFeedbackForNativeTexture_returns_only_off_D3D12:
  assumes "createSamplerFeedbackForNativeTexture dev st ot t p = Some y"
  shows "dev_getGraphicsAPI dev \<noteq> D3D12"
proof (rule createSamplerFeedbackForNativeTexture.raw_induct
    [where P = "\<lambda>dev st ot t p y. dev_getGraphicsAPI dev \<noteq> D3D12", OF _ assms])
  fix f dev st objectType texture pairedTexture y
  assume ih: "\<And>dev st objectType texture pairedTexture y.
      f dev st objectType texture pairedTexture = Some y \<Longrightarrow> dev_getGraphicsAPI dev \<noteq> D3D12"
    and step: "(let st1 = backend st Call_getGraphicsAPI; graphicsApi = dev_getGraphicsAPI dev in
      if graphicsApi \<noteq> D3D12
      then Some (error (backend st1 Call_getGraphicsAPI)
              [ApiUnsupported (dev_getGraphicsAPI dev) ''createSamplerFeedbackForNativeTexture''],
              None)
      else f dev st1 objectType texture pairedTexture) = Some y"
  show "dev_getGraphicsAPI dev \<noteq> D3D12"
  proof
    assume d: "dev_getGraphicsAPI dev = D3D12"
    with step have "f dev (backend st Call_getGraphicsAPI) objectType texture pairedTexture = Some y"
      by (simp add: Let_def)
    from ih [OF this] d show False by simp
  qed
qed

lemma createSamplerFeedbackForNativeTexture_D3D12:
  "dev_getGraphicsAPI dev = D3D12 \<Longrightarrow>
    createSamplerFeedbackForNativeTexture dev st ot t p = None"
  using createSamplerFeedbackForNativeTexture_returns_only_off_D3D12 [of dev st ot t p]
  by (cases "createSamplerFeedbackForNativeTexture dev st ot t p") auto

lemma createSamplerFeedbackForNativeTexture_other_api:
  "dev_getGraphicsAPI dev \<noteq> D3D12 \<Longrightarrow>
    createSamplerFeedbackForNativeTexture dev st ot t p =
      Some (error (backend (backend st Call_getGraphicsAPI) Call_getGraphicsAPI)
        [ApiUnsupported (dev_getGraphicsAPI dev) ''createSamplerFeedbackForNativeTexture''], None)"
  by (subst createSamplerFeedbackForNativeTexture.simps) (simp add: Let_def)

text \<open>
  C3 (the code departs from the claim). On a D3D12 device
  \<^verbatim>\<open>createSamplerFeedbackForNativeTexture\<close> calls itself with the same arguments and never
  returns: the value of the model is \<open>None\<close>, so the call is never forwarded to the
  wrapped device. The sibling \<^verbatim>\<open>createSamplerFeedbackTexture\<close> forwards once on the same
  device.
\<close>

theorem createSamplerFeedbackForNativeTexture_never_returns_on_D3D12:
  "dev_getGraphicsAPI devBig = D3D12
   \<and> createSamplerFeedbackForNativeTexture devBig st0 0 0 None = None
   \<and> createSamplerFeedbackTexture devBig st0 None 0 =
       (\<lparr>sink = [], calls = [Call_getGraphicsAPI, Call_createSamplerFeedbackTexture None 0]\<rparr>,
        Some 12)"
proof -
  have d: "dev_getGraphicsAPI devBig = D3D12"
    by (simp add: devBig_def)
  have s: "createSamplerFeedbackTexture devBig st0 None 0 =
       (\<lparr>sink = [], calls = [Call_getGraphicsAPI, Call_createSamplerFeedbackTexture None 0]\<rparr>,
        Some 12)"
    by (simp add: createSamplerFeedbackTexture_def Let_def backend_def st0_def devBig_def)
  from d s createSamplerFeedbackForNativeTexture_D3D12 [OF d, of st0 0 0 None]
  show ?thesis by simp
qed

section \<open>Acceleration structures\<close>

text \<open>
  C1 (the code departs from the claim). \<^verbatim>\<open>createAccelStruct\<close> calls
  \<^verbatim>\<open>m_Device->createAccelStruct(desc)\<close> in its first statement and checks the build flags
  afterwards. For the top-level descriptor with \<open>AllowCompaction\<close> the wrapped device has
  been called once when the diagnostic is reported and null is returned.
\<close>

theorem createAccelStruct_calls_backend_before_validation:
  "createAccelStruct devBig st0 tlasCompact =
    (\<lparr>sink = [(Error, [TlasWithCompaction ''tlas''])],
      calls = [Call_createAccelStruct tlasCompact]\<rparr>, None)"
  by (simp add: createAccelStruct_def Let_def devBig_def st0_def error_def backend_def
      tlasCompact_def)

text \<open>
  C9. Every acceleration structure that \<^verbatim>\<open>createAccelStruct\<close> returns is a wrapper around
  the handle that the wrapped device's \<^verbatim>\<open>createAccelStruct\<close> returned, and
  \<^verbatim>\<open>unwrapResource\<close> of it is exactly that handle; \<^verbatim>\<open>unwrapResource\<close> of null is null, and
  of a resource that is not an acceleration-structure wrapper is the resource itself.
\<close>

theorem accelStruct_wrap_unwrap_roundtrip:
  "(createAccelStruct dev st desc = (st', Some h) \<longrightarrow>
      (\<exists>a. dev_createAccelStruct dev desc = Some a
         \<and> h = AccelStructWrapper a (isTopLevel desc) (AllowUpdate \<in> buildFlags desc)
                (AllowCompaction \<in> buildFlags desc) (topLevelMaxInstances desc)
         \<and> unwrapResource (Some (Res_AccelStruct h)) = Some (Res_AccelStruct a)))
   \<and> unwrapResource None = None
   \<and> ((\<forall>u t up c m. r \<noteq> Res_AccelStruct (AccelStructWrapper u t up c m))
        \<longrightarrow> unwrapResource (Some r) = Some r)"
proof -
  have a: "createAccelStruct dev st desc = (st', Some h) \<longrightarrow>
    (\<exists>a. dev_createAccelStruct dev desc = Some a
       \<and> h = AccelStructWrapper a (isTopLevel desc) (AllowUpdate \<in> buildFlags desc)
              (AllowCompaction \<in> buildFlags desc) (topLevelMaxInstances desc)
       \<and> unwrapResource (Some (Res_AccelStruct h)) = Some (Res_AccelStruct a))"
    by (auto simp add: createAccelStruct_def Let_def split: option.splits if_splits)
  have b: "(\<forall>u t up c m. r \<noteq> Res_AccelStruct (AccelStructWrapper u t up c m))
      \<longrightarrow> unwrapResource (Some r) = Some r"
    by (cases "Some r" rule: unwrapResource.cases) auto
  show ?thesis using a b by simp
qed

theorem accelStruct_wrap_unwrap_roundtrip_witness:
  "createAccelStruct devBig st0 blasUpdate =
     (\<lparr>sink = [], calls = [Call_createAccelStruct blasUpdate]\<rparr>,
      Some (AccelStructWrapper (NativeAccelStruct 14 blasUpdate) False True False 0))
   \<and> dev_createAccelStruct devBig blasUpdate = Some (NativeAccelStruct 14 blasUpdate)
   \<and> unwrapResource (Some (Res_AccelStruct
        (AccelStructWrapper (NativeAccelStruct 14 blasUpdate) False True False 0))) =
      Some (Res_AccelStruct (NativeAccelStruct 14 blasUpdate))
   \<and> unwrapResource (Some (Res_Texture texV)) = Some (Res_Texture texV)"
proof -
  have c: "createAccelStruct devBig st0 blasUpdate =
     (\<lparr>sink = [], calls = [Call_createAccelStruct blasUpdate]\<rparr>,
      Some (AccelStructWrapper (NativeAccelStruct 14 blasUpdate) False True False 0))"
    by (simp add: createAccelStruct_def Let_def devBig_def st0_def backend_def blasUpdate_def)
  have n: "\<forall>u t up c m. Res_Texture texV \<noteq> Res_AccelStruct (AccelStructWrapper u t up c m)"
    by simp
  from accelStruct_wrap_unwrap_roundtrip [of devBig st0 blasUpdate
      "\<lparr>sink = [], calls = [Call_createAccelStruct blasUpdate]\<rparr>"
      "AccelStructWrapper (NativeAccelStruct 14 blasUpdate) False True False 0"
      "Res_Texture texV"] c n
  show ?thesis by auto
qed

section \<open>Set operations on location lists\<close>

lemma SetDifference_set: "set (SetDifference a b) = set a - set b"
  unfolding SetDifference_def
  by (induction b arbitrary: a) auto

lemma SetUnionInplace_set: "set (SetUnionInplace a b) = set a \<union> set b"
  unfolding SetUnionInplace_def
  by (induction b arbitrary: a) auto

lemma SetIntersection_aux:
  "set (foldl (\<lambda>result item. if item \<in> set b then List.insert item result else result) acc a)
     = set acc \<union> (set a \<inter> set b)"
  by (induction a arbitrary: acc) auto

lemma SetIntersection_set: "set (SetIntersection a b) = set a \<inter> set b"
  unfolding SetIntersection_def by (simp add: SetIntersection_aux)

section \<open>The summaries of a layout and of a binding set\<close>

lemma visitAll_simps [simp]:
  "visitAll acc [] = acc"
  "visitAll (st, b, d) ((t, l) # vs) = visitAll (UpdateBindingSummaryWithLocation st t l b d) vs"
  by (simp_all add: visitAll_def)

lemma visitAll_append: "visitAll acc (xs @ ys) = visitAll (visitAll acc xs) ys"
  by (simp add: visitAll_def)

lemma fold_visits:
  "foldl (\<lambda>(st1, b, d) k. UpdateBindingSummaryWithLocation st1 (g k) (f k) b d) acc ks
   = visitAll acc (map (\<lambda>k. (g k, f k)) ks)"
  by (induction ks arbitrary: acc) (auto simp add: visitAll_def split: prod.splits)

lemma inner_fold_visits:
  "foldl (\<lambda>(st1, b, d) k. UpdateBindingSummaryWithLocation st1 t (f k) b d) acc ks
   = visitAll acc (map (\<lambda>k. (t, f k)) ks)"
  using fold_visits [of "\<lambda>k. t" f acc ks] by simp

lemma FillBindingLayoutSummary_visits:
  "FillBindingLayoutSummary ext st desc b d = visitAll (st, b, d) (layoutVisits ext desc)"
proof -
  have "foldl (\<lambda>acc item.
        foldl (\<lambda>(st1, b, d) k.
            UpdateBindingSummaryWithLocation st1 (item_type item)
              \<lparr>loc_type = defaultLocationType ext, loc_registerSpace = registerSpace desc,
               loc_slot = item_slot item, loc_arrayElement = of_nat k\<rparr> b d)
          acc [0 ..< unat (getArraySize ext item)]) acc items
    = visitAll acc (concat (map (\<lambda>item. map (\<lambda>k. (item_type item,
        \<lparr>loc_type = defaultLocationType ext,
         loc_registerSpace = registerSpace desc, loc_slot = item_slot item,
         loc_arrayElement = of_nat k\<rparr>)) [0 ..< unat (getArraySize ext item)]) items))"
    for acc items
    by (induction items arbitrary: acc) (simp_all add: inner_fold_visits visitAll_append)
  then show ?thesis
    by (simp add: FillBindingLayoutSummary_def layoutVisits_def)
qed

lemma FillBindingSetSummary_visits:
  "FillBindingSetSummary ext st desc rs b d = visitAll (st, b, d) (setVisits ext desc rs)"
  unfolding FillBindingSetSummary_def setVisits_def
  by (rule fold_visits)

lemma classify_location:
  "fst (snd (classify st t l b)) = classified (t, l)"
  by (cases t) (simp_all add: classify_def classified_def resourceClass_def Let_def)

lemma classify_locations:
  "locations (snd (snd (classify st t l b))) = locations b"
  by (cases t) (simp_all add: classify_def Let_def)

lemma classify_state:
  "fst (classify st t l b) = st\<lparr>sink := sink st @ visitMessages (t, l)\<rparr>"
  by (cases t) (simp_all add: classify_def visitMessages_def validType_def error_def)

lemma classify_pure:
  "snd (classify st t l b) = snd (classify st' t l b)"
  by (cases t) (simp_all add: classify_def Let_def)

lemma Update_state:
  "fst (UpdateBindingSummaryWithLocation st t l b d) = st\<lparr>sink := sink st @ visitMessages (t, l)\<rparr>"
  using classify_state [of st t l b]
  by (auto simp add: UpdateBindingSummaryWithLocation_def split: prod.splits)

lemma Update_pure:
  "snd (UpdateBindingSummaryWithLocation st t l b d) = snd (UpdateBindingSummaryWithLocation st' t l b d)"
  using classify_pure [of st t l b st']
  by (cases "classify st t l b"; cases "classify st' t l b")
     (auto simp add: UpdateBindingSummaryWithLocation_def)

lemma Update_locations:
  "set (locations (fst (snd (UpdateBindingSummaryWithLocation st t l b d))))
     = insert (classified (t, l)) (set (locations b))"
  using classify_location [of st t l b] classify_locations [of st t l b]
  by (cases "classify st t l b") (auto simp add: UpdateBindingSummaryWithLocation_def)

lemma visitAll_state:
  "fst (visitAll (st, b, d) vs) = st\<lparr>sink := sink st @ concat (map visitMessages vs)\<rparr>"
proof (induction vs arbitrary: st b d)
  case Nil
  then show ?case by simp
next
  case (Cons v vs)
  obtain t l where v: "v = (t, l)" by (cases v)
  obtain st1 b1 d1 where u: "UpdateBindingSummaryWithLocation st t l b d = (st1, b1, d1)"
    by (cases "UpdateBindingSummaryWithLocation st t l b d")
  have "st1 = st\<lparr>sink := sink st @ visitMessages (t, l)\<rparr>"
    using Update_state [of st t l b d] u by simp
  then show ?case using Cons.IH [of st1 b1 d1] v u by simp
qed

lemma visitAll_pure:
  "snd (visitAll (st, b, d) vs) = snd (visitAll (st', b, d) vs)"
proof (induction vs arbitrary: st st' b d)
  case Nil
  then show ?case by simp
next
  case (Cons v vs)
  obtain t l where v: "v = (t, l)" by (cases v)
  obtain st1 b1 d1 where u: "UpdateBindingSummaryWithLocation st t l b d = (st1, b1, d1)"
    by (cases "UpdateBindingSummaryWithLocation st t l b d")
  obtain st2 b2 d2 where u': "UpdateBindingSummaryWithLocation st' t l b d = (st2, b2, d2)"
    by (cases "UpdateBindingSummaryWithLocation st' t l b d")
  have "b1 = b2 \<and> d1 = d2" using Update_pure [of st t l b d st'] u u' by simp
  then show ?case using Cons.IH [of st1 b1 d1 st2] v u u' by simp
qed

lemma visitAll_locations:
  "set (locations (fst (snd (visitAll (st, b, d) vs)))) = set (locations b) \<union> classified ` set vs"
proof (induction vs arbitrary: st b d)
  case Nil
  then show ?case by simp
next
  case (Cons v vs)
  obtain t l where v: "v = (t, l)" by (cases v)
  obtain st1 b1 d1 where u: "UpdateBindingSummaryWithLocation st t l b d = (st1, b1, d1)"
    by (cases "UpdateBindingSummaryWithLocation st t l b d")
  have "set (locations b1) = insert (classified (t, l)) (set (locations b))"
    using Update_locations [of st t l b d] u by simp
  then show ?case using Cons.IH [of st1 b1 d1] v u by auto
qed

lemma classified_layoutVisits:
  "map classified (layoutVisits ext desc) = layoutLocationList ext desc"
  by (simp add: layoutVisits_def layoutLocationList_def map_concat comp_def classified_def)

lemma classified_setVisits:
  "map classified (setVisits ext desc rs) = setLocationList ext desc rs"
  by (simp add: setVisits_def setLocationList_def comp_def classified_def)

lemma FillBindingLayoutSummary_locations:
  "set (locations (fst (snd (FillBindingLayoutSummary ext st desc BindingSummary_init []))))
    = set (layoutLocationList ext desc)"
  using visitAll_locations [of st BindingSummary_init "[]" "layoutVisits ext desc"]
    classified_layoutVisits [of ext desc, symmetric]
  by (simp add: FillBindingLayoutSummary_visits BindingSummary_init_def)

lemma FillBindingSetSummary_locations:
  "set (locations (fst (snd (FillBindingSetSummary ext st desc rs BindingSummary_init []))))
    = set (setLocationList ext desc rs)"
  using visitAll_locations [of st BindingSummary_init "[]" "setVisits ext desc rs"]
    classified_setVisits [of ext desc rs, symmetric]
  by (simp add: FillBindingSetSummary_visits BindingSummary_init_def)

section \<open>Effects of validating the items of a binding set\<close>

lemma bufferDesc_effects:
  "sink (fst (validateBindingSetItem_bufferDesc ext dev st binding desc es)) = sink st
   \<and> (\<exists>cs. calls (fst (validateBindingSetItem_bufferDesc ext dev st binding desc es))
          = calls st @ cs \<and> list_all isQuery cs)
   \<and> (\<exists>xs. fst (snd (validateBindingSetItem_bufferDesc ext dev st binding desc es)) = es @ xs
          \<and> list_all isItemFinding xs)
   \<and> \<not> isl (snd (snd (validateBindingSetItem_bufferDesc ext dev st binding desc es)))"
  by (simp add: validateBindingSetItem_bufferDesc_def Let_def backend_def isQuery_def
      isItemFinding_def)

lemma buffer_effects:
  "sink (fst (validateBindingSetItem_buffer ext dev st binding es)) = sink st
   \<and> (\<exists>cs. calls (fst (validateBindingSetItem_buffer ext dev st binding es))
          = calls st @ cs \<and> list_all isQuery cs)
   \<and> (\<exists>xs. fst (snd (validateBindingSetItem_buffer ext dev st binding es)) = es @ xs
          \<and> list_all isItemFinding xs)
   \<and> ((case resourceHandle binding of None \<Rightarrow> True | Some (Res_Buffer b) \<Rightarrow> True
         | Some other \<Rightarrow> False)
       \<longrightarrow> \<not> isl (snd (snd (validateBindingSetItem_buffer ext dev st binding es))))"
proof (cases "resourceHandle binding")
  case None
  then show ?thesis
    by (simp add: validateBindingSetItem_buffer_def Let_def backend_def isQuery_def
        isItemFinding_def)
next
  case (Some r)
  show ?thesis
  proof (cases r)
    case (Res_Buffer b)
    with Some bufferDesc_effects [of ext dev st binding "buf_getDesc b" es] show ?thesis
      by (simp add: validateBindingSetItem_buffer_def)
  qed (use Some in \<open>simp_all add: validateBindingSetItem_buffer_def\<close>)
qed

lemma texture_effects:
  "sink (fst (validateBindingSetItem_texture ext st binding es)) = sink st
   \<and> (\<exists>cs. calls (fst (validateBindingSetItem_texture ext st binding es))
          = calls st @ cs \<and> list_all isQuery cs)
   \<and> (\<exists>xs. fst (snd (validateBindingSetItem_texture ext st binding es)) = es @ xs
          \<and> list_all isItemFinding xs)
   \<and> ((case resourceHandle binding of None \<Rightarrow> True | Some (Res_Texture b) \<Rightarrow> True
         | Some other \<Rightarrow> False)
       \<longrightarrow> \<not> isl (snd (snd (validateBindingSetItem_texture ext st binding es))))"
proof (cases "resourceHandle binding")
  case None
  then show ?thesis
    by (simp add: validateBindingSetItem_texture_def isItemFinding_def)
next
  case (Some r)
  then show ?thesis
    by (cases r)
       (simp_all add: validateBindingSetItem_texture_def Let_def isItemFinding_def)
qed

lemma wellTyped_texture:
  "wellTypedItem binding \<Longrightarrow> bs_type binding \<in> {Texture_SRV, Texture_UAV} \<Longrightarrow>
    (case resourceHandle binding of None \<Rightarrow> True | Some (Res_Texture b) \<Rightarrow> True
         | Some other \<Rightarrow> False)"
  by (auto simp add: wellTypedItem_def split: option.splits IResource.splits)

lemma wellTyped_buffer:
  "wellTypedItem binding \<Longrightarrow> bs_type binding \<in> {TypedBuffer_SRV, TypedBuffer_UAV,
       StructuredBuffer_SRV, StructuredBuffer_UAV, RawBuffer_SRV, RawBuffer_UAV, ConstantBuffer,
       VolatileConstantBuffer} \<Longrightarrow>
    (case resourceHandle binding of None \<Rightarrow> True | Some (Res_Buffer b) \<Rightarrow> True
         | Some other \<Rightarrow> False)"
  by (auto simp add: wellTypedItem_def split: option.splits IResource.splits if_splits)

lemma item_effects_proj:
  "sink (fst (validateBindingSetItem ext dev st binding dt es)) = sink st
   \<and> (\<exists>cs. calls (fst (validateBindingSetItem ext dev st binding dt es))
          = calls st @ cs \<and> list_all isQuery cs)
   \<and> (\<exists>xs. fst (snd (validateBindingSetItem ext dev st binding dt es)) = es @ xs
          \<and> list_all isItemFinding xs)
   \<and> (wellTypedItem binding
       \<longrightarrow> \<not> isl (snd (snd (validateBindingSetItem ext dev st binding dt es))))"
proof (cases "bs_type binding")
  case Texture_SRV
  with texture_effects [of ext st binding es] wellTyped_texture [of binding] show ?thesis
    by (simp add: validateBindingSetItem_def)
next
  case Texture_UAV
  with texture_effects [of ext st binding es] wellTyped_texture [of binding] show ?thesis
    by (simp add: validateBindingSetItem_def)
next
  case TypedBuffer_SRV
  with buffer_effects [of ext dev st binding es] wellTyped_buffer [of binding] show ?thesis
    by (simp add: validateBindingSetItem_def)
next
  case TypedBuffer_UAV
  with buffer_effects [of ext dev st binding es] wellTyped_buffer [of binding] show ?thesis
    by (simp add: validateBindingSetItem_def)
next
  case StructuredBuffer_SRV
  with buffer_effects [of ext dev st binding es] wellTyped_buffer [of binding] show ?thesis
    by (simp add: validateBindingSetItem_def)
next
  case StructuredBuffer_UAV
  with buffer_effects [of ext dev st binding es] wellTyped_buffer [of binding] show ?thesis
    by (simp add: validateBindingSetItem_def)
next
  case RawBuffer_SRV
  with buffer_effects [of ext dev st binding es] wellTyped_buffer [of binding] show ?thesis
    by (simp add: validateBindingSetItem_def)
next
  case RawBuffer_UAV
  with buffer_effects [of ext dev st binding es] wellTyped_buffer [of binding] show ?thesis
    by (simp add: validateBindingSetItem_def)
next
  case ConstantBuffer
  with buffer_effects [of ext dev st binding es] wellTyped_buffer [of binding] show ?thesis
    by (simp add: validateBindingSetItem_def)
next
  case VolatileConstantBuffer
  with buffer_effects [of ext dev st binding es] wellTyped_buffer [of binding] show ?thesis
    by (simp add: validateBindingSetItem_def)
qed (simp_all add: validateBindingSetItem_def isItemFinding_def)

lemma item_effects:
  assumes "validateBindingSetItem ext dev st binding dt es = (st', es', r)"
  shows "sink st' = sink st \<and> (\<exists>cs. calls st' = calls st @ cs \<and> list_all isQuery cs)
    \<and> (\<exists>xs. es' = es @ xs \<and> list_all isItemFinding xs)
    \<and> (wellTypedItem binding \<longrightarrow> \<not> isl r)"
  using item_effects_proj [of ext dev st binding dt es] assms by simp

lemma validateItems_effects:
  assumes "validateItems ext dev st items es any = (st', es', r)"
  shows "sink st' = sink st \<and> (\<exists>cs. calls st' = calls st @ cs \<and> list_all isQuery cs)
    \<and> (\<exists>xs. es' = es @ xs \<and> list_all isItemFinding xs)
    \<and> (any \<longrightarrow> r \<noteq> Inr False)
    \<and> ((\<forall>item \<in> set items. wellTypedItem item) \<longrightarrow> \<not> isl r)"
  using assms
proof (induction items arbitrary: st es any)
  case Nil
  then show ?case by auto
next
  case (Cons binding rest)
  obtain st1 es1 r1 where v: "validateBindingSetItem ext dev st binding False es = (st1, es1, r1)"
    by (cases "validateBindingSetItem ext dev st binding False es")
  note e = item_effects [OF v]
  show ?case
  proof (cases r1)
    case (Inl fault)
    with v Cons.prems have "st' = st1" "es' = es1" "r = Inl fault" by simp_all
    with e Inl show ?thesis by auto
  next
    case (Inr ok)
    with v Cons.prems have
      rec: "validateItems ext dev st1 rest es1 (any \<or> \<not> ok) = (st', es', r)" by simp
    note ih = Cons.IH [OF rec]
    from e obtain cs xs where cs: "calls st1 = calls st @ cs" "list_all isQuery cs"
      and xs: "es1 = es @ xs" "list_all isItemFinding xs" and s: "sink st1 = sink st" by blast
    from ih obtain cs' xs' where cs': "calls st' = calls st1 @ cs'" "list_all isQuery cs'"
      and xs': "es' = es1 @ xs'" "list_all isItemFinding xs'" and s': "sink st' = sink st1"
      by blast
    have 1: "calls st' = calls st @ (cs @ cs')" "list_all isQuery (cs @ cs')"
      using cs cs' by simp_all
    have 2: "es' = es @ (xs @ xs')" "list_all isItemFinding (xs @ xs')"
      using xs xs' by simp_all
    from ih have 3: "any \<longrightarrow> r \<noteq> Inr False" by simp
    from ih have 4: "(\<forall>item \<in> set (binding # rest). wellTypedItem item) \<longrightarrow> \<not> isl r" by simp
    from 1 2 3 4 s s' show ?thesis by metis
  qed
qed

section \<open>Binding items with a null resource\<close>

lemmas item_defs = validateBindingSetItem_def validateBindingSetItem_texture_def
  validateBindingSetItem_buffer_def Let_def backend_def

text \<open>
  C4 (the claim is too strong). A typed buffer view with a null resource is accepted on
  D3D11, on D3D12 and on Vulkan alike, so the exception is not tied to one backend; and on
  Vulkan a structured buffer and a constant buffer with a null resource are accepted as
  well, so the other buffer classes do not reject a null resource on every backend.
\<close>

theorem validateBindingSetItem_null_buffers_accepted:
  "validateBindingSetItem ext0 devD3D11 st0 (nullItem TypedBuffer_SRV) False []
      = (st0, [], Inr True)
   \<and> validateBindingSetItem ext0 devBig st0 (nullItem TypedBuffer_SRV) False []
      = (st0, [], Inr True)
   \<and> validateBindingSetItem ext0 devVulkan st0 (nullItem TypedBuffer_SRV) False []
      = (st0, [], Inr True)
   \<and> validateBindingSetItem ext0 devVulkan st0 (nullItem StructuredBuffer_SRV) False []
      = (st0\<lparr>calls := [Call_getGraphicsAPI]\<rparr>, [], Inr True)
   \<and> validateBindingSetItem ext0 devVulkan st0 (nullItem ConstantBuffer) False []
      = (st0\<lparr>calls := [Call_getGraphicsAPI]\<rparr>, [], Inr True)
   \<and> dev_getGraphicsAPI devD3D11 = D3D11 \<and> dev_getGraphicsAPI devBig = D3D12
   \<and> dev_getGraphicsAPI devVulkan = VULKAN"
  by (simp add: item_defs nullItem_def devD3D11_def devVulkan_def devBig_def st0_def)

text \<open>
  C4, amended. For a binding item whose resource handle is null,
  \<^verbatim>\<open>validateBindingSetItem\<close> rejects the item with one error when its type is a texture SRV
  or UAV, a sampler or an acceleration structure, on every backend; it accepts the item
  when its type is the sampler-feedback UAV or a typed buffer SRV or UAV, on every
  backend; and for a structured buffer, a raw buffer, a constant buffer and a volatile
  constant buffer it rejects the item on D3D11 and D3D12 and accepts it on Vulkan.
\<close>

theorem validateBindingSetItem_null_resource:
  assumes "resourceHandle binding = None"
  shows "(bs_type binding \<in> {Texture_SRV, Texture_UAV} \<longrightarrow>
        validateBindingSetItem ext dev st binding dt es =
          (st, es @ [ItemFinding NullTexture []], Inr False))
    \<and> (bs_type binding = Sampler \<longrightarrow>
        validateBindingSetItem ext dev st binding dt es =
          (st, es @ [ItemFinding NullSampler []], Inr False))
    \<and> (bs_type binding = RayTracingAccelStruct \<longrightarrow>
        validateBindingSetItem ext dev st binding dt es =
          (st, es @ [ItemFinding NullAccelStruct []], Inr False))
    \<and> (bs_type binding = SamplerFeedbackTexture_UAV \<longrightarrow>
        validateBindingSetItem ext dev st binding dt es = (st, es, Inr True))
    \<and> (bs_type binding \<in> {TypedBuffer_SRV, TypedBuffer_UAV} \<longrightarrow>
        validateBindingSetItem ext dev st binding dt es = (st, es, Inr True))
    \<and> (bs_type binding \<in> {StructuredBuffer_SRV, StructuredBuffer_UAV, RawBuffer_SRV,
            RawBuffer_UAV, ConstantBuffer, VolatileConstantBuffer}
          \<and> dev_getGraphicsAPI dev \<in> {D3D11, D3D12} \<longrightarrow>
        validateBindingSetItem ext dev st binding dt es =
          (backend st Call_getGraphicsAPI, es @ [ItemFinding NullBuffer []], Inr False))
    \<and> (bs_type binding \<in> {StructuredBuffer_SRV, StructuredBuffer_UAV, RawBuffer_SRV,
            RawBuffer_UAV, ConstantBuffer, VolatileConstantBuffer}
          \<and> dev_getGraphicsAPI dev = VULKAN \<longrightarrow>
        validateBindingSetItem ext dev st binding dt es =
          (backend st Call_getGraphicsAPI, es, Inr True))"
  using assms by (auto simp add: item_defs)

text \<open>
  One null item of each kind, on D3D12, D3D11 and Vulkan devices.
\<close>

theorem validateBindingSetItem_null_resource_witness:
  "validateBindingSetItem ext0 devBig st0 (nullItem Texture_SRV) False []
      = (st0, [ItemFinding NullTexture []], Inr False)
   \<and> validateBindingSetItem ext0 devBig st0 (nullItem Sampler) False []
      = (st0, [ItemFinding NullSampler []], Inr False)
   \<and> validateBindingSetItem ext0 devBig st0 (nullItem RayTracingAccelStruct) False []
      = (st0, [ItemFinding NullAccelStruct []], Inr False)
   \<and> validateBindingSetItem ext0 devBig st0 (nullItem SamplerFeedbackTexture_UAV) False []
      = (st0, [], Inr True)
   \<and> validateBindingSetItem ext0 devD3D11 st0 (nullItem TypedBuffer_UAV) False []
      = (st0, [], Inr True)
   \<and> validateBindingSetItem ext0 devBig st0 (nullItem RawBuffer_SRV) False []
      = (backend st0 Call_getGraphicsAPI, [ItemFinding NullBuffer []], Inr False)
   \<and> validateBindingSetItem ext0 devVulkan st0 (nullItem RawBuffer_SRV) False []
      = (backend st0 Call_getGraphicsAPI, [], Inr True)"
proof -
  have n: "resourceHandle (nullItem t) = None" "bs_type (nullItem t) = t" for t
    by (simp_all add: nullItem_def)
  have api: "dev_getGraphicsAPI devBig = D3D12" "dev_getGraphicsAPI devVulkan = VULKAN"
    by (simp_all add: devBig_def devVulkan_def)
  note t = validateBindingSetItem_null_resource [OF n(1), where ext = ext0 and st = st0
      and dt = False and es = "[]"]
  show ?thesis
    using t [where t1 = Texture_SRV and dev = devBig]
      t [where t1 = Sampler and dev = devBig]
      t [where t1 = RayTracingAccelStruct and dev = devBig]
      t [where t1 = SamplerFeedbackTexture_UAV and dev = devBig]
      t [where t1 = TypedBuffer_UAV and dev = devD3D11]
      t [where t1 = RawBuffer_SRV and dev = devBig]
      t [where t1 = RawBuffer_SRV and dev = devVulkan]
    by (simp add: n(2) api)
qed

section \<open>createBindingSet: the locations of the set against those of the layout\<close>

lemma visitMessages_invalid: "list_all isInvalidTypeMessage (concat (map visitMessages vs))"
  by (induction vs) (auto simp add: visitMessages_def isInvalidTypeMessage_def validType_def)

lemma Fill_layout_result:
  assumes "FillBindingLayoutSummary ext st desc BindingSummary_init [] = (st1, b, d)"
  shows "calls st1 = calls st"
    and "\<exists>pre. sink st1 = sink st @ pre \<and> list_all isInvalidTypeMessage pre"
    and "set (locations b) = set (layoutLocationList ext desc)"
proof -
  from assms have v: "visitAll (st, BindingSummary_init, []) (layoutVisits ext desc) = (st1, b, d)"
    by (simp add: FillBindingLayoutSummary_visits)
  from visitAll_state [of st BindingSummary_init "[]" "layoutVisits ext desc"] v
  have s: "st1 = st\<lparr>sink := sink st @ concat (map visitMessages (layoutVisits ext desc))\<rparr>"
    by simp
  then show "calls st1 = calls st" by simp
  from s visitMessages_invalid [of "layoutVisits ext desc"]
  show "\<exists>pre. sink st1 = sink st @ pre \<and> list_all isInvalidTypeMessage pre" by simp
  from FillBindingLayoutSummary_locations [of ext st desc] assms
  show "set (locations b) = set (layoutLocationList ext desc)" by simp
qed

lemma Fill_set_result:
  assumes "FillBindingSetSummary ext st desc rs BindingSummary_init [] = (st1, b, d)"
  shows "calls st1 = calls st"
    and "\<exists>pre. sink st1 = sink st @ pre \<and> list_all isInvalidTypeMessage pre"
    and "set (locations b) = set (setLocationList ext desc rs)"
proof -
  from assms have v: "visitAll (st, BindingSummary_init, []) (setVisits ext desc rs) = (st1, b, d)"
    by (simp add: FillBindingSetSummary_visits)
  from visitAll_state [of st BindingSummary_init "[]" "setVisits ext desc rs"] v
  have s: "st1 = st\<lparr>sink := sink st @ concat (map visitMessages (setVisits ext desc rs))\<rparr>"
    by simp
  then show "calls st1 = calls st" by simp
  from s visitMessages_invalid [of "setVisits ext desc rs"]
  show "\<exists>pre. sink st1 = sink st @ pre \<and> list_all isInvalidTypeMessage pre" by simp
  from FillBindingSetSummary_locations [of ext st desc rs] assms
  show "set (locations b) = set (setLocationList ext desc rs)" by simp
qed

lemma itemFindings_no_diff:
  assumes "list_all isItemFinding xs"
  shows "DeclaredNotBound ys \<notin> set xs" "BoundNotDeclared ys \<notin> set xs"
  using assms by (auto simp add: list_all_iff isItemFinding_def)

lemma createBindingSet_mismatch:
  assumes ld: "layout_getDesc layout = Some layoutDesc"
    and ne: "set (setLocationList ext desc (registerSpace layoutDesc))
              \<noteq> set (layoutLocationList ext layoutDesc)"
  shows "(\<forall>h. snd (createBindingSet ext dev st desc (Some layout)) \<noteq> Inr (Some h))
   \<and> (\<exists>cs. calls (fst (createBindingSet ext dev st desc (Some layout))) = calls st @ cs
          \<and> list_all isQuery cs)
   \<and> ((\<forall>item \<in> set (set_bindings desc). wellTypedItem item) \<longrightarrow>
        snd (createBindingSet ext dev st desc (Some layout)) = Inr None
        \<and> (\<exists>pre msg. sink (fst (createBindingSet ext dev st desc (Some layout)))
                        = sink st @ pre @ [(Error, msg)]
             \<and> list_all isInvalidTypeMessage pre
             \<and> (\<forall>xs. DeclaredNotBound xs \<in> set msg \<longrightarrow> xs \<noteq> [] \<and>
                    set xs = set (layoutLocationList ext layoutDesc)
                             - set (setLocationList ext desc (registerSpace layoutDesc)))
             \<and> (set (layoutLocationList ext layoutDesc)
                   - set (setLocationList ext desc (registerSpace layoutDesc)) \<noteq> {}
                 \<longrightarrow> (\<exists>xs. DeclaredNotBound xs \<in> set msg))
             \<and> (\<forall>xs. BoundNotDeclared xs \<in> set msg \<longrightarrow> xs \<noteq> [] \<and>
                    set xs = set (setLocationList ext desc (registerSpace layoutDesc))
                             - set (layoutLocationList ext layoutDesc))
             \<and> (set (setLocationList ext desc (registerSpace layoutDesc))
                   - set (layoutLocationList ext layoutDesc) \<noteq> {}
                 \<longrightarrow> (\<exists>xs. BoundNotDeclared xs \<in> set msg))))"
proof -
  let ?L = "set (layoutLocationList ext layoutDesc)"
  let ?B = "set (setLocationList ext desc (registerSpace layoutDesc))"
  obtain st1 lb ldup where f1:
    "FillBindingLayoutSummary ext st layoutDesc BindingSummary_init [] = (st1, lb, ldup)"
    by (cases "FillBindingLayoutSummary ext st layoutDesc BindingSummary_init []")
  obtain st2 sb sdup where f2:
    "FillBindingSetSummary ext st1 desc (registerSpace layoutDesc) BindingSummary_init []
      = (st2, sb, sdup)"
    by (cases "FillBindingSetSummary ext st1 desc (registerSpace layoutDesc) BindingSummary_init []")
  note r1 = Fill_layout_result [OF f1]
  note r2 = Fill_set_result [OF f2]
  define dnb where "dnb = SetDifference (locations lb) (locations sb)"
  define bnd where "bnd = SetDifference (locations sb) (locations lb)"
  define es0 where "es0 = (if dnb \<noteq> [] then [DeclaredNotBound dnb] else [])
               @ (if bnd \<noteq> [] then [BoundNotDeclared bnd] else [])
               @ (if sdup \<noteq> [] then [SetDuplicates sdup] else [])"
  define any0 where "any0 = (dnb \<noteq> [] \<or> bnd \<noteq> [] \<or> sdup \<noteq> [])"
  have dnb: "set dnb = ?L - ?B" using r1(3) r2(3) by (simp add: dnb_def SetDifference_set)
  have bnd: "set bnd = ?B - ?L" using r1(3) r2(3) by (simp add: bnd_def SetDifference_set)
  have "?L - ?B \<noteq> {} \<or> ?B - ?L \<noteq> {}" using ne by blast
  then have any0: any0 using dnb bnd by (auto simp add: any0_def)
  obtain st3 es3 r3 where v:
    "validateItems ext dev st2 (set_bindings desc) es0 any0 = (st3, es3, r3)"
    by (cases "validateItems ext dev st2 (set_bindings desc) es0 any0")
  note e = validateItems_effects [OF v]
  from e any0 have r3: "r3 \<noteq> Inr False" by simp
  from e obtain cs where cs: "calls st3 = calls st @ cs" "list_all isQuery cs"
    using r1(1) r2(1) by auto
  from e obtain xs where xs: "es3 = es0 @ xs" "list_all isItemFinding xs" by blast
  from e r1(2) r2(2) obtain pre where pre: "sink st3 = sink st @ pre"
    "list_all isInvalidTypeMessage pre"
    by (metis append.assoc list_all_append)
  have res: "createBindingSet ext dev st desc (Some layout) =
    (case r3 of Inl fault \<Rightarrow> (st3, Inl fault)
     | Inr anyErrors3 \<Rightarrow> if anyErrors3 then (error st3 es3, Inr None)
         else (let patchedDesc = desc\<lparr>set_bindings :=
                      map (\<lambda>binding. binding\<lparr>resourceHandle :=
                             unwrapResource (resourceHandle binding)\<rparr>) (set_bindings desc)\<rparr>
                in (backend st3 (Call_createBindingSet patchedDesc layout),
                    Inr (dev_createBindingSet dev patchedDesc layout))))"
    using ld f1 f2 v unfolding es0_def any0_def dnb_def bnd_def
    by (simp add: createBindingSet_def Let_def split del: if_split)
  have A: "(\<forall>h. snd (createBindingSet ext dev st desc (Some layout)) \<noteq> Inr (Some h))
     \<and> (\<exists>cs. calls (fst (createBindingSet ext dev st desc (Some layout))) = calls st @ cs
          \<and> list_all isQuery cs)"
  proof (cases r3)
    case (Inl fault)
    with res cs show ?thesis by auto
  next
    case (Inr a)
    with r3 have "a" by simp
    with Inr res cs show ?thesis by (auto simp add: error_def)
  qed
  have B: "snd (createBindingSet ext dev st desc (Some layout)) = Inr None
        \<and> (\<exists>pre msg. sink (fst (createBindingSet ext dev st desc (Some layout)))
                        = sink st @ pre @ [(Error, msg)]
             \<and> list_all isInvalidTypeMessage pre
             \<and> (\<forall>xs. DeclaredNotBound xs \<in> set msg \<longrightarrow> xs \<noteq> [] \<and> set xs = ?L - ?B)
             \<and> (?L - ?B \<noteq> {} \<longrightarrow> (\<exists>xs. DeclaredNotBound xs \<in> set msg))
             \<and> (\<forall>xs. BoundNotDeclared xs \<in> set msg \<longrightarrow> xs \<noteq> [] \<and> set xs = ?B - ?L)
             \<and> (?B - ?L \<noteq> {} \<longrightarrow> (\<exists>xs. BoundNotDeclared xs \<in> set msg)))"
    if wt: "\<forall>item \<in> set (set_bindings desc). wellTypedItem item"
  proof -
    from e wt have "\<not> isl r3" by simp
    with r3 have t: "r3 = Inr True" by (cases r3) auto
    with res have c: "createBindingSet ext dev st desc (Some layout) = (error st3 es3, Inr None)"
      by simp
    have s: "sink (error st3 es3) = sink st @ pre @ [(Error, es3)]"
      using pre by (simp add: error_def)
    have nx: "\<And>ys. DeclaredNotBound ys \<notin> set xs" "\<And>ys. BoundNotDeclared ys \<notin> set xs"
      using itemFindings_no_diff [OF xs(2)] by simp_all
    have m1: "\<And>ys. DeclaredNotBound ys \<in> set es3 \<Longrightarrow> ys = dnb \<and> dnb \<noteq> []"
      using xs(1) nx by (auto simp add: es0_def split: if_splits)
    have m3: "\<And>ys. BoundNotDeclared ys \<in> set es3 \<Longrightarrow> ys = bnd \<and> bnd \<noteq> []"
      using xs(1) nx by (auto simp add: es0_def split: if_splits)
    have d1: "\<forall>ys. DeclaredNotBound ys \<in> set es3 \<longrightarrow> ys \<noteq> [] \<and> set ys = ?L - ?B"
      using m1 dnb by blast
    have d3: "\<forall>ys. BoundNotDeclared ys \<in> set es3 \<longrightarrow> ys \<noteq> [] \<and> set ys = ?B - ?L"
      using m3 bnd by blast
    have d2: "?L - ?B \<noteq> {} \<longrightarrow> (\<exists>ys. DeclaredNotBound ys \<in> set es3)"
    proof
      assume "?L - ?B \<noteq> {}"
      with dnb have "dnb \<noteq> []" by auto
      then have "DeclaredNotBound dnb \<in> set es3" using xs(1) by (simp add: es0_def)
      then show "\<exists>ys. DeclaredNotBound ys \<in> set es3" by blast
    qed
    have d4: "?B - ?L \<noteq> {} \<longrightarrow> (\<exists>ys. BoundNotDeclared ys \<in> set es3)"
    proof
      assume "?B - ?L \<noteq> {}"
      with bnd have "bnd \<noteq> []" by auto
      then have "BoundNotDeclared bnd \<in> set es3" using xs(1) by (simp add: es0_def)
      then show "\<exists>ys. BoundNotDeclared ys \<in> set es3" by blast
    qed
    from c s pre(2) d1 d2 d3 d4 show ?thesis by simp
  qed
  from A B show ?thesis by blast
qed

lemma layoutLocationList_layoutDesc35: "layoutLocationList ext0 layoutDesc35 = [srvLocation 3, srvLocation 5]"
  by (simp add: layoutLocationList_def layoutDesc35_def srvItem_def ext0_def resourceClass_def srvLocation_def)

lemma setLocationList_setDesc3: "setLocationList ext0 setDesc3 0 = [srvLocation 3]"
  by (simp add: setLocationList_def setDesc3_def texItem_def ext0_def resourceClass_def srvLocation_def)


text \<open>
  C7. For a \<^verbatim>\<open>createBindingSet\<close> call with a non-null layout that has a descriptor,
  whenever the locations bound by the set differ from the locations declared by the
  layout: no binding set is returned and the wrapped device's \<^verbatim>\<open>createBindingSet\<close> is
  not called; and, when the resource of every item has the dynamic type that its binding
  type is cast to, the call returns null and its last sink message is an error in which a
  "declared not bound" entry lists exactly the locations of the layout that the set does
  not bind, and is present exactly when there is such a location, and a "bound not
  declared" entry lists exactly the locations of the set that the layout does not
  declare, and is present exactly when there is such a location. When the locations of
  the set are a strict subset of those of the layout, the "declared not bound" entry is
  present and there is no "bound not declared" entry.
\<close>

theorem createBindingSet_reports_location_differences:
  assumes ld: "layout_getDesc layout = Some layoutDesc"
    and ne: "set (setLocationList ext desc (registerSpace layoutDesc))
              \<noteq> set (layoutLocationList ext layoutDesc)"
  shows "(\<forall>h. snd (createBindingSet ext dev st desc (Some layout)) \<noteq> Inr (Some h))
   \<and> (\<exists>cs. calls (fst (createBindingSet ext dev st desc (Some layout))) = calls st @ cs
          \<and> list_all isQuery cs)
   \<and> (list_all wellTypedItem (set_bindings desc) \<longrightarrow>
        snd (createBindingSet ext dev st desc (Some layout)) = Inr None
        \<and> (\<exists>pre msg. sink (fst (createBindingSet ext dev st desc (Some layout)))
                        = sink st @ pre @ [(Error, msg)]
             \<and> list_all isInvalidTypeMessage pre
             \<and> (\<forall>xs. DeclaredNotBound xs \<in> set msg \<longrightarrow> xs \<noteq> [] \<and>
                    set xs = set (layoutLocationList ext layoutDesc)
                             - set (setLocationList ext desc (registerSpace layoutDesc)))
             \<and> (set (layoutLocationList ext layoutDesc)
                   - set (setLocationList ext desc (registerSpace layoutDesc)) \<noteq> {}
                 \<longrightarrow> (\<exists>xs. DeclaredNotBound xs \<in> set msg))
             \<and> (\<forall>xs. BoundNotDeclared xs \<in> set msg \<longrightarrow> xs \<noteq> [] \<and>
                    set xs = set (setLocationList ext desc (registerSpace layoutDesc))
                             - set (layoutLocationList ext layoutDesc))
             \<and> (set (setLocationList ext desc (registerSpace layoutDesc))
                   - set (layoutLocationList ext layoutDesc) \<noteq> {}
                 \<longrightarrow> (\<exists>xs. BoundNotDeclared xs \<in> set msg))
             \<and> (set (setLocationList ext desc (registerSpace layoutDesc))
                   \<subset> set (layoutLocationList ext layoutDesc) \<longrightarrow>
                  (\<exists>xs. DeclaredNotBound xs \<in> set msg)
                  \<and> (\<forall>xs. BoundNotDeclared xs \<notin> set msg))))"
proof -
  let ?L = "set (layoutLocationList ext layoutDesc)"
  let ?B = "set (setLocationList ext desc (registerSpace layoutDesc))"
  let ?res = "createBindingSet ext dev st desc (Some layout)"
  note m = createBindingSet_mismatch [OF ld ne, of dev st]
  have W: "snd ?res = Inr None
        \<and> (\<exists>pre msg. sink (fst ?res) = sink st @ pre @ [(Error, msg)]
             \<and> list_all isInvalidTypeMessage pre
             \<and> (\<forall>xs. DeclaredNotBound xs \<in> set msg \<longrightarrow> xs \<noteq> [] \<and> set xs = ?L - ?B)
             \<and> (?L - ?B \<noteq> {} \<longrightarrow> (\<exists>xs. DeclaredNotBound xs \<in> set msg))
             \<and> (\<forall>xs. BoundNotDeclared xs \<in> set msg \<longrightarrow> xs \<noteq> [] \<and> set xs = ?B - ?L)
             \<and> (?B - ?L \<noteq> {} \<longrightarrow> (\<exists>xs. BoundNotDeclared xs \<in> set msg))
             \<and> (?B \<subset> ?L \<longrightarrow>
                  (\<exists>xs. DeclaredNotBound xs \<in> set msg)
                  \<and> (\<forall>xs. BoundNotDeclared xs \<notin> set msg)))"
    if wt: "list_all wellTypedItem (set_bindings desc)"
  proof -
    from wt have wt': "\<forall>item \<in> set (set_bindings desc). wellTypedItem item"
      by (simp add: list_all_iff)
    note m3 = m [THEN conjunct2, THEN conjunct2, THEN mp, OF wt']
    note r = m3 [THEN conjunct1]
    from m3 [THEN conjunct2] obtain pre msg where
      E: "sink (fst ?res) = sink st @ pre @ [(Error, msg)]
        \<and> list_all isInvalidTypeMessage pre
        \<and> (\<forall>xs. DeclaredNotBound xs \<in> set msg \<longrightarrow> xs \<noteq> [] \<and> set xs = ?L - ?B)
        \<and> (?L - ?B \<noteq> {} \<longrightarrow> (\<exists>xs. DeclaredNotBound xs \<in> set msg))
        \<and> (\<forall>xs. BoundNotDeclared xs \<in> set msg \<longrightarrow> xs \<noteq> [] \<and> set xs = ?B - ?L)
        \<and> (?B - ?L \<noteq> {} \<longrightarrow> (\<exists>xs. BoundNotDeclared xs \<in> set msg))"
      by (elim exE)
    note s = E [THEN conjunct1]
    note p = E [THEN conjunct2, THEN conjunct1]
    note d1 = E [THEN conjunct2, THEN conjunct2, THEN conjunct1]
    note d2 = E [THEN conjunct2, THEN conjunct2, THEN conjunct2, THEN conjunct1]
    note d3 = E [THEN conjunct2, THEN conjunct2, THEN conjunct2, THEN conjunct2, THEN conjunct1]
    note d4 = E [THEN conjunct2, THEN conjunct2, THEN conjunct2, THEN conjunct2, THEN conjunct2]
    have d5: "?B \<subset> ?L \<longrightarrow> (\<exists>xs. DeclaredNotBound xs \<in> set msg)
                  \<and> (\<forall>xs. BoundNotDeclared xs \<notin> set msg)"
    proof (intro impI conjI)
      assume sub: "?B \<subset> ?L"
      then have "?L - ?B \<noteq> {}" by blast
      with d2 show "\<exists>xs. DeclaredNotBound xs \<in> set msg" by blast
      show "\<forall>xs. BoundNotDeclared xs \<notin> set msg"
      proof (intro allI notI)
        fix xs assume "BoundNotDeclared xs \<in> set msg"
        with d3 have "xs \<noteq> []" "set xs = ?B - ?L" by blast+
        moreover from sub have "?B - ?L = {}" by blast
        ultimately show False by simp
      qed
    qed
    have "sink (fst ?res) = sink st @ pre @ [(Error, msg)]
        \<and> list_all isInvalidTypeMessage pre
        \<and> (\<forall>xs. DeclaredNotBound xs \<in> set msg \<longrightarrow> xs \<noteq> [] \<and> set xs = ?L - ?B)
        \<and> (?L - ?B \<noteq> {} \<longrightarrow> (\<exists>xs. DeclaredNotBound xs \<in> set msg))
        \<and> (\<forall>xs. BoundNotDeclared xs \<in> set msg \<longrightarrow> xs \<noteq> [] \<and> set xs = ?B - ?L)
        \<and> (?B - ?L \<noteq> {} \<longrightarrow> (\<exists>xs. BoundNotDeclared xs \<in> set msg))
        \<and> (?B \<subset> ?L \<longrightarrow> (\<exists>xs. DeclaredNotBound xs \<in> set msg)
                  \<and> (\<forall>xs. BoundNotDeclared xs \<notin> set msg))"
      by (intro conjI) (rule s, rule p, rule d1, rule d2, rule d3, rule d4, rule d5)
    then have "\<exists>pre msg. sink (fst ?res) = sink st @ pre @ [(Error, msg)]
        \<and> list_all isInvalidTypeMessage pre
        \<and> (\<forall>xs. DeclaredNotBound xs \<in> set msg \<longrightarrow> xs \<noteq> [] \<and> set xs = ?L - ?B)
        \<and> (?L - ?B \<noteq> {} \<longrightarrow> (\<exists>xs. DeclaredNotBound xs \<in> set msg))
        \<and> (\<forall>xs. BoundNotDeclared xs \<in> set msg \<longrightarrow> xs \<noteq> [] \<and> set xs = ?B - ?L)
        \<and> (?B - ?L \<noteq> {} \<longrightarrow> (\<exists>xs. BoundNotDeclared xs \<in> set msg))
        \<and> (?B \<subset> ?L \<longrightarrow> (\<exists>xs. DeclaredNotBound xs \<in> set msg)
                  \<and> (\<forall>xs. BoundNotDeclared xs \<notin> set msg))"
      by (intro exI)
    with r show ?thesis by (rule conjI)
  qed
  show ?thesis
    by (intro conjI impI) (rule m [THEN conjunct1], rule m [THEN conjunct2, THEN conjunct1],
        erule W [THEN conjunct1], erule W [THEN conjunct2])
qed

text \<open>
  The layout declares the texture SRV slots 3 and 5 and the set binds slot 3 only: the
  call returns null and the diagnostic lists slot 5 as declared and not bound.
\<close>

theorem createBindingSet_reports_location_differences_witness:
  "snd (createBindingSet ext0 devBig st0 setDesc3 (Some layout35)) = Inr None
   \<and> (\<exists>pre msg xs. sink (fst (createBindingSet ext0 devBig st0 setDesc3 (Some layout35)))
                        = sink st0 @ pre @ [(Error, msg)]
          \<and> DeclaredNotBound xs \<in> set msg \<and> set xs = {srvLocation 5}
          \<and> (\<forall>ys. BoundNotDeclared ys \<notin> set msg))"
proof -
  have ld: "layout_getDesc layout35 = Some layoutDesc35" by (simp add: layout35_def)
  have rs: "registerSpace layoutDesc35 = 0" by (simp add: layoutDesc35_def)
  have neq: "srvLocation 5 \<noteq> srvLocation 3" by (simp add: srvLocation_def)
  have sub: "set (setLocationList ext0 setDesc3 (registerSpace layoutDesc35))
              \<subset> set (layoutLocationList ext0 layoutDesc35)"
    unfolding rs layoutLocationList_layoutDesc35 setLocationList_setDesc3 using neq by auto
  then have ne: "set (setLocationList ext0 setDesc3 (registerSpace layoutDesc35))
              \<noteq> set (layoutLocationList ext0 layoutDesc35)" by auto
  have diff: "set (layoutLocationList ext0 layoutDesc35)
      - set (setLocationList ext0 setDesc3 (registerSpace layoutDesc35)) = {srvLocation 5}"
    unfolding rs layoutLocationList_layoutDesc35 setLocationList_setDesc3 using neq by auto
  have wt: "list_all wellTypedItem (set_bindings setDesc3)"
    by (simp add: setDesc3_def texItem_def wellTypedItem_def)
  note t = createBindingSet_reports_location_differences [OF ld ne, of devBig st0,
      THEN conjunct2, THEN conjunct2, THEN mp, OF wt]
  from t [THEN conjunct2] obtain pre msg where
    s: "sink (fst (createBindingSet ext0 devBig st0 setDesc3 (Some layout35)))
          = sink st0 @ pre @ [(Error, msg)]"
    and d1: "\<forall>xs. DeclaredNotBound xs \<in> set msg \<longrightarrow> xs \<noteq> [] \<and>
          set xs = set (layoutLocationList ext0 layoutDesc35)
                    - set (setLocationList ext0 setDesc3 (registerSpace layoutDesc35))"
    and d5: "set (setLocationList ext0 setDesc3 (registerSpace layoutDesc35))
                   \<subset> set (layoutLocationList ext0 layoutDesc35) \<longrightarrow>
                  (\<exists>xs. DeclaredNotBound xs \<in> set msg)
                  \<and> (\<forall>xs. BoundNotDeclared xs \<notin> set msg)"
    by (elim exE conjE)
  from d5 sub obtain xs where x: "DeclaredNotBound xs \<in> set msg"
    and nb: "\<forall>ys. BoundNotDeclared ys \<notin> set msg" by blast
  from d1 x have "set xs = set (layoutLocationList ext0 layoutDesc35)
      - set (setLocationList ext0 setDesc3 (registerSpace layoutDesc35))" by blast
  then have sx: "set xs = {srvLocation 5}" unfolding diff .
  have "sink (fst (createBindingSet ext0 devBig st0 setDesc3 (Some layout35)))
                        = sink st0 @ pre @ [(Error, msg)]
          \<and> DeclaredNotBound xs \<in> set msg \<and> set xs = {srvLocation 5}
          \<and> (\<forall>ys. BoundNotDeclared ys \<notin> set msg)"
    by (intro conjI) (rule s, rule x, rule sx, rule nb)
  then have "\<exists>pre msg xs. sink (fst (createBindingSet ext0 devBig st0 setDesc3 (Some layout35)))
                        = sink st0 @ pre @ [(Error, msg)]
          \<and> DeclaredNotBound xs \<in> set msg \<and> set xs = {srvLocation 5}
          \<and> (\<forall>ys. BoundNotDeclared ys \<notin> set msg)"
    by (intro exI)
  with t [THEN conjunct1] show ?thesis by (rule conjI)
qed

section \<open>Pipeline binding layouts: the messages of one validation\<close>

lemma invalid_plain: "isInvalidTypeMessage m \<Longrightarrow> plainMessage m"
  by (auto simp add: isInvalidTypeMessage_def plainMessage_def isDupEntry_def isOverlapEntry_def)

lemma invalid_plain_all: "list_all isInvalidTypeMessage ms \<Longrightarrow> list_all plainMessage ms"
  by (induction ms) (simp_all add: invalid_plain)

lemma Fill_layout_summary:
  assumes "FillBindingLayoutSummary ext st desc BindingSummary_init [] = (st1, b, d)"
  shows "b = summaryOfLayout ext desc"
proof -
  have "snd (visitAll (st, BindingSummary_init, []) (layoutVisits ext desc))
      = snd (visitAll (\<lparr>sink = [], calls = []\<rparr>, BindingSummary_init, []) (layoutVisits ext desc))"
    by (rule visitAll_pure)
  with assms show ?thesis
    by (simp add: summaryOfLayout_def FillBindingLayoutSummary_visits) (metis fst_conv)
qed

lemma accumulateLayout_result:
  assumes "accumulateLayout ext stage (st, any, bpl) (i, h) = (st', any', bpl')"
  shows "bpl' = bpl @ [stageSummary ext stage h]" "calls st' = calls st"
    "\<exists>pre. sink st' = sink st @ pre \<and> list_all plainMessage pre" "any \<longrightarrow> any'"
proof -
  have "bpl' = bpl @ [stageSummary ext stage h] \<and> calls st' = calls st
    \<and> (\<exists>pre. sink st' = sink st @ pre \<and> list_all plainMessage pre) \<and> (any \<longrightarrow> any')"
  proof (cases h)
    case None
    with assms show ?thesis
      by (auto simp add: accumulateLayout_def stageSummary_def error_def plainMessage_def
          isDupEntry_def isOverlapEntry_def)
  next
    case (Some layout)
    show ?thesis
    proof (cases "layout_getDesc layout")
      case None
      with Some assms show ?thesis
        by (auto simp add: accumulateLayout_def stageSummary_def)
    next
      case (Some ld)
      show ?thesis
      proof (cases "visibility ld \<inter> stage = {}")
        case True
        with Some \<open>h = Some layout\<close> assms show ?thesis
          by (auto simp add: accumulateLayout_def stageSummary_def)
      next
        case False
        obtain st1 b d where f:
          "FillBindingLayoutSummary ext st ld BindingSummary_init [] = (st1, b, d)"
          by (cases "FillBindingLayoutSummary ext st ld BindingSummary_init []")
        from Fill_layout_result [OF f] Fill_layout_summary [OF f] invalid_plain_all
        have "calls st1 = calls st" "\<exists>pre. sink st1 = sink st @ pre \<and> list_all plainMessage pre"
          "b = summaryOfLayout ext ld" by blast+
        with False Some \<open>h = Some layout\<close> assms f show ?thesis
          by (auto simp add: accumulateLayout_def stageSummary_def)
      qed
    qed
  qed
  then show "bpl' = bpl @ [stageSummary ext stage h]" "calls st' = calls st"
    "\<exists>pre. sink st' = sink st @ pre \<and> list_all plainMessage pre" "any \<longrightarrow> any'" by blast+
qed

lemma accumulate_fold:
  assumes "foldl (accumulateLayout ext stage) (st, any, bpl) (enumerate n hs) = (st', any', bpl')"
  shows "bpl' = bpl @ map (stageSummary ext stage) hs \<and> calls st' = calls st
    \<and> (\<exists>pre. sink st' = sink st @ pre \<and> list_all plainMessage pre) \<and> (any \<longrightarrow> any')"
  using assms
proof (induction hs arbitrary: st any bpl n)
  case Nil
  then show ?case by simp
next
  case (Cons h hs)
  obtain st1 any1 bpl1 where a: "accumulateLayout ext stage (st, any, bpl) (n, h) = (st1, any1, bpl1)"
    by (cases "accumulateLayout ext stage (st, any, bpl) (n, h)")
  note r = accumulateLayout_result [OF a]
  from Cons.prems a have
    "foldl (accumulateLayout ext stage) (st1, any1, bpl1) (enumerate (Suc n) hs) = (st', any', bpl')"
    by simp
  note ih = Cons.IH [OF this]
  from r(3) obtain p1 where p1: "sink st1 = sink st @ p1" "list_all plainMessage p1" by blast
  from ih obtain p2 where p2: "sink st' = sink st1 @ p2" "list_all plainMessage p2" by blast
  have "sink st' = sink st @ (p1 @ p2)" "list_all plainMessage (p1 @ p2)"
    using p1 p2 by simp_all
  then have "\<exists>pre. sink st' = sink st @ pre \<and> list_all plainMessage pre" by blast
  with ih r show ?case by simp
qed

lemma accumulateStage_result:
  assumes "accumulateStage ext stage hs st any = (st', any', bpl)"
  shows "bpl = map (stageSummary ext stage) hs" "calls st' = calls st"
    "\<exists>pre. sink st' = sink st @ pre \<and> list_all plainMessage pre" "any \<longrightarrow> any'"
  using accumulate_fold [of ext stage st any "[]" 0 hs st' any' bpl] assms
  by (simp_all add: accumulateStage_def)

lemma dup_fold:
  "foldl (\<lambda>(bindings, duplicates) layoutSummary.
            (SetUnionInplace bindings (locations layoutSummary),
             SetUnionInplace duplicates (SetIntersection bindings (locations layoutSummary))))
          (b0, d0) ss = (b', d') \<Longrightarrow>
   set b' = set b0 \<union> (\<Union>s \<in> set ss. set (locations s))
   \<and> set d' = set d0
       \<union> {l. \<exists>j < length ss. l \<in> set (locations (ss ! j))
              \<and> (l \<in> set b0 \<or> (\<exists>i < j. l \<in> set (locations (ss ! i))))}"
proof (induction ss arbitrary: b0 d0)
  case Nil
  then show ?case by simp
next
  case (Cons s ss)
  let ?b1 = "SetUnionInplace b0 (locations s)"
  let ?d1 = "SetUnionInplace d0 (SetIntersection b0 (locations s))"
  from Cons.prems have rec: "foldl (\<lambda>(bindings, duplicates) layoutSummary.
            (SetUnionInplace bindings (locations layoutSummary),
             SetUnionInplace duplicates (SetIntersection bindings (locations layoutSummary))))
          (?b1, ?d1) ss = (b', d')" by simp
  note ih = Cons.IH [OF rec]
  have b1: "set ?b1 = set b0 \<union> set (locations s)" by (simp add: SetUnionInplace_set)
  have d1: "set ?d1 = set d0 \<union> (set b0 \<inter> set (locations s))"
    by (simp add: SetUnionInplace_set SetIntersection_set)
  have A: "set b' = set b0 \<union> (\<Union>s \<in> set (s # ss). set (locations s))"
    using ih b1 by auto
  have B: "{l. \<exists>j < length (s # ss). l \<in> set (locations ((s # ss) ! j))
              \<and> (l \<in> set b0 \<or> (\<exists>i < j. l \<in> set (locations ((s # ss) ! i))))}
      = (set b0 \<inter> set (locations s))
        \<union> {l. \<exists>j < length ss. l \<in> set (locations (ss ! j))
              \<and> (l \<in> set ?b1 \<or> (\<exists>i < j. l \<in> set (locations (ss ! i))))}"
    (is "?lhs = ?rhs")
  proof (rule set_eqI, rule iffI)
    fix l assume "l \<in> ?lhs"
    then obtain j where j: "j < length (s # ss)" "l \<in> set (locations ((s # ss) ! j))"
      "l \<in> set b0 \<or> (\<exists>i < j. l \<in> set (locations ((s # ss) ! i)))" by blast
    show "l \<in> ?rhs"
    proof (cases j)
      case 0
      with j show ?thesis by auto
    next
      case (Suc j')
      with j have j': "j' < length ss" "l \<in> set (locations (ss ! j'))" by auto
      from j(3) have "l \<in> set ?b1 \<or> (\<exists>i < j'. l \<in> set (locations (ss ! i)))"
      proof
        assume "l \<in> set b0" then show ?thesis using b1 by simp
      next
        assume "\<exists>i < j. l \<in> set (locations ((s # ss) ! i))"
        then obtain i where i: "i < j" "l \<in> set (locations ((s # ss) ! i))" by blast
        show ?thesis
        proof (cases i)
          case 0
          with i show ?thesis using b1 by simp
        next
          case (Suc i')
          with i Suc \<open>j = Suc j'\<close> have "i' < j'" "l \<in> set (locations (ss ! i'))" by auto
          then show ?thesis by blast
        qed
      qed
      with j' show ?thesis by blast
    qed
  next
    fix l assume "l \<in> ?rhs"
    then show "l \<in> ?lhs"
    proof
      assume "l \<in> set b0 \<inter> set (locations s)"
      then have "0 < length (s # ss) \<and> l \<in> set (locations ((s # ss) ! 0)) \<and> l \<in> set b0"
        by simp
      then show ?thesis by blast
    next
      assume "l \<in> {l. \<exists>j < length ss. l \<in> set (locations (ss ! j))
              \<and> (l \<in> set ?b1 \<or> (\<exists>i < j. l \<in> set (locations (ss ! i))))}"
      then obtain j where j: "j < length ss" "l \<in> set (locations (ss ! j))"
        "l \<in> set ?b1 \<or> (\<exists>i < j. l \<in> set (locations (ss ! i)))" by blast
      have sj: "Suc j < length (s # ss)" "l \<in> set (locations ((s # ss) ! Suc j))"
        using j by simp_all
      from j(3) have "l \<in> set b0 \<or> (\<exists>i < Suc j. l \<in> set (locations ((s # ss) ! i)))"
      proof
        assume "l \<in> set ?b1"
        with b1 have "l \<in> set b0 \<or> l \<in> set (locations s)" by simp
        then show ?thesis
        proof
          assume "l \<in> set (locations s)"
          then have "0 < Suc j \<and> l \<in> set (locations ((s # ss) ! 0))" by simp
          then show ?thesis by blast
        qed simp
      next
        assume "\<exists>i < j. l \<in> set (locations (ss ! i))"
        then obtain i where "i < j" "l \<in> set (locations (ss ! i))" by blast
        then have "Suc i < Suc j \<and> l \<in> set (locations ((s # ss) ! Suc i))" by simp
        then show ?thesis by blast
      qed
      with sj show ?thesis by blast
    qed
  qed
  have "set d' = set d0 \<union> ?rhs" using ih d1 by auto
  with A B show ?case by simp
qed

lemma stageDuplicates_set:
  assumes "bpl \<noteq> []"
  shows "set (stageDuplicates bpl) =
     {l. \<exists>i j. i < j \<and> j < length bpl \<and> l \<in> set (locations (bpl ! i))
            \<and> l \<in> set (locations (bpl ! j))}"
proof -
  obtain s ss where bpl: "bpl = s # ss" using assms by (cases bpl) auto
  obtain b' d' where f: "foldl (\<lambda>(bindings, duplicates) layoutSummary.
            (SetUnionInplace bindings (locations layoutSummary),
             SetUnionInplace duplicates (SetIntersection bindings (locations layoutSummary))))
          (locations s, []) ss = (b', d')"
    by (cases "foldl (\<lambda>(bindings, duplicates) layoutSummary.
            (SetUnionInplace bindings (locations layoutSummary),
             SetUnionInplace duplicates (SetIntersection bindings (locations layoutSummary))))
          (locations s, []) ss")
  from dup_fold [OF f] have d: "set d' = {l. \<exists>j < length ss. l \<in> set (locations (ss ! j))
              \<and> (l \<in> set (locations s) \<or> (\<exists>i < j. l \<in> set (locations (ss ! i))))}"
    by simp
  have sd: "stageDuplicates bpl = d'" using f bpl by (simp add: stageDuplicates_def)
  have "{l. \<exists>j < length ss. l \<in> set (locations (ss ! j))
              \<and> (l \<in> set (locations s) \<or> (\<exists>i < j. l \<in> set (locations (ss ! i))))}
      = {l. \<exists>i j. i < j \<and> j < length (s # ss) \<and> l \<in> set (locations ((s # ss) ! i))
            \<and> l \<in> set (locations ((s # ss) ! j))}" (is "?lhs = ?rhs")
  proof (rule set_eqI, rule iffI)
    fix l assume "l \<in> ?lhs"
    then obtain j where j: "j < length ss" "l \<in> set (locations (ss ! j))"
      "l \<in> set (locations s) \<or> (\<exists>i < j. l \<in> set (locations (ss ! i)))" by blast
    from j(3) show "l \<in> ?rhs"
    proof
      assume "l \<in> set (locations s)"
      with j have "0 < Suc j \<and> Suc j < length (s # ss) \<and> l \<in> set (locations ((s # ss) ! 0))
        \<and> l \<in> set (locations ((s # ss) ! Suc j))" by simp
      then show ?thesis by blast
    next
      assume "\<exists>i < j. l \<in> set (locations (ss ! i))"
      then obtain i where "i < j" "l \<in> set (locations (ss ! i))" by blast
      with j have "Suc i < Suc j \<and> Suc j < length (s # ss)
        \<and> l \<in> set (locations ((s # ss) ! Suc i))
        \<and> l \<in> set (locations ((s # ss) ! Suc j))" by simp
      then show ?thesis by blast
    qed
  next
    fix l assume "l \<in> ?rhs"
    then obtain i j where ij: "i < j" "j < length (s # ss)"
      "l \<in> set (locations ((s # ss) ! i))" "l \<in> set (locations ((s # ss) ! j))" by blast
    from ij(1) obtain j' where j': "j = Suc j'" by (cases j) auto
    with ij have a: "j' < length ss" "l \<in> set (locations (ss ! j'))" by auto
    have "l \<in> set (locations s) \<or> (\<exists>i < j'. l \<in> set (locations (ss ! i)))"
    proof (cases i)
      case 0
      with ij show ?thesis by simp
    next
      case (Suc i')
      with ij j' have "i' < j'" "l \<in> set (locations (ss ! i'))" by auto
      then show ?thesis by blast
    qed
    with a show "l \<in> ?lhs" by blast
  qed
  with d sd bpl show ?thesis by simp
qed





lemma overlapClasses_Nil:
  "(overlapClasses bpl = []) =
     (\<not> (overlapOfClass rangeSRV bpl \<or> overlapOfClass rangeSampler bpl
         \<or> overlapOfClass rangeUAV bpl \<or> overlapOfClass rangeCB bpl))"
  by (simp add: overlapClasses_def)

lemma validateStage_result:
  assumes "validateStage ext dev layouts (st, loc) shader = (st', loc')"
  shows "ssDuplicateBindings loc' = ssDuplicateBindings loc
          @ (if \<not> anyDuplicateBindings loc \<and> dupEntry ext layouts shader \<noteq> []
             then [DuplicatesHeader] else [])
          @ dupEntry ext layouts shader
    \<and> anyDuplicateBindings loc' = (anyDuplicateBindings loc \<or> dupEntry ext layouts shader \<noteq> [])
    \<and> ssOverlappingBindings loc' = ssOverlappingBindings loc
          @ (if \<not> anyOverlappingBindings loc \<and> overlapEntry ext dev layouts shader \<noteq> []
             then [OverlapsHeader] else [])
          @ overlapEntry ext dev layouts shader
    \<and> anyOverlappingBindings loc'
         = (anyOverlappingBindings loc \<or> overlapEntry ext dev layouts shader \<noteq> [])
    \<and> (pl_anyErrors loc \<longrightarrow> pl_anyErrors loc')
    \<and> (\<exists>pre. sink st' = sink st @ pre \<and> list_all plainMessage pre)
    \<and> (\<exists>cs. calls st' = calls st @ cs \<and> list_all isQuery cs)"
proof -
  let ?stage = "shaderType (shader_getDesc shader)"
  obtain st1 any1 bpl where a:
    "accumulateStage ext ?stage layouts st (pl_anyErrors loc) = (st1, any1, bpl)"
    by (cases "accumulateStage ext ?stage layouts st (pl_anyErrors loc)")
  note r = accumulateStage_result [OF a]
  from r(3) obtain pre where pre: "sink st1 = sink st @ pre" "list_all plainMessage pre" by blast
  have q: "isQuery Call_getGraphicsAPI" by (simp add: isQuery_def)
  show ?thesis
  proof (cases "length layouts > 1")
    case False
    with assms a have "st' = st1" "loc' = loc\<lparr>pl_anyErrors := any1\<rparr>"
      by (simp_all add: validateStage_def Let_def)
    with False r pre show ?thesis
      by (simp add: dupEntry_def overlapEntry_def Let_def)
  next
    case True
    show ?thesis
    proof (cases "stageDuplicates bpl = []")
      case False
      with True assms a have "st' = st1"
        "loc' = loc\<lparr>pl_anyErrors := any1,
           ssDuplicateBindings := ssDuplicateBindings loc
              @ (if \<not> anyDuplicateBindings loc then [DuplicatesHeader] else [])
              @ [DuplicatesOfStage ?stage (stageDuplicates bpl)],
           anyDuplicateBindings := True\<rparr>"
        by (simp_all add: validateStage_def Let_def)
      with False True r pre show ?thesis
        by (simp add: dupEntry_def overlapEntry_def Let_def)
    next
      case nodup: True
      show ?thesis
      proof (cases "dev_getGraphicsAPI dev = D3D11 \<and> overlapClasses bpl \<noteq> []")
        case False
        have "validateStage ext dev layouts (st, loc) shader
            = (backend st1 Call_getGraphicsAPI, loc\<lparr>pl_anyErrors := any1\<rparr>)"
          using nodup True a False overlapClasses_Nil [of bpl]
          by (auto simp add: validateStage_def Let_def)
        with assms have "st' = backend st1 Call_getGraphicsAPI"
          "loc' = loc\<lparr>pl_anyErrors := any1\<rparr>" by simp_all
        with False nodup True r pre q show ?thesis
          by (auto simp add: dupEntry_def overlapEntry_def Let_def backend_def)
      next
        case ov: True
        have "validateStage ext dev layouts (st, loc) shader
            = (backend st1 Call_getGraphicsAPI,
               loc\<lparr>pl_anyErrors := any1,
                 ssOverlappingBindings := ssOverlappingBindings loc
                   @ (if \<not> anyOverlappingBindings loc then [OverlapsHeader] else [])
                   @ [OverlapsOfStage ?stage (overlapClasses bpl)],
                 anyOverlappingBindings := True\<rparr>)"
          using nodup True a ov overlapClasses_Nil [of bpl]
          by (auto simp add: validateStage_def Let_def overlapClasses_def)
        with assms have "st' = backend st1 Call_getGraphicsAPI"
          "loc' = loc\<lparr>pl_anyErrors := any1,
             ssOverlappingBindings := ssOverlappingBindings loc
               @ (if \<not> anyOverlappingBindings loc then [OverlapsHeader] else [])
               @ [OverlapsOfStage ?stage (overlapClasses bpl)],
             anyOverlappingBindings := True\<rparr>" by simp_all
        with ov nodup True r pre q show ?thesis
          by (auto simp add: dupEntry_def overlapEntry_def Let_def backend_def)
      qed
    qed
  qed
qed

lemma stages_fold:
  assumes "foldl (validateStage ext dev layouts) (st, loc) shaders = (st', loc')"
  shows "ssDuplicateBindings loc' = ssDuplicateBindings loc
          @ (if \<not> anyDuplicateBindings loc \<and> dupEntries ext layouts shaders \<noteq> []
             then [DuplicatesHeader] else [])
          @ dupEntries ext layouts shaders
    \<and> anyDuplicateBindings loc' = (anyDuplicateBindings loc \<or> dupEntries ext layouts shaders \<noteq> [])
    \<and> ssOverlappingBindings loc' = ssOverlappingBindings loc
          @ (if \<not> anyOverlappingBindings loc \<and> overlapEntries ext dev layouts shaders \<noteq> []
             then [OverlapsHeader] else [])
          @ overlapEntries ext dev layouts shaders
    \<and> anyOverlappingBindings loc'
         = (anyOverlappingBindings loc \<or> overlapEntries ext dev layouts shaders \<noteq> [])
    \<and> (pl_anyErrors loc \<longrightarrow> pl_anyErrors loc')
    \<and> (\<exists>pre. sink st' = sink st @ pre \<and> list_all plainMessage pre)
    \<and> (\<exists>cs. calls st' = calls st @ cs \<and> list_all isQuery cs)"
  using assms
proof (induction shaders arbitrary: st loc)
  case Nil
  then show ?case by (simp add: dupEntries_def overlapEntries_def)
next
  case (Cons shader shaders)
  obtain st1 loc1 where v: "validateStage ext dev layouts (st, loc) shader = (st1, loc1)"
    by (cases "validateStage ext dev layouts (st, loc) shader")
  note r = validateStage_result [OF v]
  from Cons.prems v have
    "foldl (validateStage ext dev layouts) (st1, loc1) shaders = (st', loc')" by simp
  note ih = Cons.IH [OF this]
  from r obtain p1 c1 where p1: "sink st1 = sink st @ p1" "list_all plainMessage p1"
    and c1: "calls st1 = calls st @ c1" "list_all isQuery c1" by blast
  from ih obtain p2 c2 where p2: "sink st' = sink st1 @ p2" "list_all plainMessage p2"
    and c2: "calls st' = calls st1 @ c2" "list_all isQuery c2" by blast
  have P: "\<exists>pre. sink st' = sink st @ pre \<and> list_all plainMessage pre"
    using p1 p2 by (intro exI [of _ "p1 @ p2"]) simp
  have C: "\<exists>cs. calls st' = calls st @ cs \<and> list_all isQuery cs"
    using c1 c2 by (intro exI [of _ "c1 @ c2"]) simp
  have D: "dupEntries ext layouts (shader # shaders)
      = dupEntry ext layouts shader @ dupEntries ext layouts shaders"
    by (simp add: dupEntries_def)
  have O: "overlapEntries ext dev layouts (shader # shaders)
      = overlapEntry ext dev layouts shader @ overlapEntries ext dev layouts shaders"
    by (simp add: overlapEntries_def)
  from r ih have 1: "ssDuplicateBindings loc' = ssDuplicateBindings loc
          @ (if \<not> anyDuplicateBindings loc \<and> dupEntries ext layouts (shader # shaders) \<noteq> []
             then [DuplicatesHeader] else [])
          @ dupEntries ext layouts (shader # shaders)"
    unfolding D by auto
  from r ih have 2: "anyDuplicateBindings loc'
      = (anyDuplicateBindings loc \<or> dupEntries ext layouts (shader # shaders) \<noteq> [])"
    unfolding D by auto
  from r ih have 3: "ssOverlappingBindings loc' = ssOverlappingBindings loc
          @ (if \<not> anyOverlappingBindings loc
                \<and> overlapEntries ext dev layouts (shader # shaders) \<noteq> []
             then [OverlapsHeader] else [])
          @ overlapEntries ext dev layouts (shader # shaders)"
    unfolding O by auto
  from r ih have 4: "anyOverlappingBindings loc'
      = (anyOverlappingBindings loc \<or> overlapEntries ext dev layouts (shader # shaders) \<noteq> [])"
    unfolding O by auto
  from r ih have 5: "pl_anyErrors loc \<longrightarrow> pl_anyErrors loc'" by simp
  from 1 2 3 4 5 P C show ?case by blast
qed

lemma pushConstant_fold_errors:
  "sl_anyErrors (foldl (\<lambda>l item.
       if item_type item = PushConstants
       then l\<lparr>pushConstantCount := pushConstantCount l + 1,
              pushConstantSize := max (pushConstantSize l) (ucast (item_size item))\<rparr>
       else l) loc items) = sl_anyErrors loc"
  "registerSpaceToLayoutIdx (foldl (\<lambda>l item.
       if item_type item = PushConstants
       then l\<lparr>pushConstantCount := pushConstantCount l + 1,
              pushConstantSize := max (pushConstantSize l) (ucast (item_size item))\<rparr>
       else l) loc items) = registerSpaceToLayoutIdx loc"
  by (induction items arbitrary: loc) simp_all

lemma plain_single:
  "\<not> isDupEntry f \<Longrightarrow> \<not> isOverlapEntry f \<Longrightarrow> plainMessage (sev, [f])"
  by (simp add: plainMessage_def)

lemma registerSpaceLoop_result:
  assumes "registerSpaceLoop ext xs st loc = (st', r)"
  shows "(\<exists>pre. sink st' = sink st @ pre \<and> list_all plainMessage pre) \<and> calls st' = calls st
    \<and> (sl_anyErrors loc \<longrightarrow> (case r of Inl fault \<Rightarrow> True | Inr loc' \<Rightarrow> sl_anyErrors loc'))"
  using assms
proof (induction ext xs st loc rule: registerSpaceLoop.induct)
  case (1 ext st loc)
  then show ?case by auto
next
  case (2 ext layoutIndex rest st loc)
  then show ?case by auto
next
  case (3 ext layoutIndex layout rest st loc)
  show ?case
  proof (cases "layout_getDesc layout")
    case None
    with 3 show ?thesis by simp
  next
    case (Some layoutDesc)
    define loc1 where "loc1 = foldl (\<lambda>l item.
                     if item_type item = PushConstants
                     then l\<lparr>pushConstantCount := pushConstantCount l + 1,
                            pushConstantSize := max (pushConstantSize l) (ucast (item_size item))\<rparr>
                     else l) loc (layout_bindings layoutDesc)"
    define rs where "rs = unat (registerSpace layoutDesc)"
    have e1: "sl_anyErrors loc1 = sl_anyErrors loc"
      unfolding loc1_def by (rule pushConstant_fold_errors)
    show ?thesis
    proof (cases "registerSpaceIsDescriptorSet layoutDesc")
      case False
      let ?loc2 = "loc1\<lparr>sl_registerSpaceIsDescriptorSet :=
                     (case sl_registerSpaceIsDescriptorSet loc1 of
                        Undetermined \<Rightarrow> RS_False | RS_True \<Rightarrow> Mixed | other \<Rightarrow> other)\<rparr>"
      from "3.prems" Some False have rec: "registerSpaceLoop ext rest st ?loc2 = (st', r)"
        by (simp add: Let_def loc1_def)
      from "3.IH"(3) [OF Some loc1_def rs_def False rec] e1
      show ?thesis by simp
    next
      case True
      define s1 where "s1 = (if rs \<ge> c_MaxBindingLayouts ext
                     then (error st [RegisterSpaceTooLarge layoutIndex (registerSpace layoutDesc)],
                           loc1\<lparr>sl_anyErrors := True\<rparr>)
                     else if registerSpaceToLayoutIdx loc1 ! rs \<noteq> - 1
                     then (error st [RegisterSpaceReused layoutIndex (registerSpace layoutDesc)
                                      (registerSpaceToLayoutIdx loc1 ! rs)],
                           loc1\<lparr>sl_anyErrors := True\<rparr>)
                     else (st, loc1))"
      have s1: "(\<exists>pre. sink (fst s1) = sink st @ pre \<and> list_all plainMessage pre)
         \<and> calls (fst s1) = calls st \<and> (sl_anyErrors loc \<longrightarrow> sl_anyErrors (snd s1))"
        using e1
        by (auto simp add: s1_def error_def plainMessage_def isDupEntry_def isOverlapEntry_def)
      let ?loc2 = "(snd s1)\<lparr>registerSpaceToLayoutIdx :=
                      (registerSpaceToLayoutIdx (snd s1))[rs := int layoutIndex],
                    sl_registerSpaceIsDescriptorSet :=
                      (case sl_registerSpaceIsDescriptorSet (snd s1) of
                         Undetermined \<Rightarrow> RS_True | RS_False \<Rightarrow> Mixed | other \<Rightarrow> other)\<rparr>"
      from "3.prems" Some True have rec:
        "registerSpaceLoop ext rest (fst s1) ?loc2 = (st', r)"
        by (simp add: Let_def loc1_def [symmetric] rs_def [symmetric] s1_def [symmetric]
            split del: if_split)
      from "3.IH"(2) [OF Some loc1_def rs_def True s1_def rec]
      have ih: "(\<exists>pre. sink st' = sink (fst s1) @ pre \<and> list_all plainMessage pre)
         \<and> calls st' = calls (fst s1)
         \<and> (sl_anyErrors (snd s1) \<longrightarrow> (case r of Inl fault \<Rightarrow> True | Inr loc' \<Rightarrow> sl_anyErrors loc'))"
        by simp
      from s1 obtain p1 where p1: "sink (fst s1) = sink st @ p1" "list_all plainMessage p1"
        by blast
      from ih obtain p2 where p2: "sink st' = sink (fst s1) @ p2" "list_all plainMessage p2"
        by blast
      have "\<exists>pre. sink st' = sink st @ pre \<and> list_all plainMessage pre"
        using p1 p2 by (intro exI [of _ "p1 @ p2"]) simp
      with ih s1 show ?thesis by simp
    qed
  qed
qed

lemma report_if_plain:
  assumes "list_all (\<lambda>f. \<not> isDupEntry f \<and> \<not> isOverlapEntry f) msg"
  shows "\<exists>post. sink (fst (report_if c msg s)) = sink (fst s) @ post \<and> list_all plainMessage post"
    "calls (fst (report_if c msg s)) = calls (fst s)"
    "snd s \<longrightarrow> snd (report_if c msg s)"
  using assms by (cases s; simp add: report_if_eq plainMessage_def)+

lemma validatePipelineBindingLayouts_result:
  assumes "validatePipelineBindingLayouts ext dev st layouts shaders = (st', r)"
  shows "\<exists>pre post. sink st' = sink st @ pre
            @ (if dupEntries ext layouts shaders \<noteq> []
               then [(Error, DuplicatesHeader # dupEntries ext layouts shaders)] else [])
            @ (if overlapEntries ext dev layouts shaders \<noteq> []
               then [(Error, OverlapsHeader # overlapEntries ext dev layouts shaders)] else [])
            @ post
          \<and> list_all plainMessage pre \<and> list_all plainMessage post"
    and "dupEntries ext layouts shaders \<noteq> [] \<or> overlapEntries ext dev layouts shaders \<noteq> []
          \<Longrightarrow> r \<noteq> Inr True"
    and "\<exists>cs. calls st' = calls st @ cs \<and> list_all isQuery cs"
proof -
  let ?D = "dupEntries ext layouts shaders"
  let ?O = "overlapEntries ext dev layouts shaders"
  let ?loc0 = "\<lparr>pl_anyErrors = False, anyDuplicateBindings = False,
                  anyOverlappingBindings = False, ssDuplicateBindings = [],
                  ssOverlappingBindings = []\<rparr>"
  obtain st1 loc where f: "foldl (validateStage ext dev layouts) (st, ?loc0) shaders = (st1, loc)"
    by (cases "foldl (validateStage ext dev layouts) (st, ?loc0) shaders")
  note sf = stages_fold [OF f]
  from sf obtain pre cs where pre: "sink st1 = sink st @ pre" "list_all plainMessage pre"
    and cs: "calls st1 = calls st @ cs" "list_all isQuery cs" by blast
  from sf have ssd: "ssDuplicateBindings loc = (if ?D \<noteq> [] then DuplicatesHeader # ?D else [])"
    and ad: "anyDuplicateBindings loc = (?D \<noteq> [])"
    and sso: "ssOverlappingBindings loc = (if ?O \<noteq> [] then OverlapsHeader # ?O else [])"
    and ao: "anyOverlappingBindings loc = (?O \<noteq> [])" by simp_all
  define s2 where "s2 = report_if (anyDuplicateBindings loc) (ssDuplicateBindings loc)
                   (st1, pl_anyErrors loc)"
  define s3 where "s3 = report_if (anyOverlappingBindings loc) (ssOverlappingBindings loc) s2"
  have s3: "sink (fst s3) = sink st @ pre
            @ (if ?D \<noteq> [] then [(Error, DuplicatesHeader # ?D)] else [])
            @ (if ?O \<noteq> [] then [(Error, OverlapsHeader # ?O)] else [])"
    "calls (fst s3) = calls st @ cs" "?D \<noteq> [] \<or> ?O \<noteq> [] \<Longrightarrow> snd s3"
    using pre cs ssd ad sso ao by (auto simp add: s3_def s2_def report_if_eq)
  define sl0 where "sl0 = \<lparr>sl_anyErrors = snd s3, pushConstantCount = 0, pushConstantSize = 0,
                 sl_registerSpaceIsDescriptorSet = Undetermined,
                 registerSpaceToLayoutIdx = replicate (c_MaxBindingLayouts ext) (- 1)\<rparr>"
  obtain st4 r4 where l: "registerSpaceLoop ext (enumerate 0 layouts) (fst s3) sl0 = (st4, r4)"
    by (cases "registerSpaceLoop ext (enumerate 0 layouts) (fst s3) sl0")
  note rl = registerSpaceLoop_result [OF l]
  from rl obtain p4 where p4: "sink st4 = sink (fst s3) @ p4" "list_all plainMessage p4" by blast
  from rl have c4: "calls st4 = calls (fst s3)" by simp
  have unfold: "validatePipelineBindingLayouts ext dev st layouts shaders =
      (case r4 of Inl fault \<Rightarrow> (st4, Inl fault)
       | Inr sl \<Rightarrow>
            (let s5 = report_if (sl_registerSpaceIsDescriptorSet sl = Mixed)
                        [Literal ''Pipeline contains Binding layouts with differing values of `registerSpaceIsDescriptorSet`'']
                        (st4, sl_anyErrors sl);
                 s6 = report_if (pushConstantCount sl > 1)
                        [TooManyPushConstantBlocks (pushConstantCount sl)] s5;
                 s7 = report_if (pushConstantSize sl > c_MaxPushConstantSize ext)
                        [PushConstantsTooLarge (pushConstantSize sl)] s6
             in (fst s7, Inr (\<not> snd s7))))"
    using f l
    by (simp add: validatePipelineBindingLayouts_def Let_def s2_def [symmetric]
        s3_def [symmetric] sl0_def [symmetric] split del: if_split split: sum.splits)
  have "(\<exists>post. sink st' = sink (fst s3) @ post \<and> list_all plainMessage post)
      \<and> calls st' = calls (fst s3) \<and> (snd s3 \<longrightarrow> r \<noteq> Inr True)"
  proof (cases r4)
    case (Inl fault)
    with unfold assms have "st' = st4" "r = Inl fault" by simp_all
    with p4 c4 show ?thesis by auto
  next
    case (Inr sl)
    define s5 where "s5 = report_if (sl_registerSpaceIsDescriptorSet sl = Mixed)
                        [Literal ''Pipeline contains Binding layouts with differing values of `registerSpaceIsDescriptorSet`'']
                        (st4, sl_anyErrors sl)"
    define s6 where "s6 = report_if (pushConstantCount sl > 1)
                        [TooManyPushConstantBlocks (pushConstantCount sl)] s5"
    define s7 where "s7 = report_if (pushConstantSize sl > c_MaxPushConstantSize ext)
                        [PushConstantsTooLarge (pushConstantSize sl)] s6"
    from Inr unfold assms have res: "st' = fst s7" "r = Inr (\<not> snd s7)"
      by (simp_all add: Let_def s5_def s6_def s7_def)
    have pl: "list_all (\<lambda>f. \<not> isDupEntry f \<and> \<not> isOverlapEntry f)
        [Literal ''Pipeline contains Binding layouts with differing values of `registerSpaceIsDescriptorSet`'']"
      "list_all (\<lambda>f. \<not> isDupEntry f \<and> \<not> isOverlapEntry f)
        [TooManyPushConstantBlocks (pushConstantCount sl)]"
      "list_all (\<lambda>f. \<not> isDupEntry f \<and> \<not> isOverlapEntry f)
        [PushConstantsTooLarge (pushConstantSize sl)]"
      by (simp_all add: isDupEntry_def isOverlapEntry_def)
    from report_if_plain [where c = "sl_registerSpaceIsDescriptorSet sl = Mixed"
        and s = "(st4, sl_anyErrors sl)", OF pl(1)]
    obtain q5 where q5: "sink (fst s5) = sink st4 @ q5" "list_all plainMessage q5"
      "calls (fst s5) = calls st4" "sl_anyErrors sl \<longrightarrow> snd s5"
      by (auto simp add: s5_def)
    from report_if_plain [where c = "pushConstantCount sl > 1" and s = s5, OF pl(2)]
    obtain q6 where q6: "sink (fst s6) = sink (fst s5) @ q6" "list_all plainMessage q6"
      "calls (fst s6) = calls (fst s5)" "snd s5 \<longrightarrow> snd s6"
      by (auto simp add: s6_def)
    from report_if_plain [where c = "pushConstantSize sl > c_MaxPushConstantSize ext"
        and s = s6, OF pl(3)]
    obtain q7 where q7: "sink (fst s7) = sink (fst s6) @ q7" "list_all plainMessage q7"
      "calls (fst s7) = calls (fst s6)" "snd s6 \<longrightarrow> snd s7"
      by (auto simp add: s7_def)
    have "sink st' = sink (fst s3) @ (p4 @ q5 @ q6 @ q7)"
      "list_all plainMessage (p4 @ q5 @ q6 @ q7)"
      using res p4 q5 q6 q7 by simp_all
    then have P: "\<exists>post. sink st' = sink (fst s3) @ post \<and> list_all plainMessage post"
      by blast
    have C: "calls st' = calls (fst s3)" using res c4 q5 q6 q7 by simp
    from rl Inr have "snd s3 \<longrightarrow> sl_anyErrors sl" by (simp add: sl0_def)
    with q5 q6 q7 res have "snd s3 \<longrightarrow> r \<noteq> Inr True" by simp
    with P C show ?thesis by simp
  qed
  then obtain post where post: "sink st' = sink (fst s3) @ post" "list_all plainMessage post"
    and c: "calls st' = calls (fst s3)" and e: "snd s3 \<longrightarrow> r \<noteq> Inr True" by blast
  from post s3(1) pre(2) show "\<exists>pre post. sink st' = sink st @ pre
            @ (if ?D \<noteq> [] then [(Error, DuplicatesHeader # ?D)] else [])
            @ (if ?O \<noteq> [] then [(Error, OverlapsHeader # ?O)] else [])
            @ post
          \<and> list_all plainMessage pre \<and> list_all plainMessage post"
    by (intro exI [of _ pre] exI [of _ post]) simp
  from e s3(3) show "?D \<noteq> [] \<or> ?O \<noteq> [] \<Longrightarrow> r \<noteq> Inr True" by blast
  from c s3(2) cs(2) show "\<exists>cs. calls st' = calls st @ cs \<and> list_all isQuery cs" by simp
qed

lemma stageSummary_locations:
  "set (locations (stageSummary ext stage h)) = set (visibleLocationList ext stage h)"
  using FillBindingLayoutSummary_locations [of ext "\<lparr>sink = [], calls = []\<rparr>"]
  by (auto simp add: stageSummary_def visibleLocationList_def summaryOfLayout_def
      BindingSummary_init_def split: option.splits)

lemma stageDuplicates_layouts:
  assumes "length layouts > 1"
  shows "set (stageDuplicates (stageSummaries ext stage layouts)) =
     {l. \<exists>i j. i < j \<and> j < length layouts
            \<and> l \<in> set (visibleLocationList ext stage (layouts ! i))
            \<and> l \<in> set (visibleLocationList ext stage (layouts ! j))}"
proof -
  have ne: "stageSummaries ext stage layouts \<noteq> []" using assms
    by (auto simp add: stageSummaries_def)
  have len: "length (stageSummaries ext stage layouts) = length layouts"
    by (simp add: stageSummaries_def)
  have eq: "set (locations (stageSummaries ext stage layouts ! i))
      = set (visibleLocationList ext stage (layouts ! i))" if "i < length layouts" for i
    using that by (simp add: stageSummaries_def stageSummary_locations)
  show ?thesis
    unfolding stageDuplicates_set [OF ne] len
  proof (rule set_eqI, rule iffI)
    fix l
    assume "l \<in> {l. \<exists>i j. i < j \<and> j < length layouts
        \<and> l \<in> set (locations (stageSummaries ext stage layouts ! i))
        \<and> l \<in> set (locations (stageSummaries ext stage layouts ! j))}"
    then obtain i j where ij: "i < j" "j < length layouts"
      "l \<in> set (locations (stageSummaries ext stage layouts ! i))"
      "l \<in> set (locations (stageSummaries ext stage layouts ! j))" by blast
    then have "i < length layouts" by simp
    with ij eq have "i < j \<and> j < length layouts
      \<and> l \<in> set (visibleLocationList ext stage (layouts ! i))
      \<and> l \<in> set (visibleLocationList ext stage (layouts ! j))" by simp
    then show "l \<in> {l. \<exists>i j. i < j \<and> j < length layouts
            \<and> l \<in> set (visibleLocationList ext stage (layouts ! i))
            \<and> l \<in> set (visibleLocationList ext stage (layouts ! j))}" by blast
  next
    fix l
    assume "l \<in> {l. \<exists>i j. i < j \<and> j < length layouts
            \<and> l \<in> set (visibleLocationList ext stage (layouts ! i))
            \<and> l \<in> set (visibleLocationList ext stage (layouts ! j))}"
    then obtain i j where ij: "i < j" "j < length layouts"
      "l \<in> set (visibleLocationList ext stage (layouts ! i))"
      "l \<in> set (visibleLocationList ext stage (layouts ! j))" by blast
    then have "i < length layouts" by simp
    with ij eq have "i < j \<and> j < length layouts
        \<and> l \<in> set (locations (stageSummaries ext stage layouts ! i))
        \<and> l \<in> set (locations (stageSummaries ext stage layouts ! j))" by simp
    then show "l \<in> {l. \<exists>i j. i < j \<and> j < length layouts
        \<and> l \<in> set (locations (stageSummaries ext stage layouts ! i))
        \<and> l \<in> set (locations (stageSummaries ext stage layouts ! j))}" by blast
  qed
qed

lemma dupEntry_eq:
  "dupEntry ext layouts shader =
    (if length layouts > 1
        \<and> stageDuplicates (stageSummaries ext (shaderType (shader_getDesc shader)) layouts) \<noteq> []
     then [DuplicatesOfStage (shaderType (shader_getDesc shader))
             (stageDuplicates (stageSummaries ext (shaderType (shader_getDesc shader)) layouts))]
     else [])"
  by (simp add: dupEntry_def stageSummaries_def Let_def)

lemma overlapEntry_eq:
  "overlapEntry ext dev layouts shader =
    (if length layouts > 1
        \<and> stageDuplicates (stageSummaries ext (shaderType (shader_getDesc shader)) layouts) = []
        \<and> dev_getGraphicsAPI dev = D3D11
        \<and> overlapClasses (stageSummaries ext (shaderType (shader_getDesc shader)) layouts) \<noteq> []
     then [OverlapsOfStage (shaderType (shader_getDesc shader))
             (overlapClasses (stageSummaries ext (shaderType (shader_getDesc shader)) layouts))]
     else [])"
  by (simp add: overlapEntry_def stageSummaries_def Let_def)

lemma dupEntries_mem:
  "(DuplicatesOfStage stage d \<in> set (dupEntries ext layouts shaders)) =
     (stage \<in> (\<lambda>s. shaderType (shader_getDesc s)) ` set shaders \<and> length layouts > 1
      \<and> d = stageDuplicates (stageSummaries ext stage layouts) \<and> d \<noteq> [])"
  by (auto simp add: dupEntries_def dupEntry_eq)


lemma dupEntries_only:
  "f \<in> set (dupEntries ext layouts shaders) \<Longrightarrow> isDupEntry f \<and> \<not> isOverlapEntry f"
  by (auto simp add: dupEntries_def dupEntry_eq isDupEntry_def isOverlapEntry_def
      split: if_splits)

lemma overlapEntries_only:
  "f \<in> set (overlapEntries ext dev layouts shaders) \<Longrightarrow> isOverlapEntry f \<and> \<not> isDupEntry f"
  by (auto simp add: overlapEntries_def overlapEntry_eq isDupEntry_def isOverlapEntry_def
      split: if_splits)

lemma plain_no_entries:
  assumes "list_all plainMessage ms" "m \<in> set ms"
  shows "DuplicatesOfStage stage d \<notin> set (snd m)" "OverlapsOfStage stage c \<notin> set (snd m)"
  using assms unfolding list_all_iff plainMessage_def isDupEntry_def isOverlapEntry_def
  by fastforce+

lemma entry_in_messages:
  assumes pre: "\<And>m. m \<in> set pre \<Longrightarrow> f \<notin> set (snd m)"
    and post: "\<And>m. m \<in> set post \<Longrightarrow> f \<notin> set (snd m)"
    and other: "f \<notin> set B" "f \<noteq> ha" "f \<noteq> hb"
  shows "(\<exists>m \<in> set (pre @ (if A \<noteq> [] then [(Error, ha # A)] else [])
                        @ (if B \<noteq> [] then [(Error, hb # B)] else []) @ post).
            f \<in> set (snd m)) = (f \<in> set A)"
proof
  assume "\<exists>m \<in> set (pre @ (if A \<noteq> [] then [(Error, ha # A)] else [])
                        @ (if B \<noteq> [] then [(Error, hb # B)] else []) @ post).
            f \<in> set (snd m)"
  then obtain m where m: "m \<in> set pre \<or> (A \<noteq> [] \<and> m = (Error, ha # A))
      \<or> (B \<noteq> [] \<and> m = (Error, hb # B)) \<or> m \<in> set post" and f: "f \<in> set (snd m)"
    by (auto split: if_splits)
  from m show "f \<in> set A"
  proof (elim disjE)
    assume "m \<in> set pre" with pre f show ?thesis by blast
  next
    assume "A \<noteq> [] \<and> m = (Error, ha # A)" with f other show ?thesis by simp
  next
    assume "B \<noteq> [] \<and> m = (Error, hb # B)" with f other show ?thesis by simp
  next
    assume "m \<in> set post" with post f show ?thesis by blast
  qed
next
  assume a: "f \<in> set A"
  then have "A \<noteq> []" by auto
  then have "(Error, ha # A) \<in> set (pre @ (if A \<noteq> [] then [(Error, ha # A)] else [])
                        @ (if B \<noteq> [] then [(Error, hb # B)] else []) @ post)" by simp
  moreover have "f \<in> set (snd (Error, ha # A))" using a by simp
  ultimately show "\<exists>m \<in> set (pre @ (if A \<noteq> [] then [(Error, ha # A)] else [])
                        @ (if B \<noteq> [] then [(Error, hb # B)] else []) @ post).
            f \<in> set (snd m)" by blast
qed

lemma entry_in_messages2:
  assumes pre: "\<And>m. m \<in> set pre \<Longrightarrow> f \<notin> set (snd m)"
    and post: "\<And>m. m \<in> set post \<Longrightarrow> f \<notin> set (snd m)"
    and other: "f \<notin> set A" "f \<noteq> ha" "f \<noteq> hb"
  shows "(\<exists>m \<in> set (pre @ (if A \<noteq> [] then [(Error, ha # A)] else [])
                        @ (if B \<noteq> [] then [(Error, hb # B)] else []) @ post).
            f \<in> set (snd m)) = (f \<in> set B)"
proof
  assume "\<exists>m \<in> set (pre @ (if A \<noteq> [] then [(Error, ha # A)] else [])
                        @ (if B \<noteq> [] then [(Error, hb # B)] else []) @ post).
            f \<in> set (snd m)"
  then obtain m where m: "m \<in> set pre \<or> (A \<noteq> [] \<and> m = (Error, ha # A))
      \<or> (B \<noteq> [] \<and> m = (Error, hb # B)) \<or> m \<in> set post" and f: "f \<in> set (snd m)"
    by (auto split: if_splits)
  from m show "f \<in> set B"
  proof (elim disjE)
    assume "m \<in> set pre" with pre f show ?thesis by blast
  next
    assume "A \<noteq> [] \<and> m = (Error, ha # A)" with f other show ?thesis by simp
  next
    assume "B \<noteq> [] \<and> m = (Error, hb # B)" with f other show ?thesis by simp
  next
    assume "m \<in> set post" with post f show ?thesis by blast
  qed
next
  assume a: "f \<in> set B"
  then have "B \<noteq> []" by auto
  then have "(Error, hb # B) \<in> set (pre @ (if A \<noteq> [] then [(Error, ha # A)] else [])
                        @ (if B \<noteq> [] then [(Error, hb # B)] else []) @ post)" by simp
  moreover have "f \<in> set (snd (Error, hb # B))" using a by simp
  ultimately show "\<exists>m \<in> set (pre @ (if A \<noteq> [] then [(Error, ha # A)] else [])
                        @ (if B \<noteq> [] then [(Error, hb # B)] else []) @ post).
            f \<in> set (snd m)" by blast
qed

lemma pipeline_new_messages:
  assumes v: "validatePipelineBindingLayouts ext dev st layouts shaders = (st', r)"
  shows "(\<exists>m \<in> set (drop (length (sink st)) (sink st')). DuplicatesOfStage stage d \<in> set (snd m))
       = (DuplicatesOfStage stage d \<in> set (dupEntries ext layouts shaders))"
    and "(\<exists>m \<in> set (drop (length (sink st)) (sink st')). OverlapsOfStage stage c \<in> set (snd m))
       = (OverlapsOfStage stage c \<in> set (overlapEntries ext dev layouts shaders))"
proof -
  let ?D = "dupEntries ext layouts shaders"
  let ?O = "overlapEntries ext dev layouts shaders"
  from validatePipelineBindingLayouts_result(1) [OF v] obtain pre post where
    s: "sink st' = sink st @ pre
            @ (if ?D \<noteq> [] then [(Error, DuplicatesHeader # ?D)] else [])
            @ (if ?O \<noteq> [] then [(Error, OverlapsHeader # ?O)] else [])
            @ post"
    and p: "list_all plainMessage pre" "list_all plainMessage post" by blast
  have new: "drop (length (sink st)) (sink st') = pre
            @ (if ?D \<noteq> [] then [(Error, DuplicatesHeader # ?D)] else [])
            @ (if ?O \<noteq> [] then [(Error, OverlapsHeader # ?O)] else [])
            @ post" using s by simp
  have nD: "DuplicatesOfStage stage d \<notin> set ?O" "OverlapsOfStage stage c \<notin> set ?D"
    using overlapEntries_only [of "DuplicatesOfStage stage d" ext dev layouts shaders]
      dupEntries_only [of "OverlapsOfStage stage c" ext layouts shaders]
    by (auto simp add: isDupEntry_def isOverlapEntry_def)
  show "(\<exists>m \<in> set (drop (length (sink st)) (sink st')). DuplicatesOfStage stage d \<in> set (snd m))
       = (DuplicatesOfStage stage d \<in> set ?D)"
    unfolding new
    by (rule entry_in_messages)
       (use plain_no_entries(1) [OF p(1)] plain_no_entries(1) [OF p(2)] nD in simp_all)
  show "(\<exists>m \<in> set (drop (length (sink st)) (sink st')). OverlapsOfStage stage c \<in> set (snd m))
       = (OverlapsOfStage stage c \<in> set ?O)"
    unfolding new
    by (rule entry_in_messages2)
       (use plain_no_entries(2) [OF p(1)] plain_no_entries(2) [OF p(2)] nD in simp_all)
qed

section \<open>Pipeline creation after a failed validation of the layouts\<close>

lemma validateShaderType_calls:
  "calls (fst (validateShaderType st expected d f)) = calls st"
  by (simp add: validateShaderType_def error_def)

lemma collectShaders_result:
  assumes "collectShaders st fname stages acc = (st', shaders, ok)"
  shows "calls st' = calls st
    \<and> (ok \<longrightarrow> set shaders = set acc \<union> {s. \<exists>stage. (stage, Some s) \<in> set stages})"
  using assms
proof (induction st fname stages acc rule: collectShaders.induct)
  case (1 st fname shaders)
  then show ?case by simp
next
  case (2 st fname stage rest shaders)
  then show ?case by auto
next
  case (3 st fname stage shader rest shaders0)
  obtain st1 ok1 where v:
    "validateShaderType st {stage} (shader_getDesc shader) fname = (st1, ok1)"
    by (cases "validateShaderType st {stage} (shader_getDesc shader) fname")
  have c1: "calls st1 = calls st" using validateShaderType_calls [of st "{stage}"
        "shader_getDesc shader" fname] v by simp
  show ?case
  proof (cases ok1)
    case False
    with "3.prems" v c1 show ?thesis by auto
  next
    case True
    with "3.prems" v have rec:
      "collectShaders st1 fname rest (shaders0 @ [shader]) = (st', shaders, ok)" by simp
    from "3.IH" [OF v [symmetric] _ rec] True c1 show ?thesis by auto
  qed
qed

lemma dupEntries_nonempty:
  "shader \<in> set shaders \<Longrightarrow> dupEntry ext layouts shader \<noteq> [] \<Longrightarrow>
     dupEntries ext layouts shaders \<noteq> []"
  by (auto simp add: dupEntries_def)

lemma dupEntry_shared:
  assumes "i < j" "j < length layouts"
    and "l \<in> set (visibleLocationList ext (shaderType (shader_getDesc shader)) (layouts ! i))"
    and "l \<in> set (visibleLocationList ext (shaderType (shader_getDesc shader)) (layouts ! j))"
  shows "dupEntry ext layouts shader =
      [DuplicatesOfStage (shaderType (shader_getDesc shader))
         (stageDuplicates (stageSummaries ext (shaderType (shader_getDesc shader)) layouts))]"
    and "l \<in> set (stageDuplicates (stageSummaries ext (shaderType (shader_getDesc shader)) layouts))"
proof -
  from assms have len: "length layouts > 1" by simp
  from assms show l: "l \<in> set (stageDuplicates
      (stageSummaries ext (shaderType (shader_getDesc shader)) layouts))"
    unfolding stageDuplicates_layouts [OF len] by blast
  then have "stageDuplicates (stageSummaries ext (shaderType (shader_getDesc shader)) layouts) \<noteq> []"
    by auto
  with len show "dupEntry ext layouts shader =
      [DuplicatesOfStage (shaderType (shader_getDesc shader))
         (stageDuplicates (stageSummaries ext (shaderType (shader_getDesc shader)) layouts))]"
    by (simp add: dupEntry_eq)
qed

lemma createComputePipeline_fails:
  assumes "CS d = Some cs" "dupEntry ext (cp_bindingLayouts d) cs \<noteq> []"
  shows "(\<forall>h. snd (createComputePipeline ext dev st d) \<noteq> Inr (Some h))
    \<and> (\<exists>q. calls (fst (createComputePipeline ext dev st d)) = calls st @ q \<and> list_all isQuery q)"
proof -
  obtain st1 r where v:
    "validatePipelineBindingLayouts ext dev st (cp_bindingLayouts d) [cs] = (st1, r)"
    by (cases "validatePipelineBindingLayouts ext dev st (cp_bindingLayouts d) [cs]")
  have "dupEntries ext (cp_bindingLayouts d) [cs] \<noteq> []"
    using assms(2) by (simp add: dupEntries_def)
  with validatePipelineBindingLayouts_result(2) [OF v] have r: "r \<noteq> Inr True" by blast
  note c = validatePipelineBindingLayouts_result(3) [OF v]
  show ?thesis
  proof (cases r)
    case (Inl fault)
    with v assms(1) c show ?thesis by (simp add: createComputePipeline_def)
  next
    case (Inr valid)
    with r have "\<not> valid" by simp
    with Inr v assms(1) c show ?thesis by (simp add: createComputePipeline_def)
  qed
qed

lemma createGraphicsPipeline_fails:
  assumes "Some shader \<in> {gp_VS d, gp_HS d, gp_DS d, gp_GS d, gp_PS d}"
    "dupEntry ext (gp_bindingLayouts d) shader \<noteq> []"
  shows "(\<forall>h. snd (createGraphicsPipeline ext dev st d fb) \<noteq> Inr (Some h))
    \<and> (\<exists>q. calls (fst (createGraphicsPipeline ext dev st d fb)) = calls st @ q
          \<and> list_all isQuery q)"
proof -
  let ?stages = "map (\<lambda>stage. (stage, SelectGraphicsShaderStage d stage)) g_GraphicsShaderStages"
  obtain st0 shaders ok where c: "collectShaders st ''createGraphicsPipeline'' ?stages []
      = (st0, shaders, ok)"
    by (cases "collectShaders st ''createGraphicsPipeline'' ?stages []")
  note cr = collectShaders_result [OF c]
  show ?thesis
  proof (cases ok)
    case False
    with c cr show ?thesis by (simp add: createGraphicsPipeline_def)
  next
    case True
    have "\<exists>stage. (stage, Some shader) \<in> set ?stages"
      using assms(1)
      by (auto simp add: g_GraphicsShaderStages_def SelectGraphicsShaderStage_def)
    with cr True have "shader \<in> set shaders" by simp
    from dupEntries_nonempty [OF this assms(2)]
    have ne: "dupEntries ext (gp_bindingLayouts d) shaders \<noteq> []" .
    obtain st1 r where v:
      "validatePipelineBindingLayouts ext dev st0 (gp_bindingLayouts d) shaders = (st1, r)"
      by (cases "validatePipelineBindingLayouts ext dev st0 (gp_bindingLayouts d) shaders")
    from validatePipelineBindingLayouts_result(2) [OF v] ne have r: "r \<noteq> Inr True" by blast
    note q = validatePipelineBindingLayouts_result(3) [OF v]
    show ?thesis
    proof (cases r)
      case (Inl fault)
      with v c True q cr show ?thesis by (simp add: createGraphicsPipeline_def)
    next
      case (Inr valid)
      with r have "\<not> valid" by simp
      with Inr v c True q cr show ?thesis by (simp add: createGraphicsPipeline_def)
    qed
  qed
qed

lemma createMeshletPipeline_fails:
  assumes "Some shader \<in> {mp_AS d, mp_MS d, mp_PS d}"
    "dupEntry ext (mp_bindingLayouts d) shader \<noteq> []"
  shows "(\<forall>h. snd (createMeshletPipeline ext dev st d fb) \<noteq> Inr (Some h))
    \<and> (\<exists>q. calls (fst (createMeshletPipeline ext dev st d fb)) = calls st @ q
          \<and> list_all isQuery q)"
proof -
  let ?stages = "map (\<lambda>stage. (stage, SelectMeshletShaderStage d stage)) g_MeshletShaderStages"
  obtain st0 shaders ok where c: "collectShaders st ''createMeshletPipeline'' ?stages []
      = (st0, shaders, ok)"
    by (cases "collectShaders st ''createMeshletPipeline'' ?stages []")
  note cr = collectShaders_result [OF c]
  show ?thesis
  proof (cases ok)
    case False
    with c cr show ?thesis by (simp add: createMeshletPipeline_def)
  next
    case True
    have "\<exists>stage. (stage, Some shader) \<in> set ?stages"
      using assms(1)
      by (auto simp add: g_MeshletShaderStages_def SelectMeshletShaderStage_def)
    with cr True have "shader \<in> set shaders" by simp
    from dupEntries_nonempty [OF this assms(2)]
    have ne: "dupEntries ext (mp_bindingLayouts d) shaders \<noteq> []" .
    obtain st1 r where v:
      "validatePipelineBindingLayouts ext dev st0 (mp_bindingLayouts d) shaders = (st1, r)"
      by (cases "validatePipelineBindingLayouts ext dev st0 (mp_bindingLayouts d) shaders")
    from validatePipelineBindingLayouts_result(2) [OF v] ne have r: "r \<noteq> Inr True" by blast
    note q = validatePipelineBindingLayouts_result(3) [OF v]
    show ?thesis
    proof (cases r)
      case (Inl fault)
      with v c True q cr show ?thesis by (simp add: createMeshletPipeline_def)
    next
      case (Inr valid)
      with r have "\<not> valid" by simp
      with Inr v c True q cr show ?thesis by (simp add: createMeshletPipeline_def)
    qed
  qed
qed

section \<open>Duplicate bindings and overlapping ranges of a stage\<close>

lemma pipelineNotCreatedI:
  assumes "(\<forall>h. snd res \<noteq> Inr (Some h))
    \<and> (\<exists>q. calls (fst res) = calls st @ q \<and> list_all isQuery q)"
  shows "pipelineNotCreated st res"
  using assms by (auto simp add: pipelineNotCreated_def split: sum.splits option.splits)






lemma noStageDuplicates_iff:
  assumes "length layouts > 1"
  shows "(stageDuplicates (stageSummaries ext stage layouts) = []) =
    (\<forall>i j. i < j \<and> j < length layouts \<longrightarrow>
        set (visibleLocationList ext stage (layouts ! i))
          \<inter> set (visibleLocationList ext stage (layouts ! j)) = {})"
proof -
  have "(stageDuplicates (stageSummaries ext stage layouts) = [])
      = (set (stageDuplicates (stageSummaries ext stage layouts)) = {})" by simp
  also have "\<dots> = (\<forall>i j. i < j \<and> j < length layouts \<longrightarrow>
        set (visibleLocationList ext stage (layouts ! i))
          \<inter> set (visibleLocationList ext stage (layouts ! j)) = {})"
    unfolding stageDuplicates_layouts [OF assms] by blast
  finally show ?thesis .
qed

text \<open>
  C5. In \<^verbatim>\<open>validatePipelineBindingLayouts\<close>, for every shader of the pipeline, with \<open>stage\<close>
  its shader type: if two binding layouts both visible to that stage declare the same
  location (register space, slot, array element and resource class), then a new error
  message holds a duplicate-binding entry for that stage that lists this location, the
  validation does not succeed, and \<^verbatim>\<open>createComputePipeline\<close>, \<^verbatim>\<open>createGraphicsPipeline\<close>
  and \<^verbatim>\<open>createMeshletPipeline\<close> called with that shader and those layouts return no
  pipeline and do not call the creation method of the wrapped device; if the locations
  declared by the layouts visible to the stage are pairwise disjoint, no new message
  holds a duplicate-binding entry for the stage; and every duplicate-binding entry for
  the stage lists exactly the locations that two of the layouts visible to it declare.
\<close>

theorem pipeline_duplicate_bindings:
  assumes v: "validatePipelineBindingLayouts ext dev st layouts shaders = (st', r)"
    and sh: "shader \<in> set shaders"
    and stage: "stage = shaderType (shader_getDesc shader)"
  shows "(\<forall>l i j. i < j \<and> j < length layouts
            \<and> l \<in> set (visibleLocationList ext stage (layouts ! i))
            \<and> l \<in> set (visibleLocationList ext stage (layouts ! j)) \<longrightarrow>
          (\<exists>m \<in> set (drop (length (sink st)) (sink st')). fst m = Error
              \<and> (\<exists>d. DuplicatesOfStage stage d \<in> set (snd m) \<and> l \<in> set d))
          \<and> r \<noteq> Inr True
          \<and> (\<forall>s cd. CS cd = Some shader \<and> cp_bindingLayouts cd = layouts \<longrightarrow>
                pipelineNotCreated s (createComputePipeline ext dev s cd))
          \<and> (\<forall>s gd fb. Some shader \<in> {gp_VS gd, gp_HS gd, gp_DS gd, gp_GS gd, gp_PS gd}
                  \<and> gp_bindingLayouts gd = layouts \<longrightarrow>
                pipelineNotCreated s (createGraphicsPipeline ext dev s gd fb))
          \<and> (\<forall>s md fb. Some shader \<in> {mp_AS md, mp_MS md, mp_PS md}
                  \<and> mp_bindingLayouts md = layouts \<longrightarrow>
                pipelineNotCreated s (createMeshletPipeline ext dev s md fb)))
     \<and> ((\<forall>i j. i < j \<and> j < length layouts \<longrightarrow>
            set (visibleLocationList ext stage (layouts ! i))
              \<inter> set (visibleLocationList ext stage (layouts ! j)) = {}) \<longrightarrow>
          \<not> (\<exists>m \<in> set (drop (length (sink st)) (sink st')).
                \<exists>d. DuplicatesOfStage stage d \<in> set (snd m)))
     \<and> (\<forall>m \<in> set (drop (length (sink st)) (sink st')). \<forall>d.
          DuplicatesOfStage stage d \<in> set (snd m) \<longrightarrow>
            set d = {l. \<exists>i j. i < j \<and> j < length layouts
                      \<and> l \<in> set (visibleLocationList ext stage (layouts ! i))
                      \<and> l \<in> set (visibleLocationList ext stage (layouts ! j))})"
proof (intro conjI allI impI ballI)
  fix l i j
  assume "i < j \<and> j < length layouts
            \<and> l \<in> set (visibleLocationList ext stage (layouts ! i))
            \<and> l \<in> set (visibleLocationList ext stage (layouts ! j))"
  then have ij: "i < j" "j < length layouts"
    "l \<in> set (visibleLocationList ext (shaderType (shader_getDesc shader)) (layouts ! i))"
    "l \<in> set (visibleLocationList ext (shaderType (shader_getDesc shader)) (layouts ! j))"
    using stage by simp_all
  define d0 where "d0 = stageDuplicates (stageSummaries ext stage layouts)"
  have e: "dupEntry ext layouts shader = [DuplicatesOfStage stage d0]" and l: "l \<in> set d0"
    using dupEntry_shared [OF ij] stage d0_def by simp_all
  then have ne1: "dupEntry ext layouts shader \<noteq> []" by simp
  from dupEntries_nonempty [OF sh ne1] have ne: "dupEntries ext layouts shaders \<noteq> []" .
  have "DuplicatesOfStage stage d0 \<in> set (dupEntry ext layouts shader)" using e by simp
  with sh have mem: "DuplicatesOfStage stage d0 \<in> set (dupEntries ext layouts shaders)"
    by (auto simp add: dupEntries_def)
  from validatePipelineBindingLayouts_result(1) [OF v] ne obtain pre rest where
    s: "sink st' = sink st @ pre
          @ [(Error, DuplicatesHeader # dupEntries ext layouts shaders)] @ rest"
    by auto
  then have "(Error, DuplicatesHeader # dupEntries ext layouts shaders)
      \<in> set (drop (length (sink st)) (sink st'))" by simp
  with mem l show "\<exists>m \<in> set (drop (length (sink st)) (sink st')). fst m = Error
              \<and> (\<exists>d. DuplicatesOfStage stage d \<in> set (snd m) \<and> l \<in> set d)"
    by force
  from validatePipelineBindingLayouts_result(2) [OF v] ne show "r \<noteq> Inr True" by blast
  show "pipelineNotCreated s (createComputePipeline ext dev s cd)"
    if "CS cd = Some shader \<and> cp_bindingLayouts cd = layouts" for s cd
    using createComputePipeline_fails [of cd shader ext dev s] that ne1
    by (intro pipelineNotCreatedI) simp
  show "pipelineNotCreated s (createGraphicsPipeline ext dev s gd fb)"
    if "Some shader \<in> {gp_VS gd, gp_HS gd, gp_DS gd, gp_GS gd, gp_PS gd}
         \<and> gp_bindingLayouts gd = layouts" for s gd fb
    using createGraphicsPipeline_fails [of shader gd ext dev s fb] that ne1
    by (intro pipelineNotCreatedI) simp
  show "pipelineNotCreated s (createMeshletPipeline ext dev s md fb)"
    if "Some shader \<in> {mp_AS md, mp_MS md, mp_PS md} \<and> mp_bindingLayouts md = layouts"
    for s md fb
    using createMeshletPipeline_fails [of shader md ext dev s fb] that ne1
    by (intro pipelineNotCreatedI) simp
next
  assume dis: "\<forall>i j. i < j \<and> j < length layouts \<longrightarrow>
            set (visibleLocationList ext stage (layouts ! i))
              \<inter> set (visibleLocationList ext stage (layouts ! j)) = {}"
  show "\<not> (\<exists>m \<in> set (drop (length (sink st)) (sink st')).
                \<exists>d. DuplicatesOfStage stage d \<in> set (snd m))"
  proof
    assume "\<exists>m \<in> set (drop (length (sink st)) (sink st')).
                \<exists>d. DuplicatesOfStage stage d \<in> set (snd m)"
    then obtain d where "\<exists>m \<in> set (drop (length (sink st)) (sink st')).
        DuplicatesOfStage stage d \<in> set (snd m)" by blast
    then have "DuplicatesOfStage stage d \<in> set (dupEntries ext layouts shaders)"
      unfolding pipeline_new_messages(1) [OF v] .
    then have len: "length layouts > 1"
      and "stageDuplicates (stageSummaries ext stage layouts) \<noteq> []"
      unfolding dupEntries_mem by auto
    with noStageDuplicates_iff [OF len, of ext stage] dis show False by simp
  qed
next
  fix m d
  assume "m \<in> set (drop (length (sink st)) (sink st'))"
    and "DuplicatesOfStage stage d \<in> set (snd m)"
  then have "\<exists>m \<in> set (drop (length (sink st)) (sink st')).
        DuplicatesOfStage stage d \<in> set (snd m)" by blast
  then have "DuplicatesOfStage stage d \<in> set (dupEntries ext layouts shaders)"
    unfolding pipeline_new_messages(1) [OF v] .
  then have len: "length layouts > 1"
    and d: "d = stageDuplicates (stageSummaries ext stage layouts)"
    unfolding dupEntries_mem by simp_all
  show "set d = {l. \<exists>i j. i < j \<and> j < length layouts
                      \<and> l \<in> set (visibleLocationList ext stage (layouts ! i))
                      \<and> l \<in> set (visibleLocationList ext stage (layouts ! j))}"
    unfolding d stageDuplicates_layouts [OF len] ..
qed


lemma pair_of_two:
  "(\<exists>i j. i < j \<and> j < length [a, b] \<and> P i j) = P 0 (Suc 0)"
proof
  assume "\<exists>i j. i < j \<and> j < length [a, b] \<and> P i j"
  then obtain i j where "i < j" "j < 2" "P i j" by auto
  then have "j = 1" "i = 0" by auto
  with \<open>P i j\<close> show "P 0 (Suc 0)" by simp
next
  assume "P 0 (Suc 0)"
  then have "0 < Suc 0 \<and> Suc 0 < length [a, b] \<and> P 0 (Suc 0)" by simp
  then show "\<exists>i j. i < j \<and> j < length [a, b] \<and> P i j" by blast
qed

lemma all_pair_of_two:
  "(\<forall>i j. i < j \<and> j < length [a, b] \<longrightarrow> P i j) = P 0 (Suc 0)"
  using pair_of_two [of a b "\<lambda>i j. \<not> P i j"] by blast

lemma vis_layoutWith:
  "visibleLocationList ext0 {Compute} (Some (layoutWith n slots)) = map srvLocation slots"
  by (induction slots)
    (simp_all add: visibleLocationList_def layoutWith_def layoutLocationList_def srvItem_def
      ext0_def resourceClass_def srvLocation_def)




text \<open>
  Two layouts visible to the compute stage that both declare the texture SRV slot 3 give
  the duplicate-binding entry and no pipeline; declaring the slots 3 and 5 they give no
  such entry.
\<close>

theorem pipeline_duplicate_bindings_witness:
  "(\<exists>m \<in> set (sink (fst (validatePipelineBindingLayouts ext0 devBig st0
                  (cp_bindingLayouts (computeDesc [3] [3])) [shaderCS]))).
       fst m = Error
       \<and> (\<exists>d. DuplicatesOfStage {Compute} d \<in> set (snd m) \<and> srvLocation 3 \<in> set d))
   \<and> snd (validatePipelineBindingLayouts ext0 devBig st0
            (cp_bindingLayouts (computeDesc [3] [3])) [shaderCS]) \<noteq> Inr True
   \<and> pipelineNotCreated st0 (createComputePipeline ext0 devBig st0 (computeDesc [3] [3]))
   \<and> \<not> (\<exists>m \<in> set (sink (fst (validatePipelineBindingLayouts ext0 devBig st0
                  (cp_bindingLayouts (computeDesc [3] [5])) [shaderCS]))).
          \<exists>d. DuplicatesOfStage {Compute} d \<in> set (snd m))"
proof -
  have s: "{Compute} = shaderType (shader_getDesc shaderCS)" by (simp add: shaderCS_def)
  have sh: "shaderCS \<in> set [shaderCS]" by simp
  have a: "(0 :: nat) < 1 \<and> 1 < length (cp_bindingLayouts (computeDesc [3] [3]))
     \<and> srvLocation 3 \<in> set (visibleLocationList ext0 {Compute}
          (cp_bindingLayouts (computeDesc [3] [3]) ! 0))
     \<and> srvLocation 3 \<in> set (visibleLocationList ext0 {Compute}
          (cp_bindingLayouts (computeDesc [3] [3]) ! 1))"
    by (simp add: computeDesc_def vis_layoutWith)
  have b: "\<forall>i j. i < j \<and> j < length (cp_bindingLayouts (computeDesc [3] [5])) \<longrightarrow>
      set (visibleLocationList ext0 {Compute} (cp_bindingLayouts (computeDesc [3] [5]) ! i))
       \<inter> set (visibleLocationList ext0 {Compute} (cp_bindingLayouts (computeDesc [3] [5]) ! j))
       = {}"
    unfolding computeDesc_def ComputePipelineDesc.simps all_pair_of_two
    by (simp add: vis_layoutWith srvLocation_def)
  have c: "CS (computeDesc [3] [3]) = Some shaderCS
      \<and> cp_bindingLayouts (computeDesc [3] [3]) = cp_bindingLayouts (computeDesc [3] [3])"
    by (simp add: computeDesc_def)
  note t1 = pipeline_duplicate_bindings [where ext = ext0 and dev = devBig and st = st0
      and layouts = "cp_bindingLayouts (computeDesc [3] [3])" and shaders = "[shaderCS]",
      OF prod.collapse [symmetric] sh s]
  note t2 = pipeline_duplicate_bindings [where ext = ext0 and dev = devBig and st = st0
      and layouts = "cp_bindingLayouts (computeDesc [3] [5])" and shaders = "[shaderCS]",
      OF prod.collapse [symmetric] sh s]
  note A = t1 [THEN conjunct1, THEN spec, THEN spec, THEN spec, THEN mp, OF a]
  note A1 = A [THEN conjunct1]
  note A2 = A [THEN conjunct2, THEN conjunct1]
  note A3 = A [THEN conjunct2, THEN conjunct2, THEN conjunct1, THEN spec, THEN spec, THEN mp,
      OF c]
  note B = t2 [THEN conjunct2, THEN conjunct1, THEN mp, OF b]
  from A1 A2 A3 B show ?thesis by (simp add: st0_def)
qed


text \<open>
  The whole call evaluated on the first of these inputs: one error message, no call of
  the wrapped device, null returned.
\<close>

lemma createComputePipeline_duplicate_example:
  "createComputePipeline ext0 devBig st0 (computeDesc [3] [3]) =
    (\<lparr>sink = [(Error, [DuplicatesHeader, DuplicatesOfStage {Compute} [srvLocation 3]])],
      calls = []\<rparr>, Inr None)"
  by (simp add: createComputePipeline_def validatePipelineBindingLayouts_def computeDesc_def
      shaderCS_def layoutWith_def srvItem_def validateStage_def accumulateStage_def
      accumulateLayout_def stageDuplicates_def FillBindingLayoutSummary_def
      UpdateBindingSummaryWithLocation_def classify_def BindingSummary_init_def Range_init_def
      Range_add_def SetIntersection_def SetUnionInplace_def BindingSummary_any_def
      ext0_def st0_def devBig_def error_def backend_def report_if_def Let_def srvLocation_def)

section \<open>The messages of one call of the decorator\<close>



















text \<open>
  The validation of the binding layouts of a pipeline sends one message for each kind of
  finding as well: here one for the duplicate binding and one for the push constants.
\<close>

lemma createComputePipeline_two_messages:
  "createComputePipeline ext0 devBig st0 twoFaultsDesc =
    (\<lparr>sink = [(Error, [DuplicatesHeader, DuplicatesOfStage {Compute} [srvLocation 3]]),
              (Error, [PushConstantsTooLarge 200])],
      calls = []\<rparr>, Inr None)"
  by (simp add: createComputePipeline_def validatePipelineBindingLayouts_def twoFaultsDesc_def
      shaderCS_def layoutWith_def srvItem_def pushItem_def validateStage_def accumulateStage_def
      accumulateLayout_def stageDuplicates_def FillBindingLayoutSummary_def
      UpdateBindingSummaryWithLocation_def classify_def BindingSummary_init_def Range_init_def
      Range_add_def SetIntersection_def SetUnionInplace_def BindingSummary_any_def
      ext0_def st0_def devBig_def error_def backend_def report_if_def Let_def srvLocation_def)


end
